theory Spec2Isabelle
  imports Complex_Main "HOL-Library.Option_ord" "HOL-Library.List_Lexorder"
    "HOL-Library.Product_Lexorder"
begin

section \<open>Data model of the budget and alert engine\<close>

text \<open>
  The engine is the Go package \<^verbatim>\<open>models\<close>: \<^verbatim>\<open>CreateBudget\<close>, \<^verbatim>\<open>GetBudget\<close>,
  \<^verbatim>\<open>GetBudgets\<close>, \<^verbatim>\<open>UpdateBudget\<close>, \<^verbatim>\<open>DeleteBudget\<close>, \<^verbatim>\<open>CreateBudgetAlert\<close>,
  \<^verbatim>\<open>GetBudgetAlerts\<close>, \<^verbatim>\<open>UpdateBudgetAlert\<close>, \<^verbatim>\<open>DeleteBudgetAlert\<close> and
  \<^verbatim>\<open>CheckBudgetAlerts\<close>. Every function talks to MySQL through \<^verbatim>\<open>database/sql\<close>.
  The embedding keeps the tables of \<^verbatim>\<open>initTables\<close> as lists of rows, every SQL
  statement as a function on those lists, and every call of the driver as a step that
  is counted and may fail.

  Conventions:
  \<^item> Go's \<^verbatim>\<open>uint\<close> identifiers are \<open>nat\<close>, Go's \<^verbatim>\<open>int\<close> threshold is \<open>int\<close>.
  \<^item> A \<^verbatim>\<open>DECIMAL\<close> column holds an exact \<open>real\<close>. A Go \<^verbatim>\<open>float64\<close> is the \<open>real\<close> it
    denotes; every conversion to \<^verbatim>\<open>float64\<close> and every operation on \<^verbatim>\<open>float64\<close>
    rounds as IEEE 754 binary64 does (section \<open>float64\<close> below).
  \<^item> A nullable column is an \<open>option\<close>.
  \<^item> The \<^verbatim>\<open>month\<close> column of \<^verbatim>\<open>budgets\<close> is only ever written from
    \<^verbatim>\<open>time.Parse("2006-01", _)\<close> and only ever read through
    \<^verbatim>\<open>DATE_FORMAT(month, '%Y-%m')\<close>; it is kept as the pair (year, month).
  \<^item> The columns \<^verbatim>\<open>created_at\<close> and \<^verbatim>\<open>updated_at\<close> are left out.
\<close>

record date =
  year :: nat
  month :: nat
  day :: nat

type_synonym year_month = "nat \<times> nat"

record category_row =
  c_id :: nat
  c_user_id :: nat
  c_name :: string
  c_type :: string
  c_icon :: "string option"

record bill_row =
  bl_id :: nat
  bl_user_id :: nat
  bl_category_id :: nat
  bl_amount :: real
  bl_type :: string
  bl_date :: date

record budget_row =
  b_id :: nat
  b_user_id :: nat
  b_category_id :: "nat option"
  b_amount :: real
  b_month :: year_month

record alert_row =
  a_id :: nat
  a_user_id :: nat
  a_budget_id :: nat
  a_threshold :: int
  a_is_active :: bool

text \<open>
  The database: the four tables the engine reads or writes, and the two
  \<^verbatim>\<open>AUTO_INCREMENT\<close> counters that \<^verbatim>\<open>LastInsertId\<close> reports.
\<close>

record database =
  categories :: "category_row list"
  bills :: "bill_row list"
  budgets :: "budget_row list"
  budget_alerts :: "alert_row list"
  next_budget_id :: nat
  next_alert_id :: nat

text \<open>The structs of the package (without their timestamps).\<close>

record Budget =
  ID :: nat
  UserID :: nat
  CategoryID :: nat
  Amount :: real
  Month :: date
  CategoryName :: string
  CategoryIcon :: string
  UsedAmount :: real
  Percentage :: real

record BudgetRequest =
  req_CategoryID :: nat
  req_Amount :: real
  req_Month :: string

record BudgetAlert =
  alert_ID :: nat
  alert_UserID :: nat
  alert_BudgetID :: nat
  alert_Threshold :: int
  alert_IsActive :: bool

record BudgetAlertRequest =
  areq_BudgetID :: nat
  areq_Threshold :: int
  areq_IsActive :: bool

text \<open>
  The errors the package returns. The source builds them with \<^verbatim>\<open>errors.New\<close> from a
  message; each constructor stands for one message. \<open>SqlErrNoRows\<close> is
  \<^verbatim>\<open>sql.ErrNoRows\<close> handed back as it is, \<open>SqlDuplicateEntry\<close> the server's refusal of
  a row that breaks \<^verbatim>\<open>UNIQUE KEY unique_budget\<close>, \<open>SqlDriverError\<close> any other failure
  of a statement.
\<close>

datatype error =
    ErrMonthFormat
  | ErrCategoryNotOwned
  | ErrCategoryNotExpense
  | ErrCategoryBudgetExists
  | ErrTotalBudgetExists
  | ErrBudgetNotFound
  | ErrThresholdRange
  | ErrAlertExists int
  | ErrAlertNotFound
  | SqlErrNoRows
  | SqlDuplicateEntry
  | SqlDriverError
  | TimeParseError

section \<open>\<^verbatim>\<open>float64\<close>\<close>

text \<open>
  A finite \<^verbatim>\<open>float64\<close> is \<open>m * 2 ^ q\<close> with an integer \<open>m\<close> of at most 53 bits and
  \<open>q \<ge> -1074\<close>. \<open>float64 x\<close> is the value of that form nearest to \<open>x\<close>, a tie going to
  the even \<open>m\<close>: the rounding of IEEE 754 binary64 that Go applies to the result of
  every operation, and \<^verbatim>\<open>strconv.ParseFloat\<close> to the decimal string in which the
  driver delivers a \<^verbatim>\<open>DECIMAL\<close> column. Overflow to an infinity is left out: the
  columns are \<^verbatim>\<open>DECIMAL(10,2)\<close> and a sum of them is a \<^verbatim>\<open>DECIMAL(32,2)\<close>, so no
  value of the package comes near \<open>2 ^ 1024\<close>.
\<close>

text \<open>The number of bits of a natural number.\<close>

fun bit_length :: "nat \<Rightarrow> nat" where
  "bit_length n = (if n = 0 then 0 else Suc (bit_length (n div 2)))"

declare bit_length.simps [simp del]

definition pow2 :: "int \<Rightarrow> real" where
  "pow2 k = (if 0 \<le> k then 2 ^ nat k else 1 / 2 ^ nat (- k))"

text \<open>The exponent \<open>e\<close> of a positive real \<open>x\<close>: \<open>2 ^ e \<le> x < 2 ^ (e + 1)\<close>.\<close>

definition binary_exponent :: "real \<Rightarrow> int" where
  "binary_exponent x =
     (if 1 \<le> x then int (bit_length (nat \<lfloor>x\<rfloor>)) - 1
      else - int (bit_length (nat (\<lceil>1 / x\<rceil> - 1))))"

definition round_half_even :: "real \<Rightarrow> int" where
  "round_half_even y =
     (let f = \<lfloor>y\<rfloor>; r = y - of_int f in
      if r < 1 / 2 then f else if 1 / 2 < r then f + 1 else if even f then f else f + 1)"

definition float64 :: "real \<Rightarrow> real" where
  "float64 x =
     (if x = 0 then 0
      else let q = max (binary_exponent \<bar>x\<bar> - 52) (- 1074)
           in of_int (round_half_even (x / pow2 q)) * pow2 q)"

text \<open>
  Go's \<^verbatim>\<open>x / y\<close> and \<^verbatim>\<open>x * y\<close> on \<^verbatim>\<open>float64\<close>, and the conversion \<^verbatim>\<open>float64(n)\<close> of an
  \<^verbatim>\<open>int\<close>. The package divides only by an amount it has found positive.
\<close>

definition float64_div :: "real \<Rightarrow> real \<Rightarrow> real" where
  "float64_div x y = float64 (x / y)"

definition float64_mul :: "real \<Rightarrow> real \<Rightarrow> real" where
  "float64_mul x y = float64 (x * y)"

definition float64_of_int :: "int \<Rightarrow> real" where
  "float64_of_int n = float64 (of_int n)"

section \<open>Calendar arithmetic of \<^verbatim>\<open>time.Time\<close>\<close>

text \<open>
  A \<^verbatim>\<open>time.Time\<close> in UTC is a calendar date and the second of its day. Only the
  operations the package uses are modelled: \<^verbatim>\<open>time.Parse("2006-01", s)\<close>,
  \<^verbatim>\<open>AddDate(0, 1, 0)\<close>, \<^verbatim>\<open>Add(-time.Second)\<close> and \<^verbatim>\<open>Format("2006-01-02")\<close>.
\<close>

type_synonym Time = "date \<times> nat"

definition is_leap :: "nat \<Rightarrow> bool" where
  "is_leap y \<longleftrightarrow> (y mod 4 = 0 \<and> y mod 100 \<noteq> 0) \<or> y mod 400 = 0"

definition days_in_month :: "nat \<Rightarrow> nat \<Rightarrow> nat" where
  "days_in_month y m =
     (if m = 2 then (if is_leap y then 29 else 28)
      else if m = 4 \<or> m = 6 \<or> m = 9 \<or> m = 11 then 30
      else 31)"

text \<open>Dates compare as MySQL compares \<^verbatim>\<open>DATE\<close> values: year, then month, then day.\<close>

definition date_le :: "date \<Rightarrow> date \<Rightarrow> bool" where
  "date_le d e \<longleftrightarrow>
     year d < year e \<or>
     (year d = year e \<and> (month d < month e \<or> (month d = month e \<and> day d \<le> day e)))"

definition digit :: "char \<Rightarrow> nat option" where
  "digit ch =
     (let n = (of_char ch :: nat) in if 48 \<le> n \<and> n \<le> 57 then Some (n - 48) else None)"

text \<open>
  The layout \<^verbatim>\<open>"2006-01"\<close>: four digits, a dash, two digits, with the month in 1..12.
\<close>

fun parse_year_month :: "string \<Rightarrow> year_month option" where
  "parse_year_month [y1, y2, y3, y4, dash, m1, m2] =
     (case (digit y1, digit y2, digit y3, digit y4, digit m1, digit m2) of
        (Some a, Some b, Some c, Some d, Some e, Some f) \<Rightarrow>
          if dash = CHR ''-'' \<and> 1 \<le> 10 * e + f \<and> 10 * e + f \<le> 12
          then Some (1000 * a + 100 * b + 10 * c + d, 10 * e + f)
          else None
      | _ \<Rightarrow> None)"
| "parse_year_month _ = None"

definition month_start :: "year_month \<Rightarrow> Time" where
  "month_start ym = (\<lparr>year = fst ym, month = snd ym, day = 1\<rparr>, 0)"

definition time_Parse :: "string \<Rightarrow> Time option" where
  "time_Parse s = map_option month_start (parse_year_month s)"

text \<open>
  \<^verbatim>\<open>DATE_FORMAT(month, '%Y-%m') = ?\<close> compares the formatted column with a string. The
  formatted column is four digits, a dash and two digits, so the strings are equal
  exactly when the parameter parses to the stored year and month.
\<close>

definition DATE_FORMAT_eq :: "year_month \<Rightarrow> string \<Rightarrow> bool" where
  "DATE_FORMAT_eq ym s \<longleftrightarrow> parse_year_month s = Some ym"

text \<open>
  \<^verbatim>\<open>time.Parse("2006-01", monthStr)\<close> on the string \<^verbatim>\<open>DATE_FORMAT\<close> made from a stored
  month: it fails only on a stored value that is no month of the calendar.
\<close>

definition parse_stored_month :: "year_month \<Rightarrow> Time option" where
  "parse_stored_month ym =
     (if fst ym \<le> 9999 \<and> 1 \<le> snd ym \<and> snd ym \<le> 12 then Some (month_start ym) else None)"

text \<open>
  \<^verbatim>\<open>t.AddDate(0, 1, 0)\<close>: the next month, the year carried after December, and a day
  the next month does not have carried into the month after it.
\<close>

definition AddDate_0_1_0 :: "Time \<Rightarrow> Time" where
  "AddDate_0_1_0 t =
     (let d = fst t;
          y = (if month d \<ge> 12 then year d + 1 else year d);
          m = (if month d \<ge> 12 then month d - 11 else month d + 1)
      in if day d \<le> days_in_month y m then (\<lparr>year = y, month = m, day = day d\<rparr>, snd t)
         else if m \<ge> 12 then (\<lparr>year = y + 1, month = 1, day = day d - days_in_month y m\<rparr>, snd t)
         else (\<lparr>year = y, month = m + 1, day = day d - days_in_month y m\<rparr>, snd t))"

definition prev_day :: "date \<Rightarrow> date" where
  "prev_day d =
     (if day d > 1 then d\<lparr>day := day d - 1\<rparr>
      else if month d > 1
        then \<lparr>year = year d, month = month d - 1, day = days_in_month (year d) (month d - 1)\<rparr>
        else \<lparr>year = year d - 1, month = 12, day = 31\<rparr>)"

definition Add_minus_second :: "Time \<Rightarrow> Time" where
  "Add_minus_second t = (if snd t > 0 then (fst t, snd t - 1) else (prev_day (fst t), 86399))"

definition Format_date :: "Time \<Rightarrow> date" where
  "Format_date t = fst t"

section \<open>The connection: counted statements that may fail\<close>

text \<open>
  \<^verbatim>\<open>DB\<close> is the process-wide handle. A \<open>conn\<close> holds the database behind it and the
  number of statements sent so far. \<open>F n\<close> says that the statement numbered \<open>n\<close>
  fails in the driver; a failed statement changes nothing.
\<close>

record conn =
  store :: database
  issued :: nat

type_synonym faults = "nat \<Rightarrow> bool"

type_synonym 'a io = "conn \<Rightarrow> (error + 'a) \<times> conn"

definition statement :: "faults \<Rightarrow> (database \<Rightarrow> error + 'a \<times> database) \<Rightarrow> 'a io" where
  "statement F f c =
     (let c1 = c\<lparr>issued := Suc (issued c)\<rparr> in
      if F (issued c) then (Inl SqlDriverError, c1)
      else case f (store c) of
             Inl e \<Rightarrow> (Inl e, c1)
           | Inr (x, db) \<Rightarrow> (Inr x, c1\<lparr>store := db\<rparr>))"

text \<open>\<^verbatim>\<open>DB.Query\<close> with its \<^verbatim>\<open>rows.Next\<close> loop: all rows of a \<^verbatim>\<open>SELECT\<close>.\<close>

definition Query :: "faults \<Rightarrow> (database \<Rightarrow> 'a) \<Rightarrow> 'a io" where
  "Query F q = statement F (\<lambda>db. Inr (q db, db))"

text \<open>\<^verbatim>\<open>DB.QueryRow(...).Scan\<close>: the first row, \<^verbatim>\<open>sql.ErrNoRows\<close> when there is none.\<close>

definition QueryRow :: "faults \<Rightarrow> (database \<Rightarrow> 'a list) \<Rightarrow> 'a io" where
  "QueryRow F q =
     statement F (\<lambda>db. case q db of [] \<Rightarrow> Inl SqlErrNoRows | r # _ \<Rightarrow> Inr (r, db))"

text \<open>\<^verbatim>\<open>DB.Exec\<close>: a statement that writes, or is refused by a constraint.\<close>

definition Exec :: "faults \<Rightarrow> (database \<Rightarrow> error + 'a \<times> database) \<Rightarrow> 'a io" where
  "Exec F f = statement F f"

section \<open>Reading a budget: \<^verbatim>\<open>GetBudget\<close> and \<^verbatim>\<open>GetBudgets\<close>\<close>

text \<open>\<^verbatim>\<open>FROM budgets b LEFT JOIN categories c ON b.category_id = c.id\<close>, for one budget row.\<close>

definition left_join_category ::
  "database \<Rightarrow> budget_row \<Rightarrow> (budget_row \<times> category_row option) list" where
  "left_join_category db b =
     (case filter (\<lambda>c. b_category_id b = Some (c_id c)) (categories db) of
        [] \<Rightarrow> [(b, None)]
      | cs \<Rightarrow> map (\<lambda>c. (b, Some c)) cs)"

text \<open>\<^verbatim>\<open>... WHERE b.id = ? AND b.user_id = ?\<close>\<close>

definition select_budget ::
  "nat \<Rightarrow> nat \<Rightarrow> database \<Rightarrow> (budget_row \<times> category_row option) list" where
  "select_budget bid userID db =
     concat (map (left_join_category db)
       (filter (\<lambda>b. b_id b = bid \<and> b_user_id b = userID) (budgets db)))"

text \<open>
  \<^verbatim>\<open>ORDER BY b.category_id IS NULL DESC, c.name\<close>: the rows without a category first,
  then the others by the name of their category, a \<^verbatim>\<open>NULL\<close> name before every name.
  Names are compared byte by byte, a letter of ASCII without its case: this is the
  order of the case-insensitive collations of \<^verbatim>\<open>utf8mb4\<close> on names made of ASCII
  letters and digits. SQL leaves the order of rows with equal keys open; they stay in
  table order.
\<close>

definition collation_weight :: "char \<Rightarrow> nat" where
  "collation_weight ch =
     (let n = (of_char ch :: nat) in if 97 \<le> n \<and> n \<le> 122 then n - 32 else n)"

definition order_key :: "budget_row \<times> category_row option \<Rightarrow> nat \<times> nat list option" where
  "order_key r =
     (if b_category_id (fst r) = None then 0 else 1,
      map_option (\<lambda>c. map collation_weight (c_name c)) (snd r))"

text \<open>
  \<^verbatim>\<open>... WHERE b.user_id = ? AND DATE_FORMAT(b.month, '%Y-%m') = ? ORDER BY ...\<close>
\<close>

definition select_budgets ::
  "nat \<Rightarrow> string \<Rightarrow> database \<Rightarrow> (budget_row \<times> category_row option) list" where
  "select_budgets userID mstr db =
     sort_key order_key
       (concat (map (left_join_category db)
         (filter (\<lambda>b. b_user_id b = userID \<and> DATE_FORMAT_eq (b_month b) mstr) (budgets db))))"

text \<open>
  \<^verbatim>\<open>Scan\<close> into a fresh \<^verbatim>\<open>&Budget{}\<close>, the amount converted to \<^verbatim>\<open>float64\<close>, the
  nullable columns copied when valid, and the month string parsed back. \<^verbatim>\<open>UsedAmount\<close>
  and \<^verbatim>\<open>Percentage\<close> keep Go's zero value.
\<close>

definition scan_budget :: "budget_row \<times> category_row option \<Rightarrow> error + Budget" where
  "scan_budget r =
     (case parse_stored_month (b_month (fst r)) of
        None \<Rightarrow> Inl TimeParseError
      | Some t \<Rightarrow>
          Inr \<lparr>ID = b_id (fst r), UserID = b_user_id (fst r),
               CategoryID = (case b_category_id (fst r) of None \<Rightarrow> 0 | Some k \<Rightarrow> k),
               Amount = float64 (b_amount (fst r)), Month = fst t,
               CategoryName = (case snd r of None \<Rightarrow> [] | Some cr \<Rightarrow> c_name cr),
               CategoryIcon =
                 (case snd r of None \<Rightarrow> []
                  | Some cr \<Rightarrow> (case c_icon cr of None \<Rightarrow> [] | Some i \<Rightarrow> i)),
               UsedAmount = 0, Percentage = 0\<rparr>)"

text \<open>\<^verbatim>\<open>SELECT COALESCE(SUM(amount), 0) FROM bills WHERE ...\<close>: always one row.\<close>

definition sum_category_expenses ::
  "nat \<Rightarrow> nat \<Rightarrow> date \<Rightarrow> date \<Rightarrow> database \<Rightarrow> real list" where
  "sum_category_expenses userID categoryID s e db =
     [sum_list (map bl_amount
        (filter (\<lambda>x. bl_user_id x = userID \<and> bl_category_id x = categoryID \<and>
                     bl_type x = ''expense'' \<and> date_le s (bl_date x) \<and> date_le (bl_date x) e)
           (bills db)))]"

definition sum_expenses :: "nat \<Rightarrow> date \<Rightarrow> date \<Rightarrow> database \<Rightarrow> real list" where
  "sum_expenses userID s e db =
     [sum_list (map bl_amount
        (filter (\<lambda>x. bl_user_id x = userID \<and>
                     bl_type x = ''expense'' \<and> date_le s (bl_date x) \<and> date_le (bl_date x) e)
           (bills db)))]"

definition used_amount_query :: "Budget \<Rightarrow> nat \<Rightarrow> Time \<Rightarrow> Time \<Rightarrow> database \<Rightarrow> real list" where
  "used_amount_query budget userID startDate endDate =
     (if CategoryID budget > 0
      then sum_category_expenses userID (CategoryID budget)
             (Format_date startDate) (Format_date endDate)
      else sum_expenses userID (Format_date startDate) (Format_date endDate))"

text \<open>
  \<^verbatim>\<open>if budget.Amount > 0 { budget.Percentage = (budget.UsedAmount / budget.Amount) * 100 }\<close>
\<close>

definition set_percentage :: "Budget \<Rightarrow> Budget" where
  "set_percentage budget =
     (if Amount budget > 0
      then budget\<lparr>Percentage :=
             float64_mul (float64_div (UsedAmount budget) (Amount budget)) 100\<rparr>
      else budget)"

text \<open>
  \<^verbatim>\<open>Scan(&budget.UsedAmount)\<close> converts the sum, a \<^verbatim>\<open>DECIMAL\<close>, to \<^verbatim>\<open>float64\<close>.
\<close>

definition GetBudget :: "faults \<Rightarrow> nat \<Rightarrow> nat \<Rightarrow> Budget io" where
  "GetBudget F bid userID c =
     (case QueryRow F (select_budget bid userID) c of
        (Inl e, c1) \<Rightarrow> (Inl (if e = SqlErrNoRows then ErrBudgetNotFound else e), c1)
      | (Inr r, c1) \<Rightarrow>
          (case scan_budget r of
             Inl e \<Rightarrow> (Inl e, c1)
           | Inr budget \<Rightarrow>
               (let startDate = (Month budget, 0);
                    endDate = Add_minus_second (AddDate_0_1_0 startDate)
                in case QueryRow F (used_amount_query budget userID startDate endDate) c1 of
                     (Inl e, c2) \<Rightarrow> (Inl e, c2)
                   | (Inr used, c2) \<Rightarrow>
                       (Inr (set_percentage (budget\<lparr>UsedAmount := float64 used\<rparr>)), c2))))"

text \<open>The \<^verbatim>\<open>rows.Next\<close> loop of \<^verbatim>\<open>GetBudgets\<close>, appending to \<^verbatim>\<open>budgets\<close>.\<close>

fun budgets_loop ::
  "faults \<Rightarrow> nat \<Rightarrow> Time \<Rightarrow> Time \<Rightarrow> Budget list \<Rightarrow>
   (budget_row \<times> category_row option) list \<Rightarrow> Budget list io" where
  "budgets_loop F userID startDate endDate acc [] c = (Inr acc, c)"
| "budgets_loop F userID startDate endDate acc (r # rs) c =
     (case scan_budget r of
        Inl e \<Rightarrow> (Inl e, c)
      | Inr budget \<Rightarrow>
          (case QueryRow F (used_amount_query budget userID startDate endDate) c of
             (Inl e, c1) \<Rightarrow> (Inl e, c1)
           | (Inr used, c1) \<Rightarrow>
               budgets_loop F userID startDate endDate
                 (acc @ [set_percentage (budget\<lparr>UsedAmount := float64 used\<rparr>)]) rs c1))"

definition GetBudgets :: "faults \<Rightarrow> nat \<Rightarrow> string \<Rightarrow> Budget list io" where
  "GetBudgets F userID mstr c =
     (case time_Parse mstr of
        None \<Rightarrow> (Inl ErrMonthFormat, c)
      | Some parsedMonth \<Rightarrow>
          (let startDate = parsedMonth;
               endDate = Add_minus_second (AddDate_0_1_0 startDate)
           in case Query F (select_budgets userID mstr) c of
                (Inl e, c1) \<Rightarrow> (Inl e, c1)
              | (Inr rows, c1) \<Rightarrow> budgets_loop F userID startDate endDate [] rows c1))"

section \<open>Writing a budget: \<^verbatim>\<open>CreateBudget\<close>, \<^verbatim>\<open>UpdateBudget\<close>, \<^verbatim>\<open>DeleteBudget\<close>\<close>

text \<open>
  \<^verbatim>\<open>SELECT EXISTS(SELECT 1 FROM categories WHERE id = ? AND user_id = ?), type
  FROM categories WHERE id = ?\<close>: one row for each category with that id, none when no
  category has it.
\<close>

definition select_category_check :: "nat \<Rightarrow> nat \<Rightarrow> database \<Rightarrow> (bool \<times> string) list" where
  "select_category_check categoryID userID db =
     map (\<lambda>c. (\<exists>k \<in> set (categories db). c_id k = categoryID \<and> c_user_id k = userID, c_type c))
       (filter (\<lambda>c. c_id c = categoryID) (categories db))"

text \<open>
  \<^verbatim>\<open>SELECT COUNT(*) FROM budgets WHERE user_id = ? AND category_id = ? AND
  DATE_FORMAT(month, '%Y-%m') = ?\<close>, with \<^verbatim>\<open>AND id != ?\<close> when \<open>except\<close> names a budget.
\<close>

definition count_category_budgets ::
  "nat \<Rightarrow> nat \<Rightarrow> string \<Rightarrow> nat option \<Rightarrow> database \<Rightarrow> nat list" where
  "count_category_budgets userID categoryID mstr except db =
     [length (filter (\<lambda>b. b_user_id b = userID \<and> b_category_id b = Some categoryID \<and>
                          DATE_FORMAT_eq (b_month b) mstr \<and> Some (b_id b) \<noteq> except)
                (budgets db))]"

text \<open>The same count with \<^verbatim>\<open>category_id IS NULL\<close>.\<close>

definition count_total_budgets :: "nat \<Rightarrow> string \<Rightarrow> nat option \<Rightarrow> database \<Rightarrow> nat list" where
  "count_total_budgets userID mstr except db =
     [length (filter (\<lambda>b. b_user_id b = userID \<and> b_category_id b = None \<and>
                          DATE_FORMAT_eq (b_month b) mstr \<and> Some (b_id b) \<noteq> except)
                (budgets db))]"

text \<open>
  \<^verbatim>\<open>UNIQUE KEY unique_budget (user_id, category_id, month)\<close>. MySQL lets any number of
  rows with a \<^verbatim>\<open>NULL\<close> in a unique key stand side by side, so a row without a category
  never collides.
\<close>

definition unique_budget_clash :: "budget_row \<Rightarrow> budget_row list \<Rightarrow> bool" where
  "unique_budget_clash r rows \<longleftrightarrow>
     b_category_id r \<noteq> None \<and>
     (\<exists>b \<in> set rows. b_user_id b = b_user_id r \<and> b_category_id b = b_category_id r \<and>
                      b_month b = b_month r)"

definition stored_month :: "Time \<Rightarrow> year_month" where
  "stored_month t = (year (fst t), month (fst t))"

text \<open>
  \<^verbatim>\<open>INSERT INTO budgets (user_id, category_id, amount, month) VALUES (?, ?, ?, ?)\<close> and
  its variant without \<^verbatim>\<open>category_id\<close>; the result is \<^verbatim>\<open>LastInsertId\<close>. The amount and
  the month are stored as they are given: what the server does to a value that does
  not fit \<^verbatim>\<open>DECIMAL(10,2)\<close> or \<^verbatim>\<open>DATE\<close> (rounding to two places, refusing a value
  out of range) is not modelled, here and in \<open>update_budget\<close>.
\<close>

definition insert_budget ::
  "nat \<Rightarrow> nat option \<Rightarrow> real \<Rightarrow> Time \<Rightarrow> database \<Rightarrow> error + nat \<times> database" where
  "insert_budget userID categoryID amount t db =
     (let r = \<lparr>b_id = next_budget_id db, b_user_id = userID, b_category_id = categoryID,
                b_amount = amount, b_month = stored_month t\<rparr>
      in if unique_budget_clash r (budgets db) then Inl SqlDuplicateEntry
         else Inr (next_budget_id db,
                   db\<lparr>budgets := budgets db @ [r], next_budget_id := Suc (next_budget_id db)\<rparr>))"

text \<open>
  \<^verbatim>\<open>UPDATE budgets SET category_id = ?, amount = ?, month = ? WHERE id = ? AND
  user_id = ?\<close> and its variant with \<^verbatim>\<open>category_id = NULL\<close>.
\<close>

definition update_budget ::
  "nat \<Rightarrow> nat \<Rightarrow> nat option \<Rightarrow> real \<Rightarrow> Time \<Rightarrow> database \<Rightarrow> error + unit \<times> database" where
  "update_budget bid userID categoryID amount t db =
     (let upd = (\<lambda>b. if b_id b = bid \<and> b_user_id b = userID
                      then b\<lparr>b_category_id := categoryID, b_amount := amount,
                             b_month := stored_month t\<rparr>
                      else b)
      in if \<exists>b \<in> set (budgets db). b_id b = bid \<and> b_user_id b = userID \<and>
              unique_budget_clash (upd b) (filter (\<lambda>x. b_id x \<noteq> bid) (budgets db))
         then Inl SqlDuplicateEntry
         else Inr ((), db\<lparr>budgets := map upd (budgets db)\<rparr>))"

text \<open>
  The placement checks of \<^verbatim>\<open>CreateBudget\<close> and \<^verbatim>\<open>UpdateBudget\<close>: the same statements
  in both, \<^verbatim>\<open>UpdateBudget\<close> adding \<^verbatim>\<open>AND id != ?\<close> to the counts.
\<close>

definition check_placement :: "faults \<Rightarrow> nat \<Rightarrow> BudgetRequest \<Rightarrow> nat option \<Rightarrow> unit io" where
  "check_placement F userID req except c =
     (if req_CategoryID req > 0 then
        (case QueryRow F (select_category_check (req_CategoryID req) userID) c of
           (Inl e, c1) \<Rightarrow> (Inl e, c1)
         | (Inr (exists, categoryType), c1) \<Rightarrow>
             if \<not> exists then (Inl ErrCategoryNotOwned, c1)
             else if categoryType \<noteq> ''expense'' then (Inl ErrCategoryNotExpense, c1)
             else (case QueryRow F
                          (count_category_budgets userID (req_CategoryID req) (req_Month req) except)
                          c1 of
                     (Inl e, c2) \<Rightarrow> (Inl e, c2)
                   | (Inr count, c2) \<Rightarrow>
                       if count > 0 then (Inl ErrCategoryBudgetExists, c2) else (Inr (), c2)))
      else
        (case QueryRow F (count_total_budgets userID (req_Month req) except) c of
           (Inl e, c1) \<Rightarrow> (Inl e, c1)
         | (Inr count, c1) \<Rightarrow>
             if count > 0 then (Inl ErrTotalBudgetExists, c1) else (Inr (), c1)))"

definition CreateBudget :: "faults \<Rightarrow> nat \<Rightarrow> BudgetRequest \<Rightarrow> Budget io" where
  "CreateBudget F userID req c =
     (case time_Parse (req_Month req) of
        None \<Rightarrow> (Inl ErrMonthFormat, c)
      | Some t \<Rightarrow>
          (case check_placement F userID req None c of
             (Inl e, c1) \<Rightarrow> (Inl e, c1)
           | (Inr _, c1) \<Rightarrow>
               (case Exec F (insert_budget userID
                               (if req_CategoryID req > 0 then Some (req_CategoryID req) else None)
                               (req_Amount req) t) c1 of
                  (Inl e, c2) \<Rightarrow> (Inl e, c2)
                | (Inr budgetID, c2) \<Rightarrow> GetBudget F budgetID userID c2)))"

definition UpdateBudget :: "faults \<Rightarrow> nat \<Rightarrow> nat \<Rightarrow> BudgetRequest \<Rightarrow> Budget io" where
  "UpdateBudget F bid userID req c =
     (case GetBudget F bid userID c of
        (Inl e, c1) \<Rightarrow> (Inl e, c1)
      | (Inr budget, c1) \<Rightarrow>
          (case (if CategoryID budget \<noteq> req_CategoryID req
                 then check_placement F userID req (Some bid) c1
                 else (Inr (), c1)) of
             (Inl e, c2) \<Rightarrow> (Inl e, c2)
           | (Inr _, c2) \<Rightarrow>
               (case time_Parse (req_Month req) of
                  None \<Rightarrow> (Inl ErrMonthFormat, c2)
                | Some t \<Rightarrow>
                    (case Exec F (update_budget bid userID
                                    (if req_CategoryID req > 0 then Some (req_CategoryID req)
                                     else None)
                                    (req_Amount req) t) c2 of
                       (Inl e, c3) \<Rightarrow> (Inl e, c3)
                     | (Inr _, c3) \<Rightarrow> GetBudget F bid userID c3))))"

text \<open>
  A transaction works on a copy of the database; \<^verbatim>\<open>Commit\<close> installs the copy and
  \<^verbatim>\<open>Rollback\<close> drops it. A \<^verbatim>\<open>Commit\<close> that fails installs nothing.
\<close>

definition Begin :: "faults \<Rightarrow> database io" where
  "Begin F = statement F (\<lambda>db. Inr (db, db))"

definition tx_Exec ::
  "faults \<Rightarrow> (database \<Rightarrow> error + 'a \<times> database) \<Rightarrow> database \<Rightarrow> database io" where
  "tx_Exec F f tx c =
     (let c1 = c\<lparr>issued := Suc (issued c)\<rparr> in
      if F (issued c) then (Inl SqlDriverError, c1)
      else case f tx of Inl e \<Rightarrow> (Inl e, c1) | Inr (_, tx1) \<Rightarrow> (Inr tx1, c1))"

definition Rollback :: "database \<Rightarrow> conn \<Rightarrow> conn" where
  "Rollback tx c = c\<lparr>issued := Suc (issued c)\<rparr>"

definition Commit :: "faults \<Rightarrow> database \<Rightarrow> unit io" where
  "Commit F tx c =
     (let c1 = c\<lparr>issued := Suc (issued c)\<rparr> in
      if F (issued c) then (Inl SqlDriverError, c1) else (Inr (), c1\<lparr>store := tx\<rparr>))"

text \<open>\<^verbatim>\<open>DELETE FROM budget_alerts WHERE budget_id = ?\<close>\<close>

definition delete_alerts_of_budget :: "nat \<Rightarrow> database \<Rightarrow> error + unit \<times> database" where
  "delete_alerts_of_budget bid db =
     Inr ((), db\<lparr>budget_alerts := filter (\<lambda>a. a_budget_id a \<noteq> bid) (budget_alerts db)\<rparr>)"

text \<open>
  \<^verbatim>\<open>DELETE FROM budgets WHERE id = ? AND user_id = ?\<close>, with the
  \<^verbatim>\<open>ON DELETE CASCADE\<close> of \<^verbatim>\<open>budget_alerts.budget_id\<close> for the rows it deletes.
\<close>

definition delete_budget_row :: "nat \<Rightarrow> nat \<Rightarrow> database \<Rightarrow> error + unit \<times> database" where
  "delete_budget_row bid userID db =
     Inr ((), db\<lparr>budgets := filter (\<lambda>b. \<not> (b_id b = bid \<and> b_user_id b = userID)) (budgets db),
                 budget_alerts :=
                   (if \<exists>b \<in> set (budgets db). b_id b = bid \<and> b_user_id b = userID
                    then filter (\<lambda>a. a_budget_id a \<noteq> bid) (budget_alerts db)
                    else budget_alerts db)\<rparr>)"

definition DeleteBudget :: "faults \<Rightarrow> nat \<Rightarrow> nat \<Rightarrow> unit io" where
  "DeleteBudget F bid userID c =
     (case GetBudget F bid userID c of
        (Inl e, c1) \<Rightarrow> (Inl e, c1)
      | (Inr _, c1) \<Rightarrow>
          (case Begin F c1 of
             (Inl e, c2) \<Rightarrow> (Inl e, c2)
           | (Inr tx, c2) \<Rightarrow>
               (case tx_Exec F (delete_alerts_of_budget bid) tx c2 of
                  (Inl e, c3) \<Rightarrow> (Inl e, Rollback tx c3)
                | (Inr tx1, c3) \<Rightarrow>
                    (case tx_Exec F (delete_budget_row bid userID) tx1 c3 of
                       (Inl e, c4) \<Rightarrow> (Inl e, Rollback tx1 c4)
                     | (Inr tx2, c4) \<Rightarrow>
                         (case Commit F tx2 c4 of
                            (Inl e, c5) \<Rightarrow> (Inl e, c5)
                          | (Inr _, c5) \<Rightarrow> (Inr (), c5))))))"

section \<open>Alerts\<close>

text \<open>
  \<^verbatim>\<open>SELECT COUNT(*) FROM budget_alerts WHERE budget_id = ? AND threshold = ?\<close>, with
  \<^verbatim>\<open>AND id != ?\<close> when \<open>except\<close> names an alert.
\<close>

definition count_alerts :: "nat \<Rightarrow> int \<Rightarrow> nat option \<Rightarrow> database \<Rightarrow> nat list" where
  "count_alerts budgetID thr except db =
     [length (filter (\<lambda>a. a_budget_id a = budgetID \<and> a_threshold a = thr \<and>
                          Some (a_id a) \<noteq> except)
                (budget_alerts db))]"

text \<open>
  \<^verbatim>\<open>INSERT INTO budget_alerts (user_id, budget_id, threshold, is_active) VALUES
  (?, ?, ?, ?)\<close>; the result is \<^verbatim>\<open>LastInsertId\<close>.
\<close>

definition insert_alert ::
  "nat \<Rightarrow> nat \<Rightarrow> int \<Rightarrow> bool \<Rightarrow> database \<Rightarrow> error + nat \<times> database" where
  "insert_alert userID budgetID thr active db =
     Inr (next_alert_id db,
          db\<lparr>budget_alerts := budget_alerts db @
                [\<lparr>a_id = next_alert_id db, a_user_id = userID, a_budget_id = budgetID,
                  a_threshold = thr, a_is_active = active\<rparr>],
             next_alert_id := Suc (next_alert_id db)\<rparr>)"

definition CreateBudgetAlert :: "faults \<Rightarrow> nat \<Rightarrow> BudgetAlertRequest \<Rightarrow> BudgetAlert io" where
  "CreateBudgetAlert F userID req c =
     (case GetBudget F (areq_BudgetID req) userID c of
        (Inl e, c1) \<Rightarrow> (Inl e, c1)
      | (Inr _, c1) \<Rightarrow>
          if areq_Threshold req < 1 \<or> areq_Threshold req > 100 then (Inl ErrThresholdRange, c1)
          else
            (case QueryRow F (count_alerts (areq_BudgetID req) (areq_Threshold req) None) c1 of
               (Inl e, c2) \<Rightarrow> (Inl e, c2)
             | (Inr count, c2) \<Rightarrow>
                 if count > 0 then (Inl (ErrAlertExists (areq_Threshold req)), c2)
                 else
                   (case Exec F (insert_alert userID (areq_BudgetID req) (areq_Threshold req)
                                   (areq_IsActive req)) c2 of
                      (Inl e, c3) \<Rightarrow> (Inl e, c3)
                    | (Inr alertID, c3) \<Rightarrow>
                        (Inr \<lparr>alert_ID = alertID, alert_UserID = userID,
                              alert_BudgetID = areq_BudgetID req,
                              alert_Threshold = areq_Threshold req,
                              alert_IsActive = areq_IsActive req\<rparr>, c3))))"

definition scan_alert :: "alert_row \<Rightarrow> BudgetAlert" where
  "scan_alert a =
     \<lparr>alert_ID = a_id a, alert_UserID = a_user_id a, alert_BudgetID = a_budget_id a,
      alert_Threshold = a_threshold a, alert_IsActive = a_is_active a\<rparr>"

text \<open>
  \<^verbatim>\<open>SELECT ... FROM budget_alerts WHERE user_id = ?\<close>, \<^verbatim>\<open>AND budget_id = ?\<close> added when
  \<^verbatim>\<open>budgetID > 0\<close>, \<^verbatim>\<open>ORDER BY threshold\<close>.
\<close>

definition select_alerts :: "nat \<Rightarrow> nat \<Rightarrow> database \<Rightarrow> alert_row list" where
  "select_alerts userID budgetID db =
     sort_key a_threshold
       (filter (\<lambda>a. a_user_id a = userID \<and> (if budgetID > 0 then a_budget_id a = budgetID else True))
          (budget_alerts db))"

definition GetBudgetAlerts :: "faults \<Rightarrow> nat \<Rightarrow> nat \<Rightarrow> BudgetAlert list io" where
  "GetBudgetAlerts F userID budgetID c =
     (case Query F (select_alerts userID budgetID) c of
        (Inl e, c1) \<Rightarrow> (Inl e, c1)
      | (Inr rows, c1) \<Rightarrow> (Inr (map scan_alert rows), c1))"

text \<open>\<^verbatim>\<open>SELECT EXISTS(SELECT 1 FROM budget_alerts WHERE id = ? AND user_id = ?)\<close>\<close>

definition alert_exists :: "nat \<Rightarrow> nat \<Rightarrow> database \<Rightarrow> bool list" where
  "alert_exists aid userID db =
     [\<exists>a \<in> set (budget_alerts db). a_id a = aid \<and> a_user_id a = userID]"

text \<open>
  \<^verbatim>\<open>UPDATE budget_alerts SET budget_id = ?, threshold = ?, is_active = ? WHERE id = ?
  AND user_id = ?\<close>
\<close>

definition update_alert ::
  "nat \<Rightarrow> nat \<Rightarrow> nat \<Rightarrow> int \<Rightarrow> bool \<Rightarrow> database \<Rightarrow> error + unit \<times> database" where
  "update_alert aid userID budgetID thr active db =
     Inr ((), db\<lparr>budget_alerts :=
                   map (\<lambda>a. if a_id a = aid \<and> a_user_id a = userID
                            then a\<lparr>a_budget_id := budgetID, a_threshold := thr,
                                   a_is_active := active\<rparr>
                            else a)
                     (budget_alerts db)\<rparr>)"

text \<open>\<^verbatim>\<open>SELECT ... FROM budget_alerts WHERE id = ?\<close>\<close>

definition select_alert_by_id :: "nat \<Rightarrow> database \<Rightarrow> alert_row list" where
  "select_alert_by_id aid db = filter (\<lambda>a. a_id a = aid) (budget_alerts db)"

definition UpdateBudgetAlert ::
  "faults \<Rightarrow> nat \<Rightarrow> nat \<Rightarrow> BudgetAlertRequest \<Rightarrow> BudgetAlert io" where
  "UpdateBudgetAlert F aid userID req c =
     (case QueryRow F (alert_exists aid userID) c of
        (Inl e, c1) \<Rightarrow> (Inl e, c1)
      | (Inr exists, c1) \<Rightarrow>
          if \<not> exists then (Inl ErrAlertNotFound, c1)
          else
            (case GetBudget F (areq_BudgetID req) userID c1 of
               (Inl e, c2) \<Rightarrow> (Inl e, c2)
             | (Inr _, c2) \<Rightarrow>
                 if areq_Threshold req < 1 \<or> areq_Threshold req > 100
                 then (Inl ErrThresholdRange, c2)
                 else
                   (case QueryRow F (count_alerts (areq_BudgetID req) (areq_Threshold req)
                                       (Some aid)) c2 of
                      (Inl e, c3) \<Rightarrow> (Inl e, c3)
                    | (Inr count, c3) \<Rightarrow>
                        if count > 0 then (Inl (ErrAlertExists (areq_Threshold req)), c3)
                        else
                          (case Exec F (update_alert aid userID (areq_BudgetID req)
                                          (areq_Threshold req) (areq_IsActive req)) c3 of
                             (Inl e, c4) \<Rightarrow> (Inl e, c4)
                           | (Inr _, c4) \<Rightarrow>
                               (case QueryRow F (select_alert_by_id aid) c4 of
                                  (Inl e, c5) \<Rightarrow> (Inl e, c5)
                                | (Inr a, c5) \<Rightarrow> (Inr (scan_alert a), c5))))))"

text \<open>\<^verbatim>\<open>DELETE FROM budget_alerts WHERE id = ? AND user_id = ?\<close>\<close>

definition delete_alert :: "nat \<Rightarrow> nat \<Rightarrow> database \<Rightarrow> error + unit \<times> database" where
  "delete_alert aid userID db =
     Inr ((), db\<lparr>budget_alerts :=
                   filter (\<lambda>a. \<not> (a_id a = aid \<and> a_user_id a = userID)) (budget_alerts db)\<rparr>)"

definition DeleteBudgetAlert :: "faults \<Rightarrow> nat \<Rightarrow> nat \<Rightarrow> unit io" where
  "DeleteBudgetAlert F aid userID c =
     (case QueryRow F (alert_exists aid userID) c of
        (Inl e, c1) \<Rightarrow> (Inl e, c1)
      | (Inr exists, c1) \<Rightarrow>
          if \<not> exists then (Inl ErrAlertNotFound, c1)
          else (case Exec F (delete_alert aid userID) c1 of
                  (Inl e, c2) \<Rightarrow> (Inl e, c2)
                | (Inr _, c2) \<Rightarrow> (Inr (), c2)))"

section \<open>\<^verbatim>\<open>CheckBudgetAlerts\<close>\<close>

text \<open>
  The \<^verbatim>\<open>map[string]interface{}\<close> built for a triggered alert, key by key;
  \<^verbatim>\<open>budgetAmount\<close> is scanned into a \<^verbatim>\<open>float64\<close>.
\<close>

record AlertInfo =
  alert_id :: nat
  budget_id :: nat
  threshold :: int
  used_percent :: real
  used_amount :: real
  budget_amount :: real
  category_id :: "nat option"
  category_name :: "string option"
  budget_type :: string

text \<open>
  \<^verbatim>\<open>FROM budget_alerts ba JOIN budgets b ON ba.budget_id = b.id LEFT JOIN categories c
  ON b.category_id = c.id WHERE ba.user_id = ? AND ba.is_active = 1 AND
  DATE_FORMAT(b.month, '%Y-%m') = ?\<close>
\<close>

definition select_active_alerts ::
  "nat \<Rightarrow> string \<Rightarrow> database \<Rightarrow> (alert_row \<times> budget_row \<times> category_row option) list" where
  "select_active_alerts userID mstr db =
     concat (map (\<lambda>ba.
       concat (map (\<lambda>b. map (Pair ba) (left_join_category db b))
         (filter (\<lambda>b. a_budget_id ba = b_id b \<and> DATE_FORMAT_eq (b_month b) mstr) (budgets db))))
       (filter (\<lambda>ba. a_user_id ba = userID \<and> a_is_active ba) (budget_alerts db)))"

text \<open>The inner loop: the first loaded budget with the alert's budget id, if any.\<close>

fun find_budget :: "Budget list \<Rightarrow> nat \<Rightarrow> Budget option" where
  "find_budget [] budgetID = None"
| "find_budget (b # bs) budgetID = (if ID b = budgetID then Some b else find_budget bs budgetID)"

definition alertInfo :: "alert_row \<times> budget_row \<times> category_row option \<Rightarrow> Budget \<Rightarrow> AlertInfo" where
  "alertInfo row matchBudget =
     \<lparr>alert_id = a_id (fst row), budget_id = a_budget_id (fst row),
      threshold = a_threshold (fst row), used_percent = Percentage matchBudget,
      used_amount = UsedAmount matchBudget, budget_amount = float64 (b_amount (fst (snd row))),
      category_id = b_category_id (fst (snd row)),
      category_name =
        (case b_category_id (fst (snd row)) of
           None \<Rightarrow> None
         | Some _ \<Rightarrow> map_option c_name (snd (snd row))),
      budget_type =
        (case b_category_id (fst (snd row)) of None \<Rightarrow> ''total'' | Some _ \<Rightarrow> ''category'')\<rparr>"

fun alerts_loop ::
  "Budget list \<Rightarrow> AlertInfo list \<Rightarrow> (alert_row \<times> budget_row \<times> category_row option) list \<Rightarrow>
   AlertInfo list" where
  "alerts_loop loaded triggeredAlerts [] = triggeredAlerts"
| "alerts_loop loaded triggeredAlerts (row # rows) =
     (case find_budget loaded (a_budget_id (fst row)) of
        None \<Rightarrow> alerts_loop loaded triggeredAlerts rows
      | Some matchBudget \<Rightarrow>
          if Percentage matchBudget \<ge> float64_of_int (a_threshold (fst row))
          then alerts_loop loaded (triggeredAlerts @ [alertInfo row matchBudget]) rows
          else alerts_loop loaded triggeredAlerts rows)"

text \<open>
  \<open>currentMonth\<close> is \<^verbatim>\<open>time.Now().Format("2006-01")\<close>, the reading of the clock the
  function starts with.
\<close>

definition CheckBudgetAlerts :: "faults \<Rightarrow> nat \<Rightarrow> string \<Rightarrow> AlertInfo list io" where
  "CheckBudgetAlerts F userID currentMonth c =
     (case GetBudgets F userID currentMonth c of
        (Inl e, c1) \<Rightarrow> (Inl e, c1)
      | (Inr loaded, c1) \<Rightarrow>
          (case Query F (select_active_alerts userID currentMonth) c1 of
             (Inl e, c2) \<Rightarrow> (Inl e, c2)
           | (Inr rows, c2) \<Rightarrow> (Inr (alerts_loop loaded [] rows), c2)))"

section \<open>The handlers of \<^verbatim>\<open>BudgetController\<close>\<close>

text \<open>
  Each handler reads the caller's id with \<^verbatim>\<open>GetUserID\<close>, parses its parameters and
  calls one function of the package with that id. An \<open>operation\<close> is a handler with its
  parsed parameters, \<open>handle\<close> the call it makes, and a \<open>response\<close> what \<^verbatim>\<open>Success\<close>
  is given. For \<^verbatim>\<open>List\<close> the month is the query parameter, or the current month when
  there is none; for \<^verbatim>\<open>CheckAlerts\<close> it is the current month.
\<close>

datatype operation =
    List string
  | Create BudgetRequest
  | Get nat
  | Update nat BudgetRequest
  | Delete nat
  | CreateAlert BudgetAlertRequest
  | ListAlerts nat
  | UpdateAlert nat BudgetAlertRequest
  | DeleteAlert nat
  | CheckAlerts string

datatype response =
    Budgets "Budget list"
  | OneBudget Budget
  | Alerts "BudgetAlert list"
  | OneAlert BudgetAlert
  | Triggered "AlertInfo list"
  | Nothing

definition respond :: "('a \<Rightarrow> response) \<Rightarrow> (error + 'a) \<times> conn \<Rightarrow> (error + response) \<times> conn" where
  "respond wrap r = (case r of (Inl e, c) \<Rightarrow> (Inl e, c) | (Inr x, c) \<Rightarrow> (Inr (wrap x), c))"

fun handle :: "faults \<Rightarrow> nat \<Rightarrow> operation \<Rightarrow> response io" where
  "handle F userID (List m) c = respond Budgets (GetBudgets F userID m c)"
| "handle F userID (Create req) c = respond OneBudget (CreateBudget F userID req c)"
| "handle F userID (Get bid) c = respond OneBudget (GetBudget F bid userID c)"
| "handle F userID (Update bid req) c = respond OneBudget (UpdateBudget F bid userID req c)"
| "handle F userID (Delete bid) c = respond (\<lambda>_. Nothing) (DeleteBudget F bid userID c)"
| "handle F userID (CreateAlert req) c = respond OneAlert (CreateBudgetAlert F userID req c)"
| "handle F userID (ListAlerts bid) c = respond Alerts (GetBudgetAlerts F userID bid c)"
| "handle F userID (UpdateAlert aid req) c = respond OneAlert (UpdateBudgetAlert F aid userID req c)"
| "handle F userID (DeleteAlert aid) c = respond (\<lambda>_. Nothing) (DeleteBudgetAlert F aid userID c)"
| "handle F userID (CheckAlerts now) c = respond Triggered (CheckBudgetAlerts F userID now c)"

section \<open>What the usage computation amounts to\<close>

text \<open>
  The two steps every budget goes through after its row is scanned, in \<^verbatim>\<open>GetBudget\<close>
  and in the loop of \<^verbatim>\<open>GetBudgets\<close> alike: the sum of the bills is stored in
  \<^verbatim>\<open>UsedAmount\<close> and the percentage is computed from it.
\<close>

definition with_usage :: "database \<Rightarrow> nat \<Rightarrow> Time \<Rightarrow> Budget \<Rightarrow> Budget" where
  "with_usage db userID startDate budget =
     set_percentage (budget\<lparr>UsedAmount :=
       float64 (hd (used_amount_query budget userID startDate
                      (Add_minus_second (AddDate_0_1_0 startDate)) db))\<rparr>)"

text \<open>
  The month of a budget as the inclusive range of its first and its last day, and the
  sum of a user's expense bills in that range, over one category or over all.
\<close>

definition first_day :: "year_month \<Rightarrow> date" where
  "first_day ym = \<lparr>year = fst ym, month = snd ym, day = 1\<rparr>"

definition last_day :: "year_month \<Rightarrow> date" where
  "last_day ym = \<lparr>year = fst ym, month = snd ym, day = days_in_month (fst ym) (snd ym)\<rparr>"

definition expenses_in_month :: "database \<Rightarrow> nat \<Rightarrow> nat option \<Rightarrow> year_month \<Rightarrow> real" where
  "expenses_in_month db userID scope ym =
     sum_list (map bl_amount
       (filter (\<lambda>x. bl_user_id x = userID \<and> bl_type x = ''expense'' \<and>
                    date_le (first_day ym) (bl_date x) \<and> date_le (bl_date x) (last_day ym) \<and>
                    (case scope of None \<Rightarrow> True | Some k \<Rightarrow> bl_category_id x = k))
          (bills db)))"

definition budget_scope :: "Budget \<Rightarrow> nat option" where
  "budget_scope B = (if CategoryID B > 0 then Some (CategoryID B) else None)"

text \<open>
  The \<^verbatim>\<open>Percentage\<close> of a stored budget, from its row alone: what \<^verbatim>\<open>GetBudgets\<close>
  computes for the row, written with the sum above. The amount and the sum are
  converted to \<^verbatim>\<open>float64\<close>, then divided and multiplied in \<^verbatim>\<open>float64\<close>.
\<close>

definition row_scope :: "budget_row \<Rightarrow> nat option" where
  "row_scope b =
     (case b_category_id b of None \<Rightarrow> None | Some k \<Rightarrow> if k > 0 then Some k else None)"

definition budget_percentage :: "database \<Rightarrow> budget_row \<Rightarrow> real" where
  "budget_percentage db b =
     (if float64 (b_amount b) > 0
      then float64_mul
             (float64_div
                (float64 (expenses_in_month db (b_user_id b) (row_scope b) (b_month b)))
                (float64 (b_amount b)))
             100
      else 0)"

text \<open>
  Two properties of a database that the schema and the package maintain:
  \<^verbatim>\<open>id\<close> is the primary key of \<^verbatim>\<open>budgets\<close> and of \<^verbatim>\<open>budget_alerts\<close>, and every alert
  points to a budget of the alert's own user (\<^verbatim>\<open>CreateBudgetAlert\<close> and
  \<^verbatim>\<open>UpdateBudgetAlert\<close> look the budget up with the caller's id first).
\<close>

definition primary_keys :: "database \<Rightarrow> bool" where
  "primary_keys db \<longleftrightarrow>
     distinct (map b_id (budgets db)) \<and> distinct (map a_id (budget_alerts db))"

definition alerts_owned :: "database \<Rightarrow> bool" where
  "alerts_owned db \<longleftrightarrow>
     list_all (\<lambda>a. list_ex (\<lambda>b. b_id b = a_budget_id a \<and> b_user_id b = a_user_id a) (budgets db))
       (budget_alerts db)"

text \<open>
  The database after a budget of a user and the alerts on it are gone, and the database
  after one alert is added.
\<close>

definition without_budget :: "nat \<Rightarrow> nat \<Rightarrow> database \<Rightarrow> database" where
  "without_budget bid userID db =
     db\<lparr>budget_alerts := filter (\<lambda>a. a_budget_id a \<noteq> bid) (budget_alerts db),
        budgets := filter (\<lambda>b. \<not> (b_id b = bid \<and> b_user_id b = userID)) (budgets db)\<rparr>"

definition with_alert :: "nat \<Rightarrow> BudgetAlertRequest \<Rightarrow> database \<Rightarrow> database" where
  "with_alert userID req db =
     db\<lparr>budget_alerts := budget_alerts db @
          [\<lparr>a_id = next_alert_id db, a_user_id = userID, a_budget_id = areq_BudgetID req,
            a_threshold = areq_Threshold req, a_is_active = areq_IsActive req\<rparr>],
        next_alert_id := Suc (next_alert_id db)\<rparr>"

text \<open>
  The error classes of the specification. The package returns plain \<^verbatim>\<open>error\<close> values;
  the classes follow the specification's taxonomy: a malformed or out-of-range input
  is a validation error, a taken budget slot or a duplicate threshold a conflict, an
  absent entity of the user not found, and an error of the storage layer handed back
  as it came a persistence error.
\<close>

datatype error_class = ValidationError | ConflictError | NotFoundError | PersistenceError

fun classify :: "error \<Rightarrow> error_class" where
  "classify ErrMonthFormat = ValidationError"
| "classify ErrCategoryNotOwned = ValidationError"
| "classify ErrCategoryNotExpense = ValidationError"
| "classify ErrThresholdRange = ValidationError"
| "classify ErrCategoryBudgetExists = ConflictError"
| "classify ErrTotalBudgetExists = ConflictError"
| "classify (ErrAlertExists t) = ConflictError"
| "classify ErrBudgetNotFound = NotFoundError"
| "classify ErrAlertNotFound = NotFoundError"
| "classify SqlErrNoRows = PersistenceError"
| "classify SqlDuplicateEntry = PersistenceError"
| "classify SqlDriverError = PersistenceError"
| "classify TimeParseError = PersistenceError"

text \<open>
  The invariant of the budget table: no two budgets share user, category (or its
  absence) and month.
\<close>

definition slot_unique :: "database \<Rightarrow> bool" where
  "slot_unique db \<longleftrightarrow>
     distinct (map (\<lambda>b. (b_user_id b, b_category_id b, b_month b)) (budgets db))"

text \<open>
  The rows of one user, the records of a response that belong to a user, and two
  databases that hold the same budgets and alerts for a user.
\<close>

definition budgets_of :: "nat \<Rightarrow> database \<Rightarrow> budget_row list" where
  "budgets_of v db = filter (\<lambda>b. b_user_id b = v) (budgets db)"

definition alerts_of :: "nat \<Rightarrow> database \<Rightarrow> alert_row list" where
  "alerts_of v db = filter (\<lambda>a. a_user_id a = v) (budget_alerts db)"

fun owned_by :: "database \<Rightarrow> nat \<Rightarrow> response \<Rightarrow> bool" where
  "owned_by db u (Budgets Bs) = list_all (\<lambda>B. UserID B = u) Bs"
| "owned_by db u (OneBudget B) = (UserID B = u)"
| "owned_by db u (Alerts As) = list_all (\<lambda>A. alert_UserID A = u) As"
| "owned_by db u (OneAlert A) = (alert_UserID A = u)"
| "owned_by db u (Triggered rs) =
     list_all (\<lambda>r. list_ex (\<lambda>a. a_id a = alert_id r \<and> a_user_id a = u) (budget_alerts db) \<and>
                    list_ex (\<lambda>b. b_id b = budget_id r \<and> b_user_id b = u) (budgets db)) rs"
| "owned_by db u Nothing = True"

definition same_for :: "nat \<Rightarrow> database \<Rightarrow> database \<Rightarrow> bool" where
  "same_for v db db' \<longleftrightarrow> budgets_of v db' = budgets_of v db \<and> alerts_of v db' = alerts_of v db"

text \<open>
  AUTO_INCREMENT hands out an id above every id of the table, so the counter of a
  table is ahead of its rows. Together with the primary keys and the foreign key of
  budget_alerts this is the shape of the tables that every operation keeps.
\<close>

definition counters_ahead :: "database \<Rightarrow> bool" where
  "counters_ahead db \<longleftrightarrow>
     list_all (\<lambda>b. b_id b < next_budget_id db) (budgets db) \<and>
     list_all (\<lambda>a. a_id a < next_alert_id db) (budget_alerts db)"

definition well_formed :: "database \<Rightarrow> bool" where
  "well_formed db \<longleftrightarrow> primary_keys db \<and> alerts_owned db \<and> counters_ahead db"

section \<open>A small database\<close>

text \<open>
  Two users, 7 and 8. User 7 has a food budget of 1000 and a total budget of 2000 for
  March 2024, a total budget for April and one of amount 0 for February; the expense
  bills of March sum to 850. User 8 has one budget of its own.
\<close>

definition example_db :: database where
  "example_db =
     \<lparr>categories =
        [\<lparr>c_id = 11, c_user_id = 7, c_name = ''Food'', c_type = ''expense'', c_icon = None\<rparr>,
         \<lparr>c_id = 12, c_user_id = 7, c_name = ''Salary'', c_type = ''income'', c_icon = None\<rparr>,
         \<lparr>c_id = 13, c_user_id = 8, c_name = ''Rent'', c_type = ''expense'', c_icon = Some ''home''\<rparr>],
      bills =
        [\<lparr>bl_id = 21, bl_user_id = 7, bl_category_id = 11, bl_amount = 500, bl_type = ''expense'',
          bl_date = \<lparr>year = 2024, month = 3, day = 1\<rparr>\<rparr>,
         \<lparr>bl_id = 22, bl_user_id = 7, bl_category_id = 11, bl_amount = 350, bl_type = ''expense'',
          bl_date = \<lparr>year = 2024, month = 3, day = 31\<rparr>\<rparr>,
         \<lparr>bl_id = 23, bl_user_id = 7, bl_category_id = 11, bl_amount = 40, bl_type = ''expense'',
          bl_date = \<lparr>year = 2024, month = 4, day = 1\<rparr>\<rparr>,
         \<lparr>bl_id = 24, bl_user_id = 7, bl_category_id = 12, bl_amount = 3000, bl_type = ''income'',
          bl_date = \<lparr>year = 2024, month = 3, day = 10\<rparr>\<rparr>,
         \<lparr>bl_id = 25, bl_user_id = 8, bl_category_id = 13, bl_amount = 99, bl_type = ''expense'',
          bl_date = \<lparr>year = 2024, month = 3, day = 5\<rparr>\<rparr>,
         \<lparr>bl_id = 26, bl_user_id = 7, bl_category_id = 11, bl_amount = 10, bl_type = ''expense'',
          bl_date = \<lparr>year = 2024, month = 2, day = 29\<rparr>\<rparr>],
      budgets =
        [\<lparr>b_id = 31, b_user_id = 7, b_category_id = Some 11, b_amount = 1000, b_month = (2024, 3)\<rparr>,
         \<lparr>b_id = 32, b_user_id = 7, b_category_id = None, b_amount = 2000, b_month = (2024, 3)\<rparr>,
         \<lparr>b_id = 33, b_user_id = 7, b_category_id = None, b_amount = 2000, b_month = (2024, 4)\<rparr>,
         \<lparr>b_id = 34, b_user_id = 8, b_category_id = Some 13, b_amount = 50, b_month = (2024, 3)\<rparr>,
         \<lparr>b_id = 35, b_user_id = 7, b_category_id = None, b_amount = 0, b_month = (2024, 2)\<rparr>],
      budget_alerts =
        [\<lparr>a_id = 41, a_user_id = 7, a_budget_id = 31, a_threshold = 80, a_is_active = True\<rparr>,
         \<lparr>a_id = 42, a_user_id = 7, a_budget_id = 31, a_threshold = 90, a_is_active = True\<rparr>,
         \<lparr>a_id = 43, a_user_id = 7, a_budget_id = 31, a_threshold = 85, a_is_active = True\<rparr>,
         \<lparr>a_id = 44, a_user_id = 7, a_budget_id = 31, a_threshold = 50, a_is_active = False\<rparr>,
         \<lparr>a_id = 45, a_user_id = 8, a_budget_id = 34, a_threshold = 100, a_is_active = True\<rparr>],
      next_budget_id = 36,
      next_alert_id = 46\<rparr>"

definition no_faults :: faults where
  "no_faults n = False"

definition c0 :: conn where
  "c0 = \<lparr>store = example_db, issued = 0\<rparr>"

definition food_budget :: Budget where
  "food_budget =
     \<lparr>ID = 31, UserID = 7, CategoryID = 11, Amount = 1000, Month = first_day (2024, 3),
      CategoryName = ''Food'', CategoryIcon = [], UsedAmount = 850, Percentage = 85\<rparr>"

definition total_budget :: Budget where
  "total_budget =
     \<lparr>ID = 32, UserID = 7, CategoryID = 0, Amount = 2000, Month = first_day (2024, 3),
      CategoryName = [], CategoryIcon = [], UsedAmount = 850, Percentage = 85 / 2\<rparr>"

definition empty_budget :: Budget where
  "empty_budget =
     \<lparr>ID = 35, UserID = 7, CategoryID = 0, Amount = 0, Month = first_day (2024, 2),
      CategoryName = [], CategoryIcon = [], UsedAmount = 10, Percentage = 0\<rparr>"

text \<open>
  The same database with one more alert, of user 7 on the budget of user 8; and the
  record \<^verbatim>\<open>CheckBudgetAlerts\<close> builds for an alert on the food budget.
\<close>

definition orphan_db :: database where
  "orphan_db =
     example_db\<lparr>budget_alerts := budget_alerts example_db @
       [\<lparr>a_id = 46, a_user_id = 7, a_budget_id = 34, a_threshold = 10, a_is_active = True\<rparr>]\<rparr>"

definition food_alert :: "int \<Rightarrow> nat \<Rightarrow> AlertInfo" where
  "food_alert thr aid =
     \<lparr>alert_id = aid, budget_id = 31, threshold = thr, used_percent = 85, used_amount = 850,
      budget_amount = 1000, category_id = Some 11, category_name = Some ''Food'',
      budget_type = ''category''\<rparr>"

text \<open>A driver that fails on exactly one statement.\<close>

definition fails_at :: "nat \<Rightarrow> faults" where
  "fails_at k n \<longleftrightarrow> n = k"

text \<open>
  The total budget of April (id 33) as \<^verbatim>\<open>GetBudget\<close> returns it, the request that moves
  it to March, where the total budget 32 already is, and the database and the budget
  after the move.
\<close>

definition moved_db :: database where
  "moved_db =
     example_db\<lparr>budgets :=
       [\<lparr>b_id = 31, b_user_id = 7, b_category_id = Some 11, b_amount = 1000, b_month = (2024, 3)\<rparr>,
        \<lparr>b_id = 32, b_user_id = 7, b_category_id = None, b_amount = 2000, b_month = (2024, 3)\<rparr>,
        \<lparr>b_id = 33, b_user_id = 7, b_category_id = None, b_amount = 2000, b_month = (2024, 3)\<rparr>,
        \<lparr>b_id = 34, b_user_id = 8, b_category_id = Some 13, b_amount = 50, b_month = (2024, 3)\<rparr>,
        \<lparr>b_id = 35, b_user_id = 7, b_category_id = None, b_amount = 0, b_month = (2024, 2)\<rparr>]\<rparr>"

definition april_budget :: Budget where
  "april_budget =
     \<lparr>ID = 33, UserID = 7, CategoryID = 0, Amount = 2000, Month = first_day (2024, 4),
      CategoryName = [], CategoryIcon = [], UsedAmount = 40, Percentage = 2\<rparr>"

definition moved_budget :: Budget where
  "moved_budget =
     \<lparr>ID = 33, UserID = 7, CategoryID = 0, Amount = 2000, Month = first_day (2024, 3),
      CategoryName = [], CategoryIcon = [], UsedAmount = 850, Percentage = 85 / 2\<rparr>"

definition move_request :: BudgetRequest where
  "move_request = \<lparr>req_CategoryID = 0, req_Amount = 2000, req_Month = ''2024-03''\<rparr>"

text \<open>
  A database at the boundary: one budget of 100 with bills of 57, and two alerts on
  it, at 57 and at 56. In \<^verbatim>\<open>float64\<close>, \<open>57 / 100\<close> is just below 0.57 and the product
  with 100 is 56.99999999999999, the \<^verbatim>\<open>float64\<close> just below 57.
\<close>

definition boundary_db :: database where
  "boundary_db =
     \<lparr>categories =
        [\<lparr>c_id = 11, c_user_id = 7, c_name = ''Food'', c_type = ''expense'', c_icon = None\<rparr>],
      bills =
        [\<lparr>bl_id = 21, bl_user_id = 7, bl_category_id = 11, bl_amount = 57, bl_type = ''expense'',
          bl_date = \<lparr>year = 2024, month = 3, day = 15\<rparr>\<rparr>],
      budgets =
        [\<lparr>b_id = 31, b_user_id = 7, b_category_id = Some 11, b_amount = 100, b_month = (2024, 3)\<rparr>],
      budget_alerts =
        [\<lparr>a_id = 41, a_user_id = 7, a_budget_id = 31, a_threshold = 57, a_is_active = True\<rparr>,
         \<lparr>a_id = 42, a_user_id = 7, a_budget_id = 31, a_threshold = 56, a_is_active = True\<rparr>],
      next_budget_id = 32,
      next_alert_id = 43\<rparr>"

definition boundary_budget :: Budget where
  "boundary_budget =
     \<lparr>ID = 31, UserID = 7, CategoryID = 11, Amount = 100, Month = first_day (2024, 3),
      CategoryName = ''Food'', CategoryIcon = [], UsedAmount = 57,
      Percentage = 8022036836253695 / 140737488355328\<rparr>"

definition boundary_alert :: AlertInfo where
  "boundary_alert =
     \<lparr>alert_id = 42, budget_id = 31, threshold = 56,
      used_percent = 8022036836253695 / 140737488355328, used_amount = 57,
      budget_amount = 100, category_id = Some 11, category_name = Some ''Food'',
      budget_type = ''category''\<rparr>"

text \<open>The tables right after initTables: no rows, the counters at 1.\<close>

definition empty_db :: database where
  "empty_db = \<lparr>categories = [], bills = [], budgets = [], budget_alerts = [],
               next_budget_id = 1, next_alert_id = 1\<rparr>"

section \<open>The rounding of \<^verbatim>\<open>float64\<close>\<close>

text \<open>
  An integer below \<open>2 ^ 53\<close> in absolute value is a \<^verbatim>\<open>float64\<close>: converting it changes
  nothing. This covers every threshold an \<^verbatim>\<open>INT\<close> column can hold.
\<close>

lemma bit_length_bounds:
  "0 < n \<Longrightarrow> 2 ^ (bit_length n - 1) \<le> n \<and> n < 2 ^ bit_length n"
proof (induction n rule: bit_length.induct)
  case (1 n)
  show ?case
  proof (cases "n div 2 = 0")
    case True
    with 1(2) have "n = 1" by (simp add: div_eq_0_iff) 
    then show ?thesis by (simp add: bit_length.simps)
  next
    case False
    with 1 have ih: "2 ^ (bit_length (n div 2) - 1) \<le> n div 2" "n div 2 < 2 ^ bit_length (n div 2)"
      by auto
    have pos: "bit_length (n div 2) > 0" using False by (subst bit_length.simps) simp
    have bl: "bit_length n = Suc (bit_length (n div 2))" using 1(2) by (subst bit_length.simps) simp
    have "2 ^ (bit_length n - 1) = 2 * 2 ^ (bit_length (n div 2) - 1)"
      using pos bl by (cases "bit_length (n div 2)") simp_all
    also have "\<dots> \<le> 2 * (n div 2)" using ih(1) by simp
    also have "\<dots> \<le> n" by simp
    finally have a: "2 ^ (bit_length n - 1) \<le> n" .
    have "n < 2 * (n div 2) + 2" by presburger
    also have "\<dots> \<le> 2 * 2 ^ bit_length (n div 2)" using ih(2) by simp
    finally have "n < 2 ^ bit_length n" by (simp add: bl)
    with a show ?thesis by simp
  qed
qed

lemma bit_length_le:
  assumes "n < 2 ^ k" shows "bit_length n \<le> k"
proof (cases "n = 0")
  case True
  then show ?thesis by (simp add: bit_length.simps)
next
  case False
  then have "2 ^ (bit_length n - 1) \<le> n" using bit_length_bounds by simp
  with assms have "(2::nat) ^ (bit_length n - 1) < 2 ^ k" by linarith
  then have "bit_length n - 1 < k" using power_less_imp_less_exp[of 2 "bit_length n - 1" k] by simp
  then show ?thesis by simp
qed

lemma round_half_even_of_int: "round_half_even (of_int m) = m"
  by (simp add: round_half_even_def)

lemma float64_of_int:
  assumes "\<bar>n\<bar> < 2 ^ 53"
  shows "float64 (of_int n) = of_int n"
proof (cases "n = 0")
  case True
  then show ?thesis by (simp add: float64_def)
next
  case False
  define e where "e = binary_exponent \<bar>of_int n\<bar>"
  define q where "q = max (e - 52) (- 1074)"
  define k where "k = nat (- q)"
  have "1 \<le> \<bar>n\<bar>" using False by linarith
  then have "real_of_int 1 \<le> real_of_int \<bar>n\<bar>" by (simp only: of_int_le_iff)
  then have one: "1 \<le> \<bar>real_of_int n\<bar>" by simp
  have fl: "nat \<lfloor>\<bar>real_of_int n\<bar>\<rfloor> = nat \<bar>n\<bar>" by (metis floor_of_int of_int_abs)
  have "e = int (bit_length (nat \<bar>n\<bar>)) - 1"
    unfolding e_def binary_exponent_def using one fl by simp
  moreover have "bit_length (nat \<bar>n\<bar>) \<le> 53"
    using assms by (intro bit_length_le) (simp add: nat_less_iff)
  ultimately have "e \<le> 52" by simp
  then have q: "q \<le> 0" by (simp add: q_def)
  then have p: "pow2 q = 1 / 2 ^ k"
    by (cases "q = 0") (simp_all add: pow2_def k_def)
  have "real_of_int n / pow2 q = of_int (n * 2 ^ k)" by (simp add: p)
  then have "round_half_even (real_of_int n / pow2 q) = n * 2 ^ k"
    by (simp only: round_half_even_of_int)
  then have "of_int (round_half_even (real_of_int n / pow2 q)) * pow2 q = of_int n"
    by (simp add: p)
  then show ?thesis
    using False unfolding float64_def Let_def q_def e_def by simp
qed

lemma float64_numeral:
  "numeral w < (2::int) ^ 53 \<Longrightarrow> float64 (numeral w) = numeral w"
  using float64_of_int[of "numeral w"] by simp

lemma pow2_pos: "0 < pow2 k"
  by (simp add: pow2_def)

lemma pow2_add: "pow2 (j + k) = pow2 j * pow2 k"
proof -
  have "pow2 k = 2 powi k" for k
    by (simp add: pow2_def power_int_def field_simps)
  then show ?thesis by (simp add: power_int_add)
qed

lemma binary_exponent_bounds:
  assumes "0 < x"
  shows "pow2 (binary_exponent x) \<le> x \<and> x < 2 * pow2 (binary_exponent x)"
proof (cases "1 \<le> x")
  case True
  define n where "n = nat \<lfloor>x\<rfloor>"
  have n: "0 < n" "real n \<le> x" "x < real n + 1"
    using True unfolding n_def by (simp_all add: of_nat_nat)
  note b = bit_length_bounds[OF n(1)]
  have pos: "0 < bit_length n" using n(1) by (subst bit_length.simps) simp
  have e: "binary_exponent x = int (bit_length n) - 1"
    using True by (simp add: binary_exponent_def n_def)
  have p: "pow2 (binary_exponent x) = 2 ^ (bit_length n - 1)"
    using pos unfolding e pow2_def by (simp add: nat_diff_distrib' of_nat_diff)
  have "real (2 ^ (bit_length n - 1)) \<le> real n" using b by (simp only: of_nat_le_iff)
  then have "(2::real) ^ (bit_length n - 1) \<le> real n" by simp
  then have lo: "pow2 (binary_exponent x) \<le> x" using n(2) unfolding p by linarith
  have "n + 1 \<le> 2 ^ bit_length n" using b by simp
  then have "real (n + 1) \<le> real (2 ^ bit_length n)" by (simp only: of_nat_le_iff)
  then have "real n + 1 \<le> 2 ^ bit_length n" by simp
  then have "x < 2 ^ bit_length n" using n(3) by linarith
  moreover have "(2::real) ^ bit_length n = 2 * 2 ^ (bit_length n - 1)"
    using pos by (cases "bit_length n") simp_all
  ultimately show ?thesis using lo p by simp
next
  case False
  define y where "y = 1 / x"
  define n where "n = nat (\<lceil>y\<rceil> - 1)"
  have y: "1 < y" using False assms by (simp add: y_def)
  then have c: "2 \<le> \<lceil>y\<rceil>" by linarith
  have n: "0 < n" "real n < y" "y \<le> real n + 1"
    using c unfolding n_def by (simp_all add: of_nat_nat) linarith+
  note b = bit_length_bounds[OF n(1)]
  have pos: "0 < bit_length n" using n(1) by (subst bit_length.simps) simp
  have e: "binary_exponent x = - int (bit_length n)"
    using False by (simp add: binary_exponent_def n_def y_def)
  have p: "pow2 (binary_exponent x) = 1 / 2 ^ bit_length n"
    using pos unfolding e pow2_def by simp
  have "n + 1 \<le> 2 ^ bit_length n" using b by simp
  then have "real (n + 1) \<le> real (2 ^ bit_length n)" by (simp only: of_nat_le_iff)
  then have "real n + 1 \<le> 2 ^ bit_length n" by simp
  then have "y \<le> 2 ^ bit_length n" using n(3) by linarith
  then have lo: "1 / 2 ^ bit_length n \<le> x"
    using assms unfolding y_def by (simp add: field_simps)
  have "real (2 ^ (bit_length n - 1)) \<le> real n" using b by (simp only: of_nat_le_iff)
  then have "(2::real) ^ (bit_length n - 1) \<le> real n" by simp
  then have "2 ^ (bit_length n - 1) < y" using n(2) by linarith
  then have "x * 2 ^ (bit_length n - 1) < 1"
    using assms unfolding y_def by (simp add: field_simps)
  moreover have "(2::real) ^ bit_length n = 2 * 2 ^ (bit_length n - 1)"
    using pos by (cases "bit_length n") simp_all
  ultimately have "x < 2 * (1 / 2 ^ bit_length n)" by (simp add: field_simps)
  with lo p show ?thesis by simp
qed

lemma round_half_even_near: "\<bar>of_int (round_half_even y) - y\<bar> \<le> 1 / 2"
  unfolding round_half_even_def Let_def by (auto simp: abs_if) linarith+

text \<open>
  \<open>float64 x\<close> is \<open>m * 2 ^ q\<close> with \<open>m\<close> of at most 53 bits, \<open>q\<close> the exponent of the last
  place of \<open>x\<close>, and it is no further from \<open>x\<close> than half a unit of that place.
\<close>

lemma float64_nearest:
  assumes "x \<noteq> 0"
  defines "q \<equiv> max (binary_exponent \<bar>x\<bar> - 52) (- 1074)"
  shows "\<exists>m. float64 x = of_int m * pow2 q \<and> \<bar>m\<bar> \<le> 2 ^ 53 \<and>
             \<bar>float64 x - x\<bar> \<le> pow2 q / 2"
proof -
  define m where "m = round_half_even (x / pow2 q)"
  have f: "float64 x = of_int m * pow2 q"
    using assms(1) by (simp add: float64_def Let_def m_def q_def)
  have near: "\<bar>of_int m - x / pow2 q\<bar> \<le> 1 / 2"
    unfolding m_def by (rule round_half_even_near)
  have "float64 x - x = (of_int m - x / pow2 q) * pow2 q"
    using pow2_pos[of q] unfolding f by (simp add: field_simps)
  then have "\<bar>float64 x - x\<bar> = \<bar>of_int m - x / pow2 q\<bar> * pow2 q"
    using pow2_pos[of q] by (simp add: abs_mult abs_of_pos)
  also have "\<dots> \<le> 1 / 2 * pow2 q"
    using near pow2_pos[of q] by (intro mult_right_mono) simp_all
  finally have err: "\<bar>float64 x - x\<bar> \<le> pow2 q / 2" by simp
  have "\<bar>x\<bar> < 2 * pow2 (binary_exponent \<bar>x\<bar>)"
    using binary_exponent_bounds[of "\<bar>x\<bar>"] assms(1) by simp
  also have "pow2 (binary_exponent \<bar>x\<bar>) = pow2 (binary_exponent \<bar>x\<bar> - 52) * pow2 52"
    using pow2_add[of "binary_exponent \<bar>x\<bar> - 52" 52] by simp
  also have "pow2 (binary_exponent \<bar>x\<bar> - 52) \<le> pow2 q"
  proof -
    have "pow2 j \<le> pow2 k" if "j \<le> k" for j k
    proof -
      have "pow2 k = pow2 j * pow2 (k - j)" using pow2_add[of j "k - j"] by simp
      moreover have "1 \<le> pow2 (k - j)" using that by (simp add: pow2_def)
      ultimately show ?thesis using pow2_pos[of j] by simp
    qed
    then show ?thesis by (simp add: q_def)
  qed
  finally have "\<bar>x\<bar> < 2 * (pow2 q * pow2 52)" by (simp add: pow2_def)
  then have "\<bar>x / pow2 q\<bar> < 2 ^ 53"
    using pow2_pos[of q] by (simp add: pow2_def abs_of_pos field_simps)
  with near have "\<bar>real_of_int m\<bar> < 2 ^ 53 + 1" by linarith
  then have "\<bar>m\<bar> < 2 ^ 53 + 1"
    by (metis (mono_tags) of_int_abs of_int_less_iff of_int_numeral of_int_power of_int_add of_int_1)
  then have "\<bar>m\<bar> \<le> 2 ^ 53" by simp
  with f err show ?thesis by blast
qed

lemma float64_zero: "float64 0 = 0"
  by (simp add: float64_def)

lemma float64_of_int_exact: "\<bar>n\<bar> < 2 ^ 53 \<Longrightarrow> float64_of_int n = of_int n"
  by (simp add: float64_of_int_def float64_of_int)

lemmas float64_eval = float64_def binary_exponent_def round_half_even_def pow2_def Let_def
  bit_length.simps

section \<open>Statements, one at a time\<close>

lemma QueryRow_Inr_iff:
  "QueryRow F q c = (Inr x, c1) \<longleftrightarrow>
     \<not> F (issued c) \<and> (\<exists>xs. q (store c) = x # xs) \<and> c1 = c\<lparr>issued := Suc (issued c)\<rparr>"
  by (auto simp: QueryRow_def statement_def Let_def split: if_splits list.splits)

lemma QueryRow_conn:
  "QueryRow F q c = (r, c1) \<Longrightarrow> c1 = c\<lparr>issued := Suc (issued c)\<rparr>"
  by (auto simp: QueryRow_def statement_def Let_def split: if_splits list.splits)

lemma Query_Inr_iff:
  "Query F q c = (Inr x, c1) \<longleftrightarrow>
     \<not> F (issued c) \<and> x = q (store c) \<and> c1 = c\<lparr>issued := Suc (issued c)\<rparr>"
  by (auto simp: Query_def statement_def Let_def split: if_splits)

lemma Query_conn:
  "Query F q c = (r, c1) \<Longrightarrow> c1 = c\<lparr>issued := Suc (issued c)\<rparr>"
  by (auto simp: Query_def statement_def Let_def split: if_splits)

lemma scan_budget_fields:
  assumes "scan_budget r = Inr b"
  shows "Percentage b = 0" "Amount b = float64 (b_amount (fst r))" "UserID b = b_user_id (fst r)"
    "ID b = b_id (fst r)" "CategoryID b = (case b_category_id (fst r) of None \<Rightarrow> 0 | Some k \<Rightarrow> k)"
    "Month b = first_day (b_month (fst r))" "1 \<le> snd (b_month (fst r))" "snd (b_month (fst r)) \<le> 12"
  using assms
  by (auto simp: scan_budget_def parse_stored_month_def month_start_def first_day_def
      split: option.splits if_splits)

lemma used_amount_query_Cons:
  "used_amount_query b u s e db = x # xs \<longleftrightarrow> x = hd (used_amount_query b u s e db) \<and> xs = []"
  by (auto simp: used_amount_query_def sum_category_expenses_def sum_expenses_def)

lemma used_amount_query_single:
  "used_amount_query b u s e db = [hd (used_amount_query b u s e db)]"
  by (simp add: used_amount_query_def sum_category_expenses_def sum_expenses_def)

lemma with_usage_fields:
  "ID (with_usage db u s b) = ID b" "UserID (with_usage db u s b) = UserID b"
  "CategoryID (with_usage db u s b) = CategoryID b" "Amount (with_usage db u s b) = Amount b"
  "Month (with_usage db u s b) = Month b"
  "UsedAmount (with_usage db u s b) =
     float64 (hd (used_amount_query b u s (Add_minus_second (AddDate_0_1_0 s)) db))"
  "Percentage (with_usage db u s b) =
     (if Amount b > 0
      then float64_mul (float64_div (UsedAmount (with_usage db u s b)) (Amount b)) 100
      else Percentage b)"
  by (simp_all add: with_usage_def set_percentage_def)

lemma GetBudget_Inr:
  assumes "GetBudget F bid u c = (Inr B, c')"
  shows "\<exists>r rs b0. select_budget bid u (store c) = r # rs \<and> scan_budget r = Inr b0 \<and>
     B = with_usage (store c) u (Month b0, 0) b0 \<and> c' = c\<lparr>issued := issued c + 2\<rparr>"
  using assms unfolding GetBudget_def with_usage_def
  by (auto simp: Let_def QueryRow_Inr_iff used_amount_query_Cons split: prod.splits sum.splits)

lemma GetBudget_success:
  assumes "\<not> F (issued c)" "\<not> F (Suc (issued c))"
    and "select_budget bid u (store c) = r # rs" "scan_budget r = Inr b0"
  shows "GetBudget F bid u c =
     (Inr (with_usage (store c) u (Month b0, 0) b0), c\<lparr>issued := issued c + 2\<rparr>)"
proof -
  have q1: "QueryRow F (select_budget bid u) c = (Inr r, c\<lparr>issued := Suc (issued c)\<rparr>)"
    using assms(1,3) by (simp add: QueryRow_Inr_iff)
  obtain used where used: "used_amount_query b0 u (Month b0, 0)
      (Add_minus_second (AddDate_0_1_0 (Month b0, 0))) (store c) = [used]"
    using used_amount_query_single by blast
  have q2: "QueryRow F (used_amount_query b0 u (Month b0, 0)
      (Add_minus_second (AddDate_0_1_0 (Month b0, 0)))) (c\<lparr>issued := Suc (issued c)\<rparr>)
      = (Inr used, c\<lparr>issued := issued c + 2\<rparr>)"
    using assms(2) used by (simp add: QueryRow_Inr_iff)
  show ?thesis
    unfolding GetBudget_def with_usage_def using q1 q2 assms(4) used by (simp add: Let_def)
qed

lemma budgets_loop_Inr:
  "budgets_loop F u s (Add_minus_second (AddDate_0_1_0 s)) acc rows c = (Inr Bs, c') \<Longrightarrow>
   \<exists>bs. map scan_budget rows = map Inr bs \<and> Bs = acc @ map (with_usage (store c) u s) bs \<and>
        c' = c\<lparr>issued := issued c + length rows\<rparr>"
proof (induction rows arbitrary: acc c)
  case Nil
  then show ?case by simp
next
  case (Cons r rows)
  from Cons.prems obtain b0 c1 where
    sb: "scan_budget r = Inr b0" and
    c1: "c1 = c\<lparr>issued := Suc (issued c)\<rparr>" and
    rest: "budgets_loop F u s (Add_minus_second (AddDate_0_1_0 s))
             (acc @ [with_usage (store c) u s b0]) rows c1 = (Inr Bs, c')"
    by (auto simp: QueryRow_Inr_iff used_amount_query_Cons with_usage_def
        split: sum.splits prod.splits)
  from Cons.IH[OF rest] obtain bs where
    "map scan_budget rows = map Inr bs"
    "Bs = (acc @ [with_usage (store c) u s b0]) @ map (with_usage (store c1) u s) bs"
    "c' = c1\<lparr>issued := issued c1 + length rows\<rparr>" by blast
  then show ?case using sb c1
    by (intro exI[of _ "b0 # bs"]) simp
qed

lemma budgets_loop_success:
  "\<forall>n. \<not> F n \<Longrightarrow> map scan_budget rows = map Inr bs \<Longrightarrow>
   budgets_loop F u s (Add_minus_second (AddDate_0_1_0 s)) acc rows c =
     (Inr (acc @ map (with_usage (store c) u s) bs), c\<lparr>issued := issued c + length rows\<rparr>)"
proof (induction rows arbitrary: acc c bs)
  case Nil
  then show ?case by simp
next
  case (Cons r rows)
  then obtain b0 bs' where bs: "bs = b0 # bs'" "scan_budget r = Inr b0"
    "map scan_budget rows = map Inr bs'" by (cases bs) auto
  obtain used where used: "used_amount_query b0 u s (Add_minus_second (AddDate_0_1_0 s)) (store c) = [used]"
    using used_amount_query_single by blast
  have q: "QueryRow F (used_amount_query b0 u s (Add_minus_second (AddDate_0_1_0 s))) c =
     (Inr used, c\<lparr>issued := Suc (issued c)\<rparr>)"
    using Cons.prems(1) used by (simp add: QueryRow_Inr_iff)
  show ?case
    using Cons.IH[OF Cons.prems(1) bs(3), of "acc @ [with_usage (store c) u s b0]" "c\<lparr>issued := Suc (issued c)\<rparr>"]
      bs q used
    by (simp add: with_usage_def)
qed

lemma GetBudgets_Inr:
  assumes "GetBudgets F u mstr c = (Inr Bs, c')"
  shows "\<exists>ym bs. parse_year_month mstr = Some ym \<and>
     map scan_budget (select_budgets u mstr (store c)) = map Inr bs \<and>
     Bs = map (with_usage (store c) u (month_start ym)) bs \<and>
     c' = c\<lparr>issued := Suc (issued c) + length bs\<rparr>"
proof -
  from assms obtain ym where ym: "parse_year_month mstr = Some ym"
    by (auto simp: GetBudgets_def time_Parse_def split: option.splits)
  with assms have "budgets_loop F u (month_start ym) (Add_minus_second (AddDate_0_1_0 (month_start ym)))
     [] (select_budgets u mstr (store c)) (c\<lparr>issued := Suc (issued c)\<rparr>) = (Inr Bs, c')"
    by (auto simp: GetBudgets_def time_Parse_def Let_def Query_Inr_iff split: prod.splits sum.splits)
  from budgets_loop_Inr[OF this] obtain bs where
    bs: "map scan_budget (select_budgets u mstr (store c)) = map Inr bs"
    "Bs = map (with_usage (store c) u (month_start ym)) bs"
    "c' = c\<lparr>issued := Suc (issued c) + length (select_budgets u mstr (store c))\<rparr>"
    by auto
  from bs(1) have "length (select_budgets u mstr (store c)) = length bs"
    by (metis length_map)
  with ym bs show ?thesis by auto
qed

lemma GetBudgets_success:
  assumes "\<forall>n. \<not> F n" "parse_year_month mstr = Some ym"
    "map scan_budget (select_budgets u mstr (store c)) = map Inr bs"
  shows "GetBudgets F u mstr c =
    (Inr (map (with_usage (store c) u (month_start ym)) bs), c\<lparr>issued := Suc (issued c) + length bs\<rparr>)"
proof -
  have len: "length (select_budgets u mstr (store c)) = length bs"
    using assms(3) by (metis length_map)
  have q: "Query F (select_budgets u mstr) c = (Inr (select_budgets u mstr (store c)), c\<lparr>issued := Suc (issued c)\<rparr>)"
    using assms(1) by (simp add: Query_Inr_iff)
  show ?thesis
    unfolding GetBudgets_def
    using q assms(2) budgets_loop_success[OF assms(1) assms(3), of u "month_start ym" "[]" "c\<lparr>issued := Suc (issued c)\<rparr>"] len
    by (simp add: time_Parse_def Let_def)
qed

lemma month_end:
  assumes "1 \<le> snd ym" "snd ym \<le> 12"
  shows "Format_date (Add_minus_second (AddDate_0_1_0 (first_day ym, 0))) = last_day ym"
  using assms
  by (auto simp: Format_date_def Add_minus_second_def AddDate_0_1_0_def prev_day_def
      first_day_def last_day_def days_in_month_def Let_def)

lemma used_amount_expenses:
  assumes "1 \<le> snd ym" "snd ym \<le> 12"
  shows "hd (used_amount_query b u (first_day ym, 0) (Add_minus_second (AddDate_0_1_0 (first_day ym, 0))) db)
    = expenses_in_month db u (budget_scope b) ym"
proof -
  have e: "Format_date (Add_minus_second (AddDate_0_1_0 (first_day ym, 0))) = last_day ym"
    using month_end[OF assms] .
  have s: "Format_date (first_day ym, 0) = first_day ym" by (simp add: Format_date_def)
  show ?thesis
    unfolding used_amount_query_def e s
    by (auto simp: sum_category_expenses_def sum_expenses_def expenses_in_month_def budget_scope_def
        intro!: arg_cong[where f=sum_list] arg_cong[where f="map bl_amount"] filter_cong)
qed

lemma left_join_category_fst:
  "x \<in> set (left_join_category db b) \<Longrightarrow> fst x = b"
  by (auto simp: left_join_category_def split: list.splits)

lemma left_join_category_nonempty: "left_join_category db b \<noteq> []"
  by (auto simp: left_join_category_def split: list.splits)

lemma select_budget_row:
  "r \<in> set (select_budget bid u db) \<Longrightarrow>
     fst r \<in> set (budgets db) \<and> b_id (fst r) = bid \<and> b_user_id (fst r) = u"
  by (auto simp: select_budget_def dest: left_join_category_fst)

lemma select_budgets_row:
  "r \<in> set (select_budgets u mstr db) \<Longrightarrow>
     fst r \<in> set (budgets db) \<and> b_user_id (fst r) = u \<and> DATE_FORMAT_eq (b_month (fst r)) mstr"
  by (auto simp: select_budgets_def dest: left_join_category_fst)

lemma map_scan_member:
  assumes "map scan_budget rows = map Inr bs" "b \<in> set bs"
  shows "\<exists>r \<in> set rows. scan_budget r = Inr b"
proof -
  from assms(2) obtain i where i: "i < length bs" "bs ! i = b" by (auto simp: in_set_conv_nth)
  have len: "length rows = length bs" using assms(1) by (metis length_map)
  have "scan_budget (rows ! i) = Inr (bs ! i)"
    using assms(1) i(1) len by (metis nth_map)
  with i len show ?thesis by (metis nth_mem)
qed

lemma with_usage_eval:
  assumes "1 \<le> snd ym" "snd ym \<le> 12"
  shows "with_usage db u (first_day ym, 0) b =
     set_percentage (b\<lparr>UsedAmount := float64 (expenses_in_month db u (budget_scope b) ym)\<rparr>)"
  unfolding with_usage_def using used_amount_expenses[OF assms] by simp

lemma month_start_first_day: "month_start ym = (first_day ym, 0)"
  by (simp add: month_start_def first_day_def)

section \<open>The alert check, step by step\<close>

lemma distinct_map_eq:
  "distinct (map f xs) \<Longrightarrow> x \<in> set xs \<Longrightarrow> y \<in> set xs \<Longrightarrow> f x = f y \<Longrightarrow> x = y"
  by (meson distinct_map inj_onD)

lemma find_budget_Some:
  "find_budget loaded i = Some B \<Longrightarrow> B \<in> set loaded \<and> ID B = i"
  by (induction loaded) (auto split: if_splits)

lemma find_budget_None:
  "find_budget loaded i = None \<longleftrightarrow> (\<forall>B \<in> set loaded. ID B \<noteq> i)"
  by (induction loaded) auto

lemma alerts_loop_set:
  "r \<in> set (alerts_loop loaded acc rows) \<longleftrightarrow>
     r \<in> set acc \<or>
     (\<exists>row \<in> set rows. \<exists>B. find_budget loaded (a_budget_id (fst row)) = Some B \<and>
        Percentage B \<ge> float64_of_int (a_threshold (fst row)) \<and> r = alertInfo row B)"
  by (induction rows arbitrary: acc) (auto split: option.splits)

lemma left_join_category_pair:
  "(b', cr) \<in> set (left_join_category db b) \<Longrightarrow> b' = b"
  by (auto simp: left_join_category_def split: list.splits)

lemma select_active_alerts_iff:
  "row \<in> set (select_active_alerts u cm db) \<longleftrightarrow>
     fst row \<in> set (budget_alerts db) \<and> a_user_id (fst row) = u \<and> a_is_active (fst row) \<and>
     fst (snd row) \<in> set (budgets db) \<and> a_budget_id (fst row) = b_id (fst (snd row)) \<and>
     DATE_FORMAT_eq (b_month (fst (snd row))) cm \<and>
     snd row \<in> set (left_join_category db (fst (snd row)))"
  by (cases row) (auto simp: select_active_alerts_def dest: left_join_category_pair)

lemma select_budgets_iff:
  "r \<in> set (select_budgets u cm db) \<longleftrightarrow>
     fst r \<in> set (budgets db) \<and> b_user_id (fst r) = u \<and> DATE_FORMAT_eq (b_month (fst r)) cm \<and>
     r \<in> set (left_join_category db (fst r))"
  by (auto simp: select_budgets_def dest: left_join_category_fst)

lemma row_scope_scan:
  "scan_budget r = Inr b0 \<Longrightarrow> budget_scope b0 = row_scope (fst r)"
  by (auto simp: scan_budget_def budget_scope_def row_scope_def split: option.splits)

lemma loaded_percentage:
  assumes "scan_budget r = Inr b0"
  shows "Percentage (with_usage db (b_user_id (fst r)) (month_start (b_month (fst r))) b0) =
     budget_percentage db (fst r)"
proof -
  note f = scan_budget_fields[OF assms]
  show ?thesis
    unfolding month_start_first_day with_usage_eval[OF f(7,8)]
    by (simp add: set_percentage_def budget_percentage_def f row_scope_scan[OF assms])
qed

lemma CheckBudgetAlerts_Inr:
  assumes "CheckBudgetAlerts F u cm c = (Inr rs, c')"
  shows "\<exists>ym bs. parse_year_month cm = Some ym \<and>
     map scan_budget (select_budgets u cm (store c)) = map Inr bs \<and>
     rs = alerts_loop (map (with_usage (store c) u (month_start ym)) bs) []
            (select_active_alerts u cm (store c)) \<and>
     c' = c\<lparr>issued := issued c + length bs + 2\<rparr>"
proof -
  from assms obtain loaded c1 where
    g: "GetBudgets F u cm c = (Inr loaded, c1)" and
    q: "Query F (select_active_alerts u cm) c1 = (Inr (select_active_alerts u cm (store c1)), c')" and
    rs: "rs = alerts_loop loaded [] (select_active_alerts u cm (store c1))"
    by (auto simp: CheckBudgetAlerts_def Query_Inr_iff split: prod.splits sum.splits)
  from GetBudgets_Inr[OF g] obtain ym bs where
    ym: "parse_year_month cm = Some ym"
    "map scan_budget (select_budgets u cm (store c)) = map Inr bs"
    "loaded = map (with_usage (store c) u (month_start ym)) bs"
    "c1 = c\<lparr>issued := Suc (issued c) + length bs\<rparr>" by blast
  from q have "c' = c1\<lparr>issued := Suc (issued c1)\<rparr>" by (simp add: Query_Inr_iff)
  with ym rs show ?thesis by auto
qed

lemma loaded_budget:
  assumes scans: "map scan_budget (select_budgets u cm db) = map Inr bs"
    and ym: "parse_year_month cm = Some ym"
    and B: "B \<in> set (map (with_usage db u (month_start ym)) bs)"
  shows "\<exists>b \<in> set (budgets db). b_id b = ID B \<and> b_user_id b = u \<and>
           DATE_FORMAT_eq (b_month b) cm \<and> Percentage B = budget_percentage db b"
proof -
  from B obtain b0 where b0: "b0 \<in> set bs" "B = with_usage db u (month_start ym) b0" by auto
  from map_scan_member[OF scans b0(1)] obtain r where
    r: "r \<in> set (select_budgets u cm db)" "scan_budget r = Inr b0" by blast
  from r(1) have row: "fst r \<in> set (budgets db)" "b_user_id (fst r) = u"
    "DATE_FORMAT_eq (b_month (fst r)) cm"
    by (simp_all add: select_budgets_iff)
  from row(3) ym have m: "b_month (fst r) = ym" by (simp add: DATE_FORMAT_eq_def)
  have "Percentage B = budget_percentage db (fst r)"
    using loaded_percentage[OF r(2), of db] row(2) m b0(2) by simp
  moreover have "ID B = b_id (fst r)"
    using scan_budget_fields(4)[OF r(2)] b0(2) by (simp add: with_usage_fields)
  ultimately show ?thesis using row by auto
qed

lemma budget_is_loaded:
  assumes scans: "map scan_budget (select_budgets u cm db) = map Inr bs"
    and b: "b \<in> set (budgets db)" "b_user_id b = u" "DATE_FORMAT_eq (b_month b) cm"
  shows "\<exists>B \<in> set (map (with_usage db u s) bs). ID B = b_id b"
proof -
  obtain r where r: "r \<in> set (left_join_category db b)"
    using left_join_category_nonempty[of db b] by (cases "left_join_category db b") auto
  then have fr: "fst r = b" by (rule left_join_category_fst)
  with r b have mem: "r \<in> set (select_budgets u cm db)" by (simp add: select_budgets_iff)
  then obtain i where i: "i < length (select_budgets u cm db)" "select_budgets u cm db ! i = r"
    by (auto simp: in_set_conv_nth)
  have len: "length (select_budgets u cm db) = length bs" using scans by (metis length_map)
  have sc: "scan_budget r = Inr (bs ! i)" using scans i by (metis nth_map len)
  have "with_usage db u s (bs ! i) \<in> set (map (with_usage db u s) bs)"
    using i(1) len by simp
  moreover have "ID (with_usage db u s (bs ! i)) = b_id b"
    using scan_budget_fields(4)[OF sc] fr by (simp add: with_usage_fields)
  ultimately show ?thesis by blast
qed

lemma alerts_owned_budget:
  assumes "primary_keys db" "alerts_owned db"
    and "a \<in> set (budget_alerts db)" "b \<in> set (budgets db)" "b_id b = a_budget_id a"
  shows "b_user_id b = a_user_id a"
proof -
  from assms(2,3) obtain b' where b': "b' \<in> set (budgets db)" "b_id b' = a_budget_id a"
    "b_user_id b' = a_user_id a"
    by (auto simp: alerts_owned_def list_all_iff list_ex_iff)
  have "b' = b"
    using distinct_map_eq[of b_id "budgets db" b' b] assms(1,4,5) b'(1,2)
    by (simp add: primary_keys_def)
  with b'(3) show ?thesis by simp
qed

lemma digit_le: "digit ch = Some d \<Longrightarrow> d \<le> 9"
  by (auto simp: digit_def Let_def split: if_splits)

lemma parse_year_month_bounds:
  assumes "parse_year_month s = Some ym"
  shows "fst ym \<le> 9999 \<and> 1 \<le> snd ym \<and> snd ym \<le> 12"
proof -
  from assms obtain y1 y2 y3 y4 dash m1 m2 where s: "s = [y1, y2, y3, y4, dash, m1, m2]"
    by (rule parse_year_month.elims) auto
  from assms obtain a b c d e f where
    dg: "digit y1 = Some a" "digit y2 = Some b" "digit y3 = Some c" "digit y4 = Some d"
        "digit m1 = Some e" "digit m2 = Some f" and
    ym: "ym = (1000 * a + 100 * b + 10 * c + d, 10 * e + f)" and
    m: "1 \<le> 10 * e + f" "10 * e + f \<le> 12"
    unfolding s by (auto split: option.splits if_splits)
  from dg(1-4) have "a \<le> 9" "b \<le> 9" "c \<le> 9" "d \<le> 9" by (auto dest: digit_le)
  then have "1000 * a + 100 * b + 10 * c + d \<le> 9999" by linarith
  with ym m show ?thesis by simp
qed

lemma all_Inr_map:
  "\<forall>r \<in> set rows. \<exists>b. f r = Inr b \<Longrightarrow> \<exists>bs. map f rows = map Inr bs"
proof (induction rows)
  case Nil
  then show ?case by simp
next
  case (Cons r rows)
  then obtain b bs where "f r = Inr b" "map f rows = map Inr bs" by auto
  then have "map f (r # rows) = map Inr (b # bs)" by simp
  then show ?case by blast
qed

lemma scans_succeed:
  assumes "parse_year_month cm = Some ym"
  shows "\<exists>bs. map scan_budget (select_budgets u cm db) = map Inr bs"
proof -
  note bd = parse_year_month_bounds[OF assms]
  have "\<exists>b0. scan_budget r = Inr b0" if "r \<in> set (select_budgets u cm db)" for r
  proof -
    from that assms have "b_month (fst r) = ym"
      by (simp add: select_budgets_iff DATE_FORMAT_eq_def)
    with bd show ?thesis by (simp add: scan_budget_def parse_stored_month_def)
  qed
  then show ?thesis by (intro all_Inr_map) blast
qed

lemma CheckBudgetAlerts_success:
  assumes "\<forall>n. \<not> F n" "parse_year_month cm = Some ym"
    "map scan_budget (select_budgets u cm (store c)) = map Inr bs"
  shows "CheckBudgetAlerts F u cm c =
     (Inr (alerts_loop (map (with_usage (store c) u (month_start ym)) bs) []
             (select_active_alerts u cm (store c))),
      c\<lparr>issued := issued c + length bs + 2\<rparr>)"
  unfolding CheckBudgetAlerts_def GetBudgets_success[OF assms]
  using assms(1) by (simp add: Query_def statement_def)

section \<open>Transactions and writes\<close>

lemma QueryRow_store: "QueryRow F q c = (res, c') \<Longrightarrow> store c' = store c"
  by (drule QueryRow_conn) simp

lemma GetBudget_store: "GetBudget F bid u c = (res, c') \<Longrightarrow> store c' = store c"
  unfolding GetBudget_def
  by (auto simp: Let_def split: prod.splits sum.splits dest!: QueryRow_store)

lemma GetBudget_exists:
  assumes "GetBudget F bid u c = (Inr B, c')"
  shows "\<exists>b \<in> set (budgets (store c)). b_id b = bid \<and> b_user_id b = u"
proof -
  from GetBudget_Inr[OF assms] obtain r rs where "select_budget bid u (store c) = r # rs" by blast
  then have "r \<in> set (select_budget bid u (store c))" by simp
  then show ?thesis using select_budget_row by blast
qed

lemma Begin_cases:
  "Begin F c = (res, c1) \<Longrightarrow>
     store c1 = store c \<and> (res = Inl SqlDriverError \<or> res = Inr (store c))"
  by (auto simp: Begin_def statement_def Let_def split: if_splits)

lemma tx_Exec_store: "tx_Exec F f tx c = (res, c1) \<Longrightarrow> store c1 = store c"
  by (auto simp: tx_Exec_def Let_def split: if_splits sum.splits)

lemma tx_Exec_Inr:
  "tx_Exec F f tx c = (Inr tx1, c1) \<Longrightarrow> \<exists>x. f tx = Inr (x, tx1)"
  by (auto simp: tx_Exec_def Let_def split: if_splits sum.splits)

lemma Rollback_store: "store (Rollback tx c) = store c"
  by (simp add: Rollback_def)

lemma Commit_cases:
  "Commit F tx c = (res, c1) \<Longrightarrow>
     (res = Inl SqlDriverError \<and> store c1 = store c) \<or> (res = Inr () \<and> store c1 = tx)"
  by (auto simp: Commit_def Let_def split: if_splits)

lemma delete_steps:
  assumes "delete_alerts_of_budget bid db = Inr (x, tx1)" "delete_budget_row bid u tx1 = Inr (y, tx2)"
  shows "tx2 = without_budget bid u db"
  using assms
  by (auto simp: delete_alerts_of_budget_def delete_budget_row_def without_budget_def)

lemma DeleteBudget_cases:
  assumes "DeleteBudget F bid u c = (res, c')"
  shows "(\<exists>e. res = Inl e \<and> store c' = store c) \<or>
         (res = Inr () \<and> (\<exists>b \<in> set (budgets (store c)). b_id b = bid \<and> b_user_id b = u) \<and>
          store c' = without_budget bid u (store c))"
proof (cases "GetBudget F bid u c")
  case (Pair r1 c1)
  note g = Pair
  show ?thesis
  proof (cases r1)
    case (Inl e)
    with g assms GetBudget_store[OF g] show ?thesis by (auto simp: DeleteBudget_def)
  next
    case (Inr B)
    note s1 = GetBudget_store[OF g]
    from g Inr have ex: "\<exists>b \<in> set (budgets (store c)). b_id b = bid \<and> b_user_id b = u"
      using GetBudget_exists by blast
    obtain r2 c2 where b: "Begin F c1 = (r2, c2)" by (cases "Begin F c1")
    note bc = Begin_cases[OF b]
    show ?thesis
    proof (cases r2)
      case (Inl e)
      with g \<open>r1 = Inr B\<close> b assms bc s1 show ?thesis by (auto simp: DeleteBudget_def)
    next
      case (Inr tx)
      with bc s1 have tx: "tx = store c" by auto
      obtain r3 c3 where e1: "tx_Exec F (delete_alerts_of_budget bid) tx c2 = (r3, c3)"
        by (cases "tx_Exec F (delete_alerts_of_budget bid) tx c2")
      note s3 = tx_Exec_store[OF e1]
      show ?thesis
      proof (cases r3)
        case (Inl e)
        with g \<open>r1 = Inr B\<close> b \<open>r2 = Inr tx\<close> e1 assms bc s1 s3 show ?thesis
          by (auto simp: DeleteBudget_def Rollback_store)
      next
        case (Inr tx1)
        obtain r4 c4 where e2: "tx_Exec F (delete_budget_row bid u) tx1 c3 = (r4, c4)"
          by (cases "tx_Exec F (delete_budget_row bid u) tx1 c3")
        note s4 = tx_Exec_store[OF e2]
        show ?thesis
        proof (cases r4)
          case (Inl e)
          with g \<open>r1 = Inr B\<close> b \<open>r2 = Inr tx\<close> e1 \<open>r3 = Inr tx1\<close> e2 assms bc s1 s3 s4
          show ?thesis by (auto simp: DeleteBudget_def Rollback_store)
        next
          case (Inr tx2)
          from e1 \<open>r3 = Inr tx1\<close> e2 Inr tx have tx2: "tx2 = without_budget bid u (store c)"
            using delete_steps by (metis tx_Exec_Inr)
          obtain r5 c5 where cm: "Commit F tx2 c4 = (r5, c5)" by (cases "Commit F tx2 c4")
          from Commit_cases[OF cm] g \<open>r1 = Inr B\<close> b \<open>r2 = Inr tx\<close> e1 \<open>r3 = Inr tx1\<close> e2 Inr cm
            assms bc s1 s3 s4 tx2 ex
          show ?thesis by (auto simp: DeleteBudget_def)
        qed
      qed
    qed
  qed
qed

lemma count_alerts_pos:
  "count_alerts bid thr None db = n # ns \<Longrightarrow>
     n > 0 \<longleftrightarrow> (\<exists>a \<in> set (budget_alerts db). a_budget_id a = bid \<and> a_threshold a = thr)"
  by (auto simp: count_alerts_def filter_empty_conv)

lemma Exec_insert_alert:
  "Exec F (insert_alert u bid thr act) c = (Inr aid, c') \<Longrightarrow>
     aid = next_alert_id (store c) \<and>
     store c' = with_alert u \<lparr>areq_BudgetID = bid, areq_Threshold = thr, areq_IsActive = act\<rparr> (store c)"
  by (auto simp: Exec_def statement_def insert_alert_def with_alert_def Let_def split: if_splits)

lemma Exec_Inl_store:
  "Exec F f c = (Inl e, c') \<Longrightarrow> store c' = store c"
  by (auto simp: Exec_def statement_def Let_def split: if_splits sum.splits)

lemma expenses_in_month_bills:
  "bills db' = bills db \<Longrightarrow> expenses_in_month db' = expenses_in_month db"
  by (intro ext) (simp add: expenses_in_month_def)

lemma UpdateBudget_same_category:
  assumes "GetBudget F bid u c = (Inr B, c1)" "CategoryID B = req_CategoryID req"
    and "time_Parse (req_Month req) = Some t"
    and "Exec F (update_budget bid u
           (if req_CategoryID req > 0 then Some (req_CategoryID req) else None)
           (req_Amount req) t) c1 = (Inr x, c3)"
  shows "UpdateBudget F bid u req c = GetBudget F bid u c3"
  by (simp add: UpdateBudget_def assms)

section \<open>Creating an alert, case by case\<close>

lemma GetBudget_fault:
  "F (issued c) \<Longrightarrow> GetBudget F bid u c = (Inl SqlDriverError, c\<lparr>issued := Suc (issued c)\<rparr>)"
  by (simp add: GetBudget_def QueryRow_def statement_def)

lemma GetBudget_not_found:
  assumes "\<not> F (issued c)"
    and "\<not> (\<exists>b \<in> set (budgets (store c)). b_id b = bid \<and> b_user_id b = u)"
  shows "GetBudget F bid u c = (Inl ErrBudgetNotFound, c\<lparr>issued := Suc (issued c)\<rparr>)"
proof -
  have "filter (\<lambda>b. b_id b = bid \<and> b_user_id b = u) (budgets (store c)) = []"
    using assms(2) by (auto simp: filter_empty_conv)
  then have "select_budget bid u (store c) = []" by (simp add: select_budget_def)
  with assms(1) show ?thesis by (simp add: GetBudget_def QueryRow_def statement_def)
qed

lemma CreateBudgetAlert_lookup_failed:
  "GetBudget F (areq_BudgetID req) u c = (Inl e, c1) \<Longrightarrow>
     CreateBudgetAlert F u req c = (Inl e, c1)"
  by (simp add: CreateBudgetAlert_def)

lemma CreateBudgetAlert_created:
  assumes g: "GetBudget F (areq_BudgetID req) u c = (Inr B, c1)"
    and range: "1 \<le> areq_Threshold req" "areq_Threshold req \<le> 100"
    and nf: "\<not> F (issued c1)" "\<not> F (Suc (issued c1))"
    and fresh: "\<not> (\<exists>a \<in> set (budget_alerts (store c)).
                   a_budget_id a = areq_BudgetID req \<and> a_threshold a = areq_Threshold req)"
  shows "CreateBudgetAlert F u req c =
     (Inr \<lparr>alert_ID = next_alert_id (store c), alert_UserID = u,
           alert_BudgetID = areq_BudgetID req, alert_Threshold = areq_Threshold req,
           alert_IsActive = areq_IsActive req\<rparr>,
      \<lparr>store = with_alert u req (store c), issued = issued c1 + 2\<rparr>)"
proof -
  note s1 = GetBudget_store[OF g]
  have "filter (\<lambda>a. a_budget_id a = areq_BudgetID req \<and> a_threshold a = areq_Threshold req)
          (budget_alerts (store c1)) = []"
    using fresh s1 by (auto simp: filter_empty_conv)
  then have cnt: "count_alerts (areq_BudgetID req) (areq_Threshold req) None (store c1) = [0]"
    by (simp add: count_alerts_def)
  have q: "QueryRow F (count_alerts (areq_BudgetID req) (areq_Threshold req) None) c1 =
     (Inr 0, c1\<lparr>issued := Suc (issued c1)\<rparr>)"
    using nf(1) cnt by (simp add: QueryRow_Inr_iff)
  have e: "Exec F (insert_alert u (areq_BudgetID req) (areq_Threshold req) (areq_IsActive req))
       (c1\<lparr>issued := Suc (issued c1)\<rparr>) =
     (Inr (next_alert_id (store c)),
      \<lparr>store = with_alert u req (store c), issued = issued c1 + 2\<rparr>)"
    using nf(2) s1 by (simp add: Exec_def statement_def insert_alert_def with_alert_def)
  show ?thesis
    using g range q e by (simp add: CreateBudgetAlert_def)
qed

lemma CreateBudgetAlert_outcomes:
  assumes run: "CreateBudgetAlert F u req c = (res, c')"
  shows "(areq_Threshold req < 1 \<or> areq_Threshold req > 100 \<longrightarrow>
            (\<exists>e. res = Inl e) \<and> store c' = store c) \<and>
         (\<forall>B c1. GetBudget F (areq_BudgetID req) u c = (Inr B, c1) \<and>
            (areq_Threshold req < 1 \<or> areq_Threshold req > 100) \<longrightarrow>
            res = Inl ErrThresholdRange \<and> classify ErrThresholdRange = ValidationError \<and>
            c' = c\<lparr>issued := issued c + 2\<rparr>) \<and>
         (\<forall>B c1. GetBudget F (areq_BudgetID req) u c = (Inr B, c1) \<and>
            1 \<le> areq_Threshold req \<and> areq_Threshold req \<le> 100 \<and> \<not> F (issued c1) \<and>
            (\<exists>a \<in> set (budget_alerts (store c)).
               a_budget_id a = areq_BudgetID req \<and> a_threshold a = areq_Threshold req) \<longrightarrow>
            res = Inl (ErrAlertExists (areq_Threshold req)) \<and>
            classify (ErrAlertExists (areq_Threshold req)) = ConflictError \<and>
            store c' = store c) \<and>
         (\<forall>A. res = Inr A \<longrightarrow>
            (\<exists>b \<in> set (budgets (store c)). b_id b = areq_BudgetID req \<and> b_user_id b = u) \<and>
            1 \<le> areq_Threshold req \<and> areq_Threshold req \<le> 100 \<and>
            \<not> (\<exists>a \<in> set (budget_alerts (store c)).
                  a_budget_id a = areq_BudgetID req \<and> a_threshold a = areq_Threshold req) \<and>
            store c' = with_alert u req (store c) \<and>
            A = \<lparr>alert_ID = next_alert_id (store c), alert_UserID = u,
                  alert_BudgetID = areq_BudgetID req, alert_Threshold = areq_Threshold req,
                  alert_IsActive = areq_IsActive req\<rparr>)"
proof (cases "GetBudget F (areq_BudgetID req) u c")
  case (Pair r1 c1)
  note g = Pair
  note s1 = GetBudget_store[OF g]
  show ?thesis
  proof (cases r1)
    case (Inl e)
    with g run s1 show ?thesis by (auto simp: CreateBudgetAlert_def)
  next
    case (Inr B)
    from GetBudget_Inr g Inr have c1: "c1 = c\<lparr>issued := issued c + 2\<rparr>" by blast
    from g Inr have ex: "\<exists>b \<in> set (budgets (store c)). b_id b = areq_BudgetID req \<and> b_user_id b = u"
      using GetBudget_exists by blast
    show ?thesis
    proof (cases "areq_Threshold req < 1 \<or> areq_Threshold req > 100")
      case True
      with g Inr run s1 c1 show ?thesis by (auto simp: CreateBudgetAlert_def)
    next
      case False
      obtain r2 c2 where q: "QueryRow F (count_alerts (areq_BudgetID req) (areq_Threshold req) None) c1 = (r2, c2)"
        by (cases "QueryRow F (count_alerts (areq_BudgetID req) (areq_Threshold req) None) c1")
      note s2 = QueryRow_store[OF q]
      show ?thesis
      proof (cases r2)
        case (Inl e)
        then have "F (issued c1)" using q
          by (auto simp: QueryRow_def statement_def count_alerts_def Let_def split: if_splits)
        with g \<open>r1 = Inr B\<close> False q Inl run s1 s2 show ?thesis
          by (auto simp: CreateBudgetAlert_def)
      next
        case (Inr n)
        with q obtain ns where cnt: "count_alerts (areq_BudgetID req) (areq_Threshold req) None (store c1) = n # ns"
          by (auto simp: QueryRow_Inr_iff)
        note pos = count_alerts_pos[OF cnt, unfolded s1]
        show ?thesis
        proof (cases "n > 0")
          case True
          with g \<open>r1 = Inr B\<close> False q Inr run s1 s2 pos show ?thesis
            by (auto simp: CreateBudgetAlert_def)
        next
          case n0: False
          obtain r3 c3 where e: "Exec F (insert_alert u (areq_BudgetID req) (areq_Threshold req) (areq_IsActive req)) c2 = (r3, c3)"
            by (cases "Exec F (insert_alert u (areq_BudgetID req) (areq_Threshold req) (areq_IsActive req)) c2")
          show ?thesis
          proof (cases r3)
            case (Inl e3)
            with g \<open>r1 = Inr B\<close> False q Inr n0 e run s1 s2 pos Exec_Inl_store[of F _ c2 e3 c3]
            show ?thesis by (auto simp: CreateBudgetAlert_def)
          next
            case (Inr aid)
            from Exec_insert_alert[OF e[unfolded Inr]] s1 s2
            have "aid = next_alert_id (store c)" "store c3 = with_alert u req (store c)"
              by (simp_all add: with_alert_def)
            with g \<open>r1 = Inr B\<close> False q \<open>r2 = Inr n\<close> n0 e Inr run pos ex show ?thesis
              by (auto simp: CreateBudgetAlert_def)
          qed
        qed
      qed
    qed
  qed
qed

section \<open>What an operation writes\<close>

lemma GetBudget_UserID: "GetBudget F bid u c = (Inr B, c') \<Longrightarrow> UserID B = u"
proof -
  assume g: "GetBudget F bid u c = (Inr B, c')"
  from GetBudget_Inr[OF g] obtain r rs b0 where
    r: "select_budget bid u (store c) = r # rs" "scan_budget r = Inr b0"
    "B = with_usage (store c) u (Month b0, 0) b0" by blast
  from r(1) have "r \<in> set (select_budget bid u (store c))" by simp
  then have "b_user_id (fst r) = u" using select_budget_row by blast
  with r(2,3) show ?thesis by (simp add: with_usage_fields scan_budget_fields)
qed

lemma GetBudgets_UserID:
  assumes "GetBudgets F u m c = (Inr Bs, c')" "B \<in> set Bs"
  shows "UserID B = u"
proof -
  from GetBudgets_Inr[OF assms(1)] obtain ym bs where
    bs: "map scan_budget (select_budgets u m (store c)) = map Inr bs"
    "Bs = map (with_usage (store c) u (month_start ym)) bs" by blast
  from assms(2) bs(2) obtain b0 where b0: "b0 \<in> set bs" "B = with_usage (store c) u (month_start ym) b0"
    by auto
  from map_scan_member[OF bs(1) b0(1)] obtain r where
    r: "r \<in> set (select_budgets u m (store c))" "scan_budget r = Inr b0" by blast
  then have "b_user_id (fst r) = u" by (simp add: select_budgets_iff)
  with r(2) b0(2) show ?thesis by (simp add: with_usage_fields scan_budget_fields)
qed

lemma GetBudgets_store: "GetBudgets F u m c = (res, c') \<Longrightarrow> store c' = store c"
proof -
  have loop: "budgets_loop F u s e acc rows c = (res, c') \<Longrightarrow> store c' = store c"
    for s e acc rows c
  proof (induction rows arbitrary: acc c)
    case Nil
    then show ?case by auto
  next
    case (Cons r rows)
    show ?case
    proof (cases "scan_budget r")
      case (Inl e)
      with Cons.prems show ?thesis by auto
    next
      case (Inr b)
      obtain r1 c1 where q: "QueryRow F (used_amount_query b u s e) c = (r1, c1)"
        by (cases "QueryRow F (used_amount_query b u s e) c")
      note s1 = QueryRow_store[OF q]
      show ?thesis
      proof (cases r1)
        case (Inl e)
        with Cons.prems Inr q s1 show ?thesis by auto
      next
        case used: (Inr x)
        with Cons.prems Inr q have
          "budgets_loop F u s e (acc @ [set_percentage (b\<lparr>UsedAmount := float64 x\<rparr>)]) rows c1 = (res, c')"
          by simp
        from Cons.IH[OF this] s1 show ?thesis by simp
      qed
    qed
  qed
  assume g: "GetBudgets F u m c = (res, c')"
  show ?thesis
  proof (cases "time_Parse m")
    case None
    with g show ?thesis by (auto simp: GetBudgets_def)
  next
    case (Some t)
    obtain r1 c1 where q: "Query F (select_budgets u m) c = (r1, c1)"
      by (cases "Query F (select_budgets u m) c")
    from Query_conn[OF q] have s1: "store c1 = store c" by simp
    show ?thesis
    proof (cases r1)
      case (Inl e)
      with g Some q s1 show ?thesis by (auto simp: GetBudgets_def Let_def)
    next
      case (Inr rows)
      with g Some q have "budgets_loop F u t (Add_minus_second (AddDate_0_1_0 t)) [] rows c1 = (res, c')"
        by (simp add: GetBudgets_def Let_def)
      from loop[OF this] s1 show ?thesis by simp
    qed
  qed
qed

lemma CheckBudgetAlerts_store: "CheckBudgetAlerts F u m c = (res, c') \<Longrightarrow> store c' = store c"
  unfolding CheckBudgetAlerts_def
  by (auto split: prod.splits sum.splits dest!: GetBudgets_store Query_conn)

lemma GetBudgetAlerts_store: "GetBudgetAlerts F u bid c = (res, c') \<Longrightarrow> store c' = store c"
  unfolding GetBudgetAlerts_def
  by (auto split: prod.splits sum.splits dest!: Query_conn)

lemma GetBudgetAlerts_owner:
  "GetBudgetAlerts F u bid c = (Inr As, c') \<Longrightarrow> A \<in> set As \<Longrightarrow> alert_UserID A = u"
  unfolding GetBudgetAlerts_def
  by (auto simp: Query_Inr_iff select_alerts_def scan_alert_def split: prod.splits sum.splits)

text \<open>
  A relation \<open>R\<close> between the database before and after an operation: it holds across
  the operation as soon as it holds across no change and across the one write the
  operation makes.
\<close>

lemma statement_rel:
  assumes "statement F f c = (res, c')" "R (store c) (store c)"
    and "\<And>x db'. f (store c) = Inr (x, db') \<Longrightarrow> R (store c) db'"
  shows "R (store c) (store c')"
  using assms
  by (auto simp: statement_def Let_def split: if_splits sum.splits)

lemma Exec_rel:
  assumes "Exec F f c1 = (res, c2)" "store c1 = db" "R db db"
    and "\<And>x db'. f db = Inr (x, db') \<Longrightarrow> R db db'"
  shows "R db (store c2)"
  using statement_rel[where R = R, OF assms(1)[unfolded Exec_def]] assms(2-) by auto

lemma check_placement_store: "check_placement F u req ex c = (res, c') \<Longrightarrow> store c' = store c"
  unfolding check_placement_def
  by (auto split: if_splits prod.splits sum.splits dest!: QueryRow_store)

lemma CreateBudget_rel:
  assumes refl: "R (store c) (store c)"
    and ins: "\<And>cat amt t x db'.
      insert_budget u cat amt t (store c) = Inr (x, db') \<Longrightarrow> R (store c) db'"
    and run: "CreateBudget F u req c = (res, c')"
  shows "R (store c) (store c')"
proof (cases "time_Parse (req_Month req)")
  case None
  with run refl show ?thesis by (auto simp: CreateBudget_def)
next
  case (Some t)
  obtain r1 c1 where p: "check_placement F u req None c = (r1, c1)"
    by (cases "check_placement F u req None c")
  note s1 = check_placement_store[OF p]
  show ?thesis
  proof (cases r1)
    case (Inl e)
    with run Some p s1 refl show ?thesis by (auto simp: CreateBudget_def)
  next
    case (Inr x)
    let ?f = "insert_budget u (if req_CategoryID req > 0 then Some (req_CategoryID req) else None)
                (req_Amount req) t"
    obtain r2 c2 where e: "Exec F ?f c1 = (r2, c2)" by (cases "Exec F ?f c1")
    have s2: "R (store c) (store c2)"
      by (rule Exec_rel[where R = R, OF e s1 refl]) (rule ins)
    show ?thesis
    proof (cases r2)
      case (Inl e2)
      with run Some p \<open>r1 = Inr x\<close> e s2 show ?thesis by (auto simp: CreateBudget_def)
    next
      case (Inr budgetID)
      with run Some p \<open>r1 = Inr x\<close> e have "GetBudget F budgetID u c2 = (res, c')"
        by (simp add: CreateBudget_def)
      from GetBudget_store[OF this] s2 show ?thesis by simp
    qed
  qed
qed

lemma UpdateBudget_rel:
  assumes refl: "R (store c) (store c)"
    and upd: "\<And>cat amt t x db'.
      update_budget bid u cat amt t (store c) = Inr (x, db') \<Longrightarrow> R (store c) db'"
    and run: "UpdateBudget F bid u req c = (res, c')"
  shows "R (store c) (store c')"
proof -
  obtain r1 c1 where g: "GetBudget F bid u c = (r1, c1)" by (cases "GetBudget F bid u c")
  note s1 = GetBudget_store[OF g]
  show ?thesis
  proof (cases r1)
    case (Inl e)
    with run g s1 refl show ?thesis by (auto simp: UpdateBudget_def)
  next
    case (Inr B)
    let ?v = "if CategoryID B \<noteq> req_CategoryID req
              then check_placement F u req (Some bid) c1 else (Inr (), c1)"
    obtain r2 c2 where p: "?v = (r2, c2)" by (cases ?v)
    have s2: "store c2 = store c"
      using p s1 check_placement_store[of F u req "Some bid" c1 r2 c2] by (auto split: if_splits)
    show ?thesis
    proof (cases r2)
      case (Inl e)
      with run g \<open>r1 = Inr B\<close> p s2 refl show ?thesis by (auto simp: UpdateBudget_def)
    next
      case ok: (Inr x)
      show ?thesis
      proof (cases "time_Parse (req_Month req)")
        case None
        with run g \<open>r1 = Inr B\<close> p ok s2 refl show ?thesis
          by (auto simp: UpdateBudget_def)
      next
        case (Some t)
        let ?f = "update_budget bid u
                   (if req_CategoryID req > 0 then Some (req_CategoryID req) else None)
                   (req_Amount req) t"
        obtain r3 c3 where e: "Exec F ?f c2 = (r3, c3)" by (cases "Exec F ?f c2")
        have s3: "R (store c) (store c3)"
          by (rule Exec_rel[where R = R, OF e s2 refl]) (rule upd)
        show ?thesis
        proof (cases r3)
          case (Inl e3)
          with run g \<open>r1 = Inr B\<close> p ok Some e s3 show ?thesis
            by (auto simp: UpdateBudget_def)
        next
          case (Inr y)
          with run g \<open>r1 = Inr B\<close> p ok Some e have "GetBudget F bid u c3 = (res, c')"
            by (simp add: UpdateBudget_def)
          from GetBudget_store[OF this] s3 show ?thesis by simp
        qed
      qed
    qed
  qed
qed

lemma CreateBudgetAlert_rel:
  assumes refl: "R (store c) (store c)"
    and ins: "\<And>x db'.
      \<exists>b \<in> set (budgets (store c)). b_id b = areq_BudgetID req \<and> b_user_id b = u \<Longrightarrow>
      insert_alert u (areq_BudgetID req) (areq_Threshold req) (areq_IsActive req) (store c)
        = Inr (x, db') \<Longrightarrow> R (store c) db'"
    and run: "CreateBudgetAlert F u req c = (res, c')"
  shows "R (store c) (store c')"
proof -
  obtain r1 c1 where g: "GetBudget F (areq_BudgetID req) u c = (r1, c1)"
    by (cases "GetBudget F (areq_BudgetID req) u c")
  note s1 = GetBudget_store[OF g]
  show ?thesis
  proof (cases r1)
    case (Inl e)
    with run g s1 refl show ?thesis by (auto simp: CreateBudgetAlert_def)
  next
    case (Inr B)
    from g Inr have ex: "\<exists>b \<in> set (budgets (store c)). b_id b = areq_BudgetID req \<and> b_user_id b = u"
      using GetBudget_exists by blast
    show ?thesis
    proof (cases "areq_Threshold req < 1 \<or> areq_Threshold req > 100")
      case True
      with run g Inr s1 refl show ?thesis by (auto simp: CreateBudgetAlert_def)
    next
      case False
      let ?q = "count_alerts (areq_BudgetID req) (areq_Threshold req) None"
      obtain r2 c2 where q: "QueryRow F ?q c1 = (r2, c2)" by (cases "QueryRow F ?q c1")
      have s2: "store c2 = store c" using QueryRow_store[OF q] s1 by simp
      show ?thesis
      proof (cases r2)
        case (Inl e)
        with run g \<open>r1 = Inr B\<close> False q s2 refl show ?thesis
          by (auto simp: CreateBudgetAlert_def)
      next
        case cnt: (Inr n)
        show ?thesis
        proof (cases "n > 0")
          case True
          with run g \<open>r1 = Inr B\<close> False q cnt s2 refl show ?thesis
            by (auto simp: CreateBudgetAlert_def)
        next
          case n0: False
          let ?f = "insert_alert u (areq_BudgetID req) (areq_Threshold req) (areq_IsActive req)"
          obtain r3 c3 where e: "Exec F ?f c2 = (r3, c3)" by (cases "Exec F ?f c2")
          have s3: "R (store c) (store c3)"
            by (rule Exec_rel[where R = R, OF e s2 refl]) (rule ins[OF ex])
          from run g \<open>r1 = Inr B\<close> False q cnt n0 e have "c' = c3"
            by (auto simp: CreateBudgetAlert_def split: sum.splits)
          with s3 show ?thesis by simp
        qed
      qed
    qed
  qed
qed

lemma CreateBudgetAlert_owner:
  "CreateBudgetAlert F u req c = (Inr A, c') \<Longrightarrow> alert_UserID A = u"
  by (auto simp: CreateBudgetAlert_def split: prod.splits sum.splits if_splits)

lemma DeleteBudgetAlert_rel:
  assumes refl: "R (store c) (store c)"
    and del: "\<And>x db'. delete_alert aid u (store c) = Inr (x, db') \<Longrightarrow> R (store c) db'"
    and run: "DeleteBudgetAlert F aid u c = (res, c')"
  shows "R (store c) (store c')"
proof -
  obtain r1 c1 where q: "QueryRow F (alert_exists aid u) c = (r1, c1)"
    by (cases "QueryRow F (alert_exists aid u) c")
  note s1 = QueryRow_store[OF q]
  show ?thesis
  proof (cases r1)
    case (Inl e)
    with run q s1 refl show ?thesis by (auto simp: DeleteBudgetAlert_def)
  next
    case (Inr ex)
    show ?thesis
    proof (cases ex)
      case False
      with run q Inr s1 refl show ?thesis by (auto simp: DeleteBudgetAlert_def)
    next
      case True
      obtain r2 c2 where e: "Exec F (delete_alert aid u) c1 = (r2, c2)"
        by (cases "Exec F (delete_alert aid u) c1")
      have s2: "R (store c) (store c2)"
        by (rule Exec_rel[where R = R, OF e s1 refl]) (rule del)
      from run q Inr True e have "c' = c2"
        by (auto simp: DeleteBudgetAlert_def split: sum.splits)
      with s2 show ?thesis by simp
    qed
  qed
qed

lemma UpdateBudgetAlert_steps:
  assumes "UpdateBudgetAlert F aid u req c = (res, c')"
  shows "((\<exists>e. res = Inl e) \<and> store c' = store c) \<or>
    ((\<exists>a \<in> set (budget_alerts (store c)). a_id a = aid \<and> a_user_id a = u) \<and>
     (\<exists>b \<in> set (budgets (store c)). b_id b = areq_BudgetID req \<and> b_user_id b = u) \<and>
     (\<exists>x c3 c4. store c3 = store c \<and>
        Exec F (update_alert aid u (areq_BudgetID req) (areq_Threshold req) (areq_IsActive req)) c3
          = (Inr x, c4) \<and>
        store c' = store c4 \<and>
        (\<forall>A. res = Inr A \<longrightarrow>
           (\<exists>a rest. select_alert_by_id aid (store c4) = a # rest \<and> A = scan_alert a))))"
proof -
  note d = UpdateBudgetAlert_def
  obtain r1 c1 where q: "QueryRow F (alert_exists aid u) c = (r1, c1)"
    by (cases "QueryRow F (alert_exists aid u) c")
  note s1 = QueryRow_store[OF q]
  show ?thesis
  proof (cases r1)
    case (Inl e)
    with assms q have "res = Inl e" "c' = c1" by (simp_all add: d)
    with s1 show ?thesis by simp
  next
    case (Inr ex)
    show ?thesis
    proof (cases ex)
      case False
      with assms q Inr have "res = Inl ErrAlertNotFound" "c' = c1" by (simp_all add: d)
      with s1 show ?thesis by simp
    next
      case True
      with q Inr have exa: "\<exists>a \<in> set (budget_alerts (store c)). a_id a = aid \<and> a_user_id a = u"
        by (auto simp: QueryRow_Inr_iff alert_exists_def)
      obtain r2 c2 where g: "GetBudget F (areq_BudgetID req) u c1 = (r2, c2)"
        by (cases "GetBudget F (areq_BudgetID req) u c1")
      have s2: "store c2 = store c" using GetBudget_store[OF g] s1 by simp
      show ?thesis
      proof (cases r2)
        case (Inl e)
        with assms q \<open>r1 = Inr ex\<close> True g have "res = Inl e" "c' = c2" by (simp_all add: d)
        with s2 show ?thesis by simp
      next
        case (Inr B)
        from g Inr s1 have exb:
          "\<exists>b \<in> set (budgets (store c)). b_id b = areq_BudgetID req \<and> b_user_id b = u"
          using GetBudget_exists by fastforce
        show ?thesis
        proof (cases "areq_Threshold req < 1 \<or> areq_Threshold req > 100")
          case out: True
          with assms q \<open>r1 = Inr ex\<close> True g Inr have "res = Inl ErrThresholdRange" "c' = c2"
            by (simp_all add: d)
          with s2 show ?thesis by simp
        next
          case in_range: False
          let ?q = "count_alerts (areq_BudgetID req) (areq_Threshold req) (Some aid)"
          obtain r3 c3 where q3: "QueryRow F ?q c2 = (r3, c3)" by (cases "QueryRow F ?q c2")
          have s3: "store c3 = store c" using QueryRow_store[OF q3] s2 by simp
          show ?thesis
          proof (cases r3)
            case (Inl e)
            with assms q \<open>r1 = Inr ex\<close> True g \<open>r2 = Inr B\<close> in_range q3
            have "res = Inl e" "c' = c3" by (simp_all add: d)
            with s3 show ?thesis by simp
          next
            case cnt: (Inr n)
            show ?thesis
            proof (cases "n > 0")
              case dup: True
              with assms q \<open>r1 = Inr ex\<close> True g \<open>r2 = Inr B\<close> in_range q3 cnt
              have "res = Inl (ErrAlertExists (areq_Threshold req))" "c' = c3"
                by (simp_all add: d)
              with s3 show ?thesis by simp
            next
              case n0: False
              let ?f = "update_alert aid u (areq_BudgetID req) (areq_Threshold req) (areq_IsActive req)"
              obtain r4 c4 where e: "Exec F ?f c3 = (r4, c4)" by (cases "Exec F ?f c3")
              show ?thesis
              proof (cases r4)
                case (Inl e4)
                with assms q \<open>r1 = Inr ex\<close> True g \<open>r2 = Inr B\<close> in_range q3 cnt n0 e
                have "res = Inl e4" "c' = c4" by (simp_all add: d)
                with Exec_Inl_store[of F ?f c3 e4 c4] e Inl s3 show ?thesis by simp
              next
                case upd: (Inr x)
                obtain r5 c5 where q5: "QueryRow F (select_alert_by_id aid) c4 = (r5, c5)"
                  by (cases "QueryRow F (select_alert_by_id aid) c4")
                note s5 = QueryRow_store[OF q5]
                from assms q \<open>r1 = Inr ex\<close> True g \<open>r2 = Inr B\<close> in_range q3 cnt n0 e upd q5
                have fin: "c' = c5" "res = map_sum id scan_alert r5"
                  by (cases r5; simp add: d)+
                have sel: "\<exists>a rest. select_alert_by_id aid (store c4) = a # rest \<and> A = scan_alert a"
                  if "res = Inr A" for A
                  using that fin(2) q5 by (cases r5) (auto simp: QueryRow_Inr_iff)
                have "store c3 = store c \<and> Exec F ?f c3 = (Inr x, c4) \<and> store c' = store c4 \<and>
                  (\<forall>A. res = Inr A \<longrightarrow>
                    (\<exists>a rest. select_alert_by_id aid (store c4) = a # rest \<and> A = scan_alert a))"
                  using s3 e upd s5 fin(1) sel by simp
                then show ?thesis using exa exb by blast
              qed
            qed
          qed
        qed
      qed
    qed
  qed
qed

lemma Exec_Inr:
  "Exec F f c = (Inr x, c') \<Longrightarrow> f (store c) = Inr (x, store c')"
  by (auto simp: Exec_def statement_def Let_def split: if_splits sum.splits)

lemma UpdateBudgetAlert_rel:
  assumes refl: "R (store c) (store c)"
    and upd: "\<And>x db'.
      \<exists>a \<in> set (budget_alerts (store c)). a_id a = aid \<and> a_user_id a = u \<Longrightarrow>
      \<exists>b \<in> set (budgets (store c)). b_id b = areq_BudgetID req \<and> b_user_id b = u \<Longrightarrow>
      update_alert aid u (areq_BudgetID req) (areq_Threshold req) (areq_IsActive req) (store c)
        = Inr (x, db') \<Longrightarrow> R (store c) db'"
    and run: "UpdateBudgetAlert F aid u req c = (res, c')"
  shows "R (store c) (store c')"
proof -
  from UpdateBudgetAlert_steps[OF run] show ?thesis
  proof (elim disjE conjE exE)
    assume "store c' = store c"
    with refl show ?thesis by simp
  next
    fix x c3 c4
    assume exa: "\<exists>a \<in> set (budget_alerts (store c)). a_id a = aid \<and> a_user_id a = u"
      and exb: "\<exists>b \<in> set (budgets (store c)). b_id b = areq_BudgetID req \<and> b_user_id b = u"
      and s3: "store c3 = store c"
      and e: "Exec F (update_alert aid u (areq_BudgetID req) (areq_Threshold req)
                (areq_IsActive req)) c3 = (Inr x, c4)"
      and s4: "store c' = store c4"
    from Exec_Inr[OF e] s3 upd[OF exa exb] s4 show ?thesis by simp
  qed
qed

lemma DeleteBudget_rel:
  assumes refl: "R (store c) (store c)"
    and del: "\<And>b. b \<in> set (budgets (store c)) \<Longrightarrow> b_id b = bid \<Longrightarrow> b_user_id b = u \<Longrightarrow>
                R (store c) (without_budget bid u (store c))"
    and run: "DeleteBudget F bid u c = (res, c')"
  shows "R (store c) (store c')"
  using DeleteBudget_cases[OF run] refl del by auto

section \<open>What an operation of one user leaves alone\<close>

lemma same_for_refl: "same_for v db db"
  by (simp add: same_for_def)

lemma same_for_eq: "db' = db \<Longrightarrow> same_for v db db'"
  by (simp add: same_for_def)

lemma filter_map_other:
  assumes "\<And>x. P (f x) = P x" "\<And>x. P x \<Longrightarrow> f x = x"
  shows "filter P (map f xs) = filter P xs"
  using assms by (induction xs) auto

lemma insert_budget_same_for:
  "u \<noteq> v \<Longrightarrow> insert_budget u cat amt t db = Inr (x, db') \<Longrightarrow> same_for v db db'"
  by (auto simp: insert_budget_def same_for_def budgets_of_def alerts_of_def Let_def
      split: if_splits)

lemma update_budget_same_for:
  assumes "u \<noteq> v" "update_budget bid u cat amt t db = Inr (x, db')"
  shows "same_for v db db'"
proof -
  let ?upd = "\<lambda>b. if b_id b = bid \<and> b_user_id b = u
                   then b\<lparr>b_category_id := cat, b_amount := amt, b_month := stored_month t\<rparr>
                   else b"
  from assms(2) have db': "db' = db\<lparr>budgets := map ?upd (budgets db)\<rparr>"
    by (auto simp: update_budget_def Let_def split: if_splits)
  have "filter (\<lambda>b. b_user_id b = v) (map ?upd (budgets db)) =
        filter (\<lambda>b. b_user_id b = v) (budgets db)"
    using assms(1) by (intro filter_map_other) auto
  then show ?thesis by (simp add: db' same_for_def budgets_of_def alerts_of_def)
qed

lemma insert_alert_same_for:
  "u \<noteq> v \<Longrightarrow> insert_alert u bid thr act db = Inr (x, db') \<Longrightarrow> same_for v db db'"
  by (auto simp: insert_alert_def same_for_def budgets_of_def alerts_of_def)

lemma update_alert_same_for:
  assumes "u \<noteq> v" "update_alert aid u bid thr act db = Inr (x, db')"
  shows "same_for v db db'"
proof -
  let ?upd = "\<lambda>a. if a_id a = aid \<and> a_user_id a = u
                   then a\<lparr>a_budget_id := bid, a_threshold := thr, a_is_active := act\<rparr>
                   else a"
  from assms(2) have db': "db' = db\<lparr>budget_alerts := map ?upd (budget_alerts db)\<rparr>"
    by (auto simp: update_alert_def)
  have "filter (\<lambda>a. a_user_id a = v) (map ?upd (budget_alerts db)) =
        filter (\<lambda>a. a_user_id a = v) (budget_alerts db)"
    using assms(1) by (intro filter_map_other) auto
  then show ?thesis by (simp add: db' same_for_def budgets_of_def alerts_of_def)
qed

lemma delete_alert_same_for:
  assumes "u \<noteq> v" "delete_alert aid u db = Inr (x, db')"
  shows "same_for v db db'"
proof -
  have "filter (\<lambda>a. a_user_id a = v) (filter (\<lambda>a. \<not> (a_id a = aid \<and> a_user_id a = u)) (budget_alerts db)) =
        filter (\<lambda>a. a_user_id a = v) (budget_alerts db)"
    using assms(1) by (auto intro: filter_cong)
  with assms(2) show ?thesis
    by (auto simp: delete_alert_def same_for_def budgets_of_def alerts_of_def)
qed

lemma without_budget_same_for:
  assumes pk: "primary_keys db" and own: "alerts_owned db" and "u \<noteq> v"
    and b: "b \<in> set (budgets db)" "b_id b = bid" "b_user_id b = u"
  shows "same_for v db (without_budget bid u db)"
proof -
  have "filter (\<lambda>b. b_user_id b = v) (filter (\<lambda>b. \<not> (b_id b = bid \<and> b_user_id b = u)) (budgets db)) =
        filter (\<lambda>b. b_user_id b = v) (budgets db)"
    using assms(3) by (auto intro: filter_cong)
  moreover have "a_budget_id a \<noteq> bid" if "a \<in> set (budget_alerts db)" "a_user_id a = v" for a
    using alerts_owned_budget[OF pk own that(1) b(1)] b(2,3) that(2) assms(3) by auto
  then have "filter (\<lambda>a. a_user_id a = v) (filter (\<lambda>a. a_budget_id a \<noteq> bid) (budget_alerts db)) =
        filter (\<lambda>a. a_user_id a = v) (budget_alerts db)"
    by (auto intro: filter_cong)
  ultimately show ?thesis
    by (simp add: without_budget_def same_for_def budgets_of_def alerts_of_def)
qed

text \<open>The budgets and alerts of another user, across each operation.\<close>

lemma CreateBudget_same_for:
  "u \<noteq> v \<Longrightarrow> CreateBudget F u req c = (res, c') \<Longrightarrow> same_for v (store c) (store c')"
  by (rule CreateBudget_rel[where R = "same_for v"])
     (auto simp: same_for_refl intro: insert_budget_same_for)

lemma UpdateBudget_same_for:
  "u \<noteq> v \<Longrightarrow> UpdateBudget F bid u req c = (res, c') \<Longrightarrow> same_for v (store c) (store c')"
  by (rule UpdateBudget_rel[where R = "same_for v"])
     (auto simp: same_for_refl intro: update_budget_same_for)

lemma DeleteBudget_same_for:
  "primary_keys (store c) \<Longrightarrow> alerts_owned (store c) \<Longrightarrow> u \<noteq> v \<Longrightarrow>
   DeleteBudget F bid u c = (res, c') \<Longrightarrow> same_for v (store c) (store c')"
  by (rule DeleteBudget_rel[where R = "same_for v"])
     (auto simp: same_for_refl intro: without_budget_same_for)

lemma CreateBudgetAlert_same_for:
  "u \<noteq> v \<Longrightarrow> CreateBudgetAlert F u req c = (res, c') \<Longrightarrow> same_for v (store c) (store c')"
  by (rule CreateBudgetAlert_rel[where R = "same_for v"])
     (auto simp: same_for_refl intro: insert_alert_same_for)

lemma UpdateBudgetAlert_same_for:
  "u \<noteq> v \<Longrightarrow> UpdateBudgetAlert F aid u req c = (res, c') \<Longrightarrow> same_for v (store c) (store c')"
  by (rule UpdateBudgetAlert_rel[where R = "same_for v"])
     (auto simp: same_for_refl intro: update_alert_same_for)

lemma DeleteBudgetAlert_same_for:
  "u \<noteq> v \<Longrightarrow> DeleteBudgetAlert F aid u c = (res, c') \<Longrightarrow> same_for v (store c) (store c')"
  by (rule DeleteBudgetAlert_rel[where R = "same_for v"])
     (auto simp: same_for_refl intro: delete_alert_same_for)

lemma update_alert_rows:
  "Exec F (update_alert aid u bid thr act) c = (Inr x, c') \<Longrightarrow>
     budget_alerts (store c') =
       map (\<lambda>a. if a_id a = aid \<and> a_user_id a = u
                then a\<lparr>a_budget_id := bid, a_threshold := thr, a_is_active := act\<rparr>
                else a)
         (budget_alerts (store c))"
  by (auto simp: Exec_def statement_def update_alert_def Let_def split: if_splits)

lemma UpdateBudgetAlert_owner:
  assumes pk: "primary_keys (store c)" and run: "UpdateBudgetAlert F aid u req c = (Inr A, c')"
  shows "alert_UserID A = u"
proof -
  define upd :: "alert_row \<Rightarrow> alert_row" where "upd = (\<lambda>a. if a_id a = aid \<and> a_user_id a = u
                   then a\<lparr>a_budget_id := areq_BudgetID req, a_threshold := areq_Threshold req,
                          a_is_active := areq_IsActive req\<rparr>
                   else a)"
  have keep: "a_id (upd x) = a_id x" "a_user_id (upd x) = a_user_id x" for x
    by (simp_all add: upd_def)
  from UpdateBudgetAlert_steps[OF run] have
    ex: "\<exists>a \<in> set (budget_alerts (store c)). a_id a = aid \<and> a_user_id a = u" and
    exb: "\<exists>b \<in> set (budgets (store c)). b_id b = areq_BudgetID req \<and> b_user_id b = u" and
    st: "\<exists>x c3 c4. store c3 = store c \<and>
        Exec F (update_alert aid u (areq_BudgetID req) (areq_Threshold req) (areq_IsActive req)) c3
          = (Inr x, c4) \<and>
        store c' = store c4 \<and>
        (\<forall>A'. Inr A = Inr A' \<longrightarrow>
           (\<exists>a rest. select_alert_by_id aid (store c4) = a # rest \<and> A' = scan_alert a))"
    by simp_all
  from ex obtain a0 where
    a0: "a0 \<in> set (budget_alerts (store c))" "a_id a0 = aid" "a_user_id a0 = u" by blast
  from st obtain x c3 c4 where
    s3: "store c3 = store c" and
    e: "Exec F (update_alert aid u (areq_BudgetID req) (areq_Threshold req) (areq_IsActive req)) c3
          = (Inr x, c4)" and
    all: "\<forall>A'. Inr A = Inr A' \<longrightarrow>
           (\<exists>a rest. select_alert_by_id aid (store c4) = a # rest \<and> A' = scan_alert a)"
    by blast
  from all obtain a rest where
    sel: "select_alert_by_id aid (store c4) = a # rest" and A: "A = scan_alert a" by blast
  have rows: "budget_alerts (store c4) = map upd (budget_alerts (store c))"
    unfolding upd_def using update_alert_rows[OF e] s3 by simp
  from sel have "a \<in> set (select_alert_by_id aid (store c4))" by simp
  then have mem: "a \<in> upd ` set (budget_alerts (store c))" and ida: "a_id a = aid"
    by (simp_all add: select_alert_by_id_def rows)
  from mem obtain a1 where a1: "a1 \<in> set (budget_alerts (store c))" "a = upd a1"
    by (rule imageE)
  from a1(2) ida keep(1) have "a_id a1 = aid" by simp
  with distinct_map_eq[of a_id "budget_alerts (store c)" a1 a0] pk a0 a1(1) have "a1 = a0"
    by (simp add: primary_keys_def)
  with a1(2) a0 keep(2) have "a_user_id a = u" by simp
  with A show ?thesis by (simp add: scan_alert_def)
qed

lemma CheckBudgetAlerts_owned:
  assumes run: "CheckBudgetAlerts F u m c = (Inr rs, c')" and r: "r \<in> set rs"
  shows "(\<exists>a \<in> set (budget_alerts (store c)). a_id a = alert_id r \<and> a_user_id a = u) \<and>
         (\<exists>b \<in> set (budgets (store c)). b_id b = budget_id r \<and> b_user_id b = u)"
proof -
  let ?db = "store c"
  from CheckBudgetAlerts_Inr[OF run] obtain ym bs where
    ym: "parse_year_month m = Some ym" and
    scans: "map scan_budget (select_budgets u m ?db) = map Inr bs" and
    rs: "rs = alerts_loop (map (with_usage ?db u (month_start ym)) bs) []
               (select_active_alerts u m ?db)"
    by blast
  let ?loaded = "map (with_usage ?db u (month_start ym)) bs"
  from r obtain row B where
    row: "row \<in> set (select_active_alerts u m ?db)" and
    fb: "find_budget ?loaded (a_budget_id (fst row)) = Some B" and
    req: "r = alertInfo row B"
    unfolding rs alerts_loop_set by auto
  from row have a: "fst row \<in> set (budget_alerts ?db)" "a_user_id (fst row) = u"
    by (simp_all add: select_active_alerts_iff)
  from find_budget_Some[OF fb] have B: "B \<in> set ?loaded" "ID B = a_budget_id (fst row)"
    by simp_all
  from loaded_budget[OF scans ym B(1)] obtain b where
    b: "b \<in> set (budgets ?db)" "b_id b = ID B" "b_user_id b = u" by blast
  have "alert_id r = a_id (fst row)" "budget_id r = a_budget_id (fst row)"
    by (simp_all add: req alertInfo_def)
  with a b B(2) show ?thesis by auto
qed

lemma respond_cases:
  assumes "respond wrap x = (res, c')"
  obtains (error) e where "x = (Inl e, c')" "res = Inl e"
        | (ok) y where "x = (Inr y, c')" "res = Inr (wrap y)"
  using assms by (auto simp: respond_def split: prod.splits sum.splits)

section \<open>The small database, evaluated\<close>

lemma no_faults_simp: "\<not> no_faults n"
  by (simp add: no_faults_def)

text \<open>
  Some values of \<open>float64\<close>: one tenth, a tie that goes to the even neighbour and a
  negative number; then the percentages of the budgets of the small database.
\<close>

lemma ex_float64_rounding:
  "float64 (1 / 10) = 3602879701896397 / 36028797018963968"
  "float64 9007199254740993 = 9007199254740992"
  "float64 (- 5 / 3) = - (7505999378950827 / 4503599627370496)"
  by (simp_all add: float64_eval)

lemma ex_float64:
  "float64_mul (float64_div 850 1000) 100 = 85"
  "float64_mul (float64_div 850 2000) 100 = 85 / 2"
  "float64_mul (float64_div 40 2000) 100 = 2"
  "float64_mul (float64_div 99 50) 100 = 198"
  by (simp_all add: float64_mul_def float64_div_def float64_eval)

lemmas float64_exact = float64_numeral float64_zero float64_of_int_def

lemma ex_expenses:
  "expenses_in_month example_db 7 (Some 11) (2024, 3) = 850"
  "expenses_in_month example_db 7 None (2024, 3) = 850"
  "expenses_in_month example_db 7 None (2024, 2) = 10"
  by (simp_all add: expenses_in_month_def example_db_def date_le_def first_day_def last_day_def
      days_in_month_def is_leap_def)

lemma ex_parse: "parse_year_month ''2024-03'' = Some (2024, 3)"
  by (simp add: digit_def)

lemma ex_select_budget:
  "select_budget 31 7 example_db =
     [(\<lparr>b_id = 31, b_user_id = 7, b_category_id = Some 11, b_amount = 1000, b_month = (2024, 3)\<rparr>,
       Some \<lparr>c_id = 11, c_user_id = 7, c_name = ''Food'', c_type = ''expense'', c_icon = None\<rparr>)]"
  "select_budget 35 7 example_db =
     [(\<lparr>b_id = 35, b_user_id = 7, b_category_id = None, b_amount = 0, b_month = (2024, 2)\<rparr>, None)]"
  by (simp_all add: select_budget_def left_join_category_def example_db_def)

lemma ex_select_budgets:
  "select_budgets 7 ''2024-03'' example_db =
     [(\<lparr>b_id = 32, b_user_id = 7, b_category_id = None, b_amount = 2000, b_month = (2024, 3)\<rparr>, None),
      (\<lparr>b_id = 31, b_user_id = 7, b_category_id = Some 11, b_amount = 1000, b_month = (2024, 3)\<rparr>,
       Some \<lparr>c_id = 11, c_user_id = 7, c_name = ''Food'', c_type = ''expense'', c_icon = None\<rparr>)]"
  by (simp add: select_budgets_def left_join_category_def example_db_def DATE_FORMAT_eq_def ex_parse
      order_key_def del: parse_year_month.simps)

lemma ex_scan:
  "scan_budget
     (\<lparr>b_id = 31, b_user_id = 7, b_category_id = Some 11, b_amount = 1000, b_month = (2024, 3)\<rparr>,
       Some \<lparr>c_id = 11, c_user_id = 7, c_name = ''Food'', c_type = ''expense'', c_icon = None\<rparr>) =
   Inr (food_budget\<lparr>UsedAmount := 0, Percentage := 0\<rparr>)"
  "scan_budget
     (\<lparr>b_id = 32, b_user_id = 7, b_category_id = None, b_amount = 2000, b_month = (2024, 3)\<rparr>, None) =
   Inr (total_budget\<lparr>UsedAmount := 0, Percentage := 0\<rparr>)"
  "scan_budget
     (\<lparr>b_id = 35, b_user_id = 7, b_category_id = None, b_amount = 0, b_month = (2024, 2)\<rparr>, None) =
   Inr (empty_budget\<lparr>UsedAmount := 0, Percentage := 0\<rparr>)"
  by (simp_all add: scan_budget_def parse_stored_month_def month_start_def first_day_def
      food_budget_def total_budget_def empty_budget_def float64_exact)

lemma ex_with_usage:
  "with_usage example_db 7 (first_day (2024, 3), 0) (food_budget\<lparr>UsedAmount := 0, Percentage := 0\<rparr>) = food_budget"
  "with_usage example_db 7 (first_day (2024, 3), 0) (total_budget\<lparr>UsedAmount := 0, Percentage := 0\<rparr>) = total_budget"
  "with_usage example_db 7 (first_day (2024, 2), 0) (empty_budget\<lparr>UsedAmount := 0, Percentage := 0\<rparr>) = empty_budget"
  by (simp_all add: with_usage_eval budget_scope_def ex_expenses set_percentage_def
      food_budget_def total_budget_def empty_budget_def float64_exact ex_float64)

lemma ex_Month:
  "Month food_budget = first_day (2024, 3)" "Month total_budget = first_day (2024, 3)"
  "Month empty_budget = first_day (2024, 2)"
  by (simp_all add: food_budget_def total_budget_def empty_budget_def)

lemma ex_GetBudget_food: "GetBudget no_faults 31 7 c0 = (Inr food_budget, c0\<lparr>issued := 2\<rparr>)"
  using GetBudget_success[of no_faults c0 31 7, OF no_faults_simp no_faults_simp _ ex_scan(1)]
  by (simp add: c0_def ex_select_budget ex_with_usage ex_Month)

lemma ex_GetBudget_empty: "GetBudget no_faults 35 7 c0 = (Inr empty_budget, c0\<lparr>issued := 2\<rparr>)"
  using GetBudget_success[of no_faults c0 35 7, OF no_faults_simp no_faults_simp _ ex_scan(3)]
  by (simp add: c0_def ex_select_budget ex_with_usage ex_Month)

lemma ex_GetBudgets_march:
  "GetBudgets no_faults 7 ''2024-03'' c0 = (Inr [total_budget, food_budget], c0\<lparr>issued := 3\<rparr>)"
  using GetBudgets_success[of no_faults "''2024-03''" "(2024, 3)" 7 c0
      "[total_budget\<lparr>UsedAmount := 0, Percentage := 0\<rparr>, food_budget\<lparr>UsedAmount := 0, Percentage := 0\<rparr>]"]
  by (simp add: no_faults_simp ex_parse c0_def ex_select_budgets ex_scan month_start_first_day
      ex_with_usage del: parse_year_month.simps)

lemma ex_keys: "primary_keys example_db" "alerts_owned example_db"
  by (simp_all add: primary_keys_def alerts_owned_def example_db_def)

lemma ex_DATE_FORMAT_eq: "DATE_FORMAT_eq ym ''2024-03'' \<longleftrightarrow> ym = (2024, 3)"
  unfolding DATE_FORMAT_eq_def ex_parse by auto

lemma ex_select_active_alerts:
  "select_active_alerts 7 ''2024-03'' example_db =
     [(\<lparr>a_id = 41, a_user_id = 7, a_budget_id = 31, a_threshold = 80, a_is_active = True\<rparr>,
       \<lparr>b_id = 31, b_user_id = 7, b_category_id = Some 11, b_amount = 1000, b_month = (2024, 3)\<rparr>,
       Some \<lparr>c_id = 11, c_user_id = 7, c_name = ''Food'', c_type = ''expense'', c_icon = None\<rparr>),
      (\<lparr>a_id = 42, a_user_id = 7, a_budget_id = 31, a_threshold = 90, a_is_active = True\<rparr>,
       \<lparr>b_id = 31, b_user_id = 7, b_category_id = Some 11, b_amount = 1000, b_month = (2024, 3)\<rparr>,
       Some \<lparr>c_id = 11, c_user_id = 7, c_name = ''Food'', c_type = ''expense'', c_icon = None\<rparr>),
      (\<lparr>a_id = 43, a_user_id = 7, a_budget_id = 31, a_threshold = 85, a_is_active = True\<rparr>,
       \<lparr>b_id = 31, b_user_id = 7, b_category_id = Some 11, b_amount = 1000, b_month = (2024, 3)\<rparr>,
       Some \<lparr>c_id = 11, c_user_id = 7, c_name = ''Food'', c_type = ''expense'', c_icon = None\<rparr>)]"
  by (simp add: select_active_alerts_def left_join_category_def example_db_def ex_DATE_FORMAT_eq)

lemma ex_select_active_alerts_orphan:
  "select_active_alerts 7 ''2024-03'' orphan_db =
     select_active_alerts 7 ''2024-03'' example_db @
     [(\<lparr>a_id = 46, a_user_id = 7, a_budget_id = 34, a_threshold = 10, a_is_active = True\<rparr>,
       \<lparr>b_id = 34, b_user_id = 8, b_category_id = Some 13, b_amount = 50, b_month = (2024, 3)\<rparr>,
       Some \<lparr>c_id = 13, c_user_id = 8, c_name = ''Rent'', c_type = ''expense'', c_icon = Some ''home''\<rparr>)]"
  by (simp add: select_active_alerts_def left_join_category_def example_db_def orphan_db_def
      ex_DATE_FORMAT_eq)

lemma ex_alerts_loop:
  "alerts_loop [total_budget, food_budget] [] (select_active_alerts 7 ''2024-03'' example_db) =
     [food_alert 80 41, food_alert 85 43]"
  "alerts_loop [total_budget, food_budget] [] (select_active_alerts 7 ''2024-03'' orphan_db) =
     [food_alert 80 41, food_alert 85 43]"
  unfolding ex_select_active_alerts_orphan ex_select_active_alerts
  by (simp_all add: alertInfo_def food_budget_def total_budget_def food_alert_def float64_exact)

lemma ex_scans:
  "map scan_budget (select_budgets 7 ''2024-03'' (store c0)) =
     map Inr [total_budget\<lparr>UsedAmount := 0, Percentage := 0\<rparr>,
              food_budget\<lparr>UsedAmount := 0, Percentage := 0\<rparr>]"
  by (simp add: c0_def ex_select_budgets ex_scan)

lemma ex_CheckBudgetAlerts:
  "CheckBudgetAlerts no_faults 7 ''2024-03'' c0 =
     (Inr [food_alert 80 41, food_alert 85 43], c0\<lparr>issued := 4\<rparr>)"
  using CheckBudgetAlerts_success[of no_faults, OF _ ex_parse ex_scans]
  by (simp add: no_faults_simp c0_def month_start_first_day ex_with_usage ex_alerts_loop
       del: parse_year_month.simps)

lemma ex_budget_percentage:
  "budget_percentage example_db
     \<lparr>b_id = 31, b_user_id = 7, b_category_id = Some 11, b_amount = 1000, b_month = (2024, 3)\<rparr> = 85"
  by (simp add: budget_percentage_def row_scope_def ex_expenses float64_exact ex_float64)

lemma ex_GetBudget_food_faults:
  assumes "\<not> F 0" "\<not> F 1"
  shows "GetBudget F 31 7 c0 = (Inr food_budget, c0\<lparr>issued := 2\<rparr>)"
  using GetBudget_success[of F c0 31 7, OF _ _ _ ex_scan(1)] assms
  by (simp add: c0_def ex_select_budget ex_with_usage ex_Month)

lemma ex_tables:
  "budgets example_db =
     [\<lparr>b_id = 31, b_user_id = 7, b_category_id = Some 11, b_amount = 1000, b_month = (2024, 3)\<rparr>,
      \<lparr>b_id = 32, b_user_id = 7, b_category_id = None, b_amount = 2000, b_month = (2024, 3)\<rparr>,
      \<lparr>b_id = 33, b_user_id = 7, b_category_id = None, b_amount = 2000, b_month = (2024, 4)\<rparr>,
      \<lparr>b_id = 34, b_user_id = 8, b_category_id = Some 13, b_amount = 50, b_month = (2024, 3)\<rparr>,
      \<lparr>b_id = 35, b_user_id = 7, b_category_id = None, b_amount = 0, b_month = (2024, 2)\<rparr>]"
  "budget_alerts example_db =
     [\<lparr>a_id = 41, a_user_id = 7, a_budget_id = 31, a_threshold = 80, a_is_active = True\<rparr>,
      \<lparr>a_id = 42, a_user_id = 7, a_budget_id = 31, a_threshold = 90, a_is_active = True\<rparr>,
      \<lparr>a_id = 43, a_user_id = 7, a_budget_id = 31, a_threshold = 85, a_is_active = True\<rparr>,
      \<lparr>a_id = 44, a_user_id = 7, a_budget_id = 31, a_threshold = 50, a_is_active = False\<rparr>,
      \<lparr>a_id = 45, a_user_id = 8, a_budget_id = 34, a_threshold = 100, a_is_active = True\<rparr>]"
  "next_budget_id example_db = 36" "next_alert_id example_db = 46"
  by (simp_all add: example_db_def)

lemmas tx_defs = Begin_def statement_def tx_Exec_def Commit_def Rollback_def
  delete_alerts_of_budget_def delete_budget_row_def Let_def

lemma ex_DeleteBudget_ok:
  "DeleteBudget no_faults 31 7 c0 = (Inr (), \<lparr>store = without_budget 31 7 example_db, issued = 6\<rparr>)"
  unfolding DeleteBudget_def
  by (subst ex_GetBudget_food_faults)
     (simp_all add: no_faults_simp tx_defs c0_def without_budget_def ex_tables)

lemma ex_DeleteBudget_fail_first:
  "DeleteBudget (fails_at 3) 31 7 c0 = (Inl SqlDriverError, \<lparr>store = example_db, issued = 5\<rparr>)"
  unfolding DeleteBudget_def
  by (subst ex_GetBudget_food_faults) (simp_all add: fails_at_def tx_defs c0_def)

lemma ex_DeleteBudget_fail_second:
  "DeleteBudget (fails_at 4) 31 7 c0 = (Inl SqlDriverError, \<lparr>store = example_db, issued = 6\<rparr>)"
  unfolding DeleteBudget_def
  by (subst ex_GetBudget_food_faults) (simp_all add: fails_at_def tx_defs c0_def)

lemma ex_GetBudget_missing:
  "GetBudget F 99 7 c0 =
     (Inl (if F 0 then SqlDriverError else ErrBudgetNotFound), c0\<lparr>issued := 1\<rparr>)"
  by (simp add: GetBudget_def QueryRow_def statement_def select_budget_def ex_tables c0_def)

lemma ex_CreateBudgetAlert_range:
  "CreateBudgetAlert no_faults 7 \<lparr>areq_BudgetID = 31, areq_Threshold = 150, areq_IsActive = True\<rparr> c0 =
     (Inl ErrThresholdRange, c0\<lparr>issued := 2\<rparr>)"
  unfolding CreateBudgetAlert_def BudgetAlertRequest.select_convs
  by (subst ex_GetBudget_food_faults) (simp_all add: no_faults_simp)

lemma ex_CreateBudgetAlert_missing:
  "CreateBudgetAlert no_faults 7 \<lparr>areq_BudgetID = 99, areq_Threshold = 150, areq_IsActive = True\<rparr> c0 =
     (Inl ErrBudgetNotFound, c0\<lparr>issued := 1\<rparr>)"
  by (simp add: CreateBudgetAlert_def ex_GetBudget_missing no_faults_simp)

lemma ex_CreateBudgetAlert_duplicate:
  "CreateBudgetAlert no_faults 7 \<lparr>areq_BudgetID = 31, areq_Threshold = 80, areq_IsActive = True\<rparr> c0 =
     (Inl (ErrAlertExists 80), c0\<lparr>issued := 3\<rparr>)"
  unfolding CreateBudgetAlert_def BudgetAlertRequest.select_convs
  by (subst ex_GetBudget_food_faults)
     (simp_all add: no_faults_simp QueryRow_def statement_def count_alerts_def ex_tables c0_def)

lemma ex_CreateBudgetAlert_ok:
  "CreateBudgetAlert no_faults 7 \<lparr>areq_BudgetID = 31, areq_Threshold = 70, areq_IsActive = True\<rparr> c0 =
     (Inr \<lparr>alert_ID = 46, alert_UserID = 7, alert_BudgetID = 31, alert_Threshold = 70,
           alert_IsActive = True\<rparr>,
      \<lparr>store = with_alert 7 \<lparr>areq_BudgetID = 31, areq_Threshold = 70, areq_IsActive = True\<rparr> example_db,
       issued = 4\<rparr>)"
  unfolding CreateBudgetAlert_def BudgetAlertRequest.select_convs
  by (subst ex_GetBudget_food_faults)
     (simp_all add: no_faults_simp QueryRow_def statement_def count_alerts_def ex_tables c0_def
        Exec_def insert_alert_def with_alert_def)

lemma ex_GetBudget_april:
  "GetBudget no_faults 33 7 c0 = (Inr april_budget, c0\<lparr>issued := 2\<rparr>)"
proof -
  have sel: "select_budget 33 7 (store c0) =
     [(\<lparr>b_id = 33, b_user_id = 7, b_category_id = None, b_amount = 2000, b_month = (2024, 4)\<rparr>, None)]"
    by (simp add: select_budget_def left_join_category_def c0_def ex_tables)
  have sc: "scan_budget
     (\<lparr>b_id = 33, b_user_id = 7, b_category_id = None, b_amount = 2000, b_month = (2024, 4)\<rparr>, None) =
     Inr (april_budget\<lparr>UsedAmount := 0, Percentage := 0\<rparr>)"
    by (simp add: scan_budget_def parse_stored_month_def month_start_def first_day_def april_budget_def
        float64_exact)
  have ex: "expenses_in_month example_db 7 None (2024, 4) = 40"
    by (simp add: expenses_in_month_def example_db_def date_le_def first_day_def last_day_def
        days_in_month_def)
  have wu: "with_usage (store c0) 7 (first_day (2024, 4), 0) (april_budget\<lparr>UsedAmount := 0, Percentage := 0\<rparr>)
      = april_budget"
    by (simp add: with_usage_eval budget_scope_def ex set_percentage_def april_budget_def c0_def
        float64_exact ex_float64)
  have m: "Month (april_budget\<lparr>UsedAmount := 0, Percentage := 0\<rparr>) = first_day (2024, 4)"
    by (simp add: april_budget_def)
  show ?thesis
    using GetBudget_success[of no_faults c0 33 7, OF no_faults_simp no_faults_simp sel sc]
    unfolding m wu by (simp add: c0_def)
qed

lemma ex_GetBudget_moved:
  "GetBudget no_faults 33 7 \<lparr>store = moved_db, issued = 3\<rparr> =
     (Inr moved_budget, \<lparr>store = moved_db, issued = 5\<rparr>)"
proof -
  let ?c = "\<lparr>store = moved_db, issued = 3\<rparr>"
  have sel: "select_budget 33 7 (store ?c) =
     [(\<lparr>b_id = 33, b_user_id = 7, b_category_id = None, b_amount = 2000, b_month = (2024, 3)\<rparr>, None)]"
    by (simp add: select_budget_def left_join_category_def moved_db_def)
  have sc: "scan_budget
     (\<lparr>b_id = 33, b_user_id = 7, b_category_id = None, b_amount = 2000, b_month = (2024, 3)\<rparr>, None) =
     Inr (moved_budget\<lparr>UsedAmount := 0, Percentage := 0\<rparr>)"
    by (simp add: scan_budget_def parse_stored_month_def month_start_def first_day_def moved_budget_def
        float64_exact)
  have ex: "expenses_in_month moved_db 7 None (2024, 3) = 850"
    using expenses_in_month_bills[of moved_db example_db] ex_expenses(2)
    by (simp add: moved_db_def)
  have wu: "with_usage (store ?c) 7 (first_day (2024, 3), 0) (moved_budget\<lparr>UsedAmount := 0, Percentage := 0\<rparr>)
      = moved_budget"
    by (simp add: with_usage_eval budget_scope_def ex set_percentage_def moved_budget_def
        float64_exact ex_float64)
  have m: "Month (moved_budget\<lparr>UsedAmount := 0, Percentage := 0\<rparr>) = first_day (2024, 3)"
    by (simp add: moved_budget_def)
  show ?thesis
    using GetBudget_success[of no_faults ?c 33 7, OF no_faults_simp no_faults_simp sel sc]
    unfolding m wu by simp
qed

lemma ex_time_Parse: "time_Parse ''2024-03'' = Some (month_start (2024, 3))"
  unfolding time_Parse_def ex_parse by simp

lemma ex_update_budget:
  "Exec no_faults (update_budget 33 7 None 2000 (month_start (2024, 3))) (c0\<lparr>issued := 2\<rparr>) =
     (Inr (), \<lparr>store = moved_db, issued = 3\<rparr>)"
  by (simp add: Exec_def statement_def no_faults_simp update_budget_def unique_budget_clash_def
      stored_month_def month_start_def c0_def ex_tables moved_db_def Let_def)

lemma ex_UpdateBudget_move:
  "UpdateBudget no_faults 33 7 move_request c0 = (Inr moved_budget, \<lparr>store = moved_db, issued = 5\<rparr>)"
proof -
  have cat: "CategoryID april_budget = req_CategoryID move_request"
    by (simp add: april_budget_def move_request_def)
  have p: "time_Parse (req_Month move_request) = Some (month_start (2024, 3))"
    by (simp add: move_request_def ex_time_Parse del: parse_year_month.simps)
  have e: "Exec no_faults (update_budget 33 7
             (if req_CategoryID move_request > 0 then Some (req_CategoryID move_request) else None)
             (req_Amount move_request) (month_start (2024, 3))) (c0\<lparr>issued := 2\<rparr>) =
           (Inr (), \<lparr>store = moved_db, issued = 3\<rparr>)"
    by (simp add: move_request_def ex_update_budget)
  show ?thesis
    unfolding UpdateBudget_same_category[OF ex_GetBudget_april cat p e] ex_GetBudget_moved ..
qed

lemma ex_check_placement_move:
  "check_placement no_faults 7 move_request (Some 33) c0 =
     (Inl ErrTotalBudgetExists, c0\<lparr>issued := 1\<rparr>)"
  by (simp add: check_placement_def move_request_def QueryRow_def statement_def no_faults_simp
      count_total_budgets_def ex_DATE_FORMAT_eq c0_def ex_tables Let_def)

lemma ex_check_placement_categories:
  "check_placement no_faults 7 \<lparr>req_CategoryID = 99, req_Amount = 100, req_Month = ''2024-03''\<rparr> ex c =
     (Inl SqlErrNoRows, c\<lparr>issued := Suc (issued c)\<rparr>)"
  "check_placement no_faults 7 \<lparr>req_CategoryID = 13, req_Amount = 100, req_Month = ''2024-03''\<rparr> ex c =
     (Inl ErrCategoryNotOwned, c\<lparr>issued := Suc (issued c)\<rparr>)"
  "check_placement no_faults 7 \<lparr>req_CategoryID = 12, req_Amount = 100, req_Month = ''2024-03''\<rparr> ex c =
     (Inl ErrCategoryNotExpense, c\<lparr>issued := Suc (issued c)\<rparr>)"
  if "store c = example_db"
  using that
  by (simp_all add: check_placement_def QueryRow_def statement_def no_faults_simp
      select_category_check_def example_db_def Let_def)

text \<open>The database at the boundary.\<close>

lemma ex_float64_quotient: "float64_div 57 100 = 5134103575202365 / 9007199254740992"
  by (simp add: float64_div_def float64_eval)

lemma ex_float64_boundary:
  "float64_mul (float64_div 57 100) 100 = 8022036836253695 / 140737488355328"
  by (simp add: float64_mul_def float64_div_def float64_eval)

lemma ex_boundary_row:
  "select_budgets 7 ''2024-03'' boundary_db =
     [(\<lparr>b_id = 31, b_user_id = 7, b_category_id = Some 11, b_amount = 100, b_month = (2024, 3)\<rparr>,
       Some \<lparr>c_id = 11, c_user_id = 7, c_name = ''Food'', c_type = ''expense'', c_icon = None\<rparr>)]"
  "select_budget 31 7 boundary_db =
     [(\<lparr>b_id = 31, b_user_id = 7, b_category_id = Some 11, b_amount = 100, b_month = (2024, 3)\<rparr>,
       Some \<lparr>c_id = 11, c_user_id = 7, c_name = ''Food'', c_type = ''expense'', c_icon = None\<rparr>)]"
  "scan_budget
     (\<lparr>b_id = 31, b_user_id = 7, b_category_id = Some 11, b_amount = 100, b_month = (2024, 3)\<rparr>,
       Some \<lparr>c_id = 11, c_user_id = 7, c_name = ''Food'', c_type = ''expense'', c_icon = None\<rparr>) =
   Inr (boundary_budget\<lparr>UsedAmount := 0, Percentage := 0\<rparr>)"
  by (simp_all add: select_budgets_def select_budget_def left_join_category_def boundary_db_def
      ex_DATE_FORMAT_eq scan_budget_def parse_stored_month_def month_start_def first_day_def
      boundary_budget_def float64_exact)

lemma ex_boundary_expenses: "expenses_in_month boundary_db 7 (Some 11) (2024, 3) = 57"
  by (simp add: expenses_in_month_def boundary_db_def date_le_def first_day_def last_day_def
      days_in_month_def)

lemma ex_boundary_usage:
  "with_usage boundary_db 7 (first_day (2024, 3), 0)
     (boundary_budget\<lparr>UsedAmount := 0, Percentage := 0\<rparr>) = boundary_budget"
  by (simp add: with_usage_eval budget_scope_def ex_boundary_expenses set_percentage_def
      boundary_budget_def float64_exact ex_float64_boundary)

lemma ex_boundary_Month: "Month boundary_budget = first_day (2024, 3)"
  by (simp add: boundary_budget_def)

lemma ex_boundary_GetBudget:
  "GetBudget no_faults 31 7 \<lparr>store = boundary_db, issued = 0\<rparr> =
     (Inr boundary_budget, \<lparr>store = boundary_db, issued = 2\<rparr>)"
  using GetBudget_success[of no_faults "\<lparr>store = boundary_db, issued = 0\<rparr>" 31 7,
      OF no_faults_simp no_faults_simp _ ex_boundary_row(3)]
  by (simp add: ex_boundary_row ex_boundary_usage ex_boundary_Month)

lemma ex_boundary_scans:
  "map scan_budget (select_budgets 7 ''2024-03'' (store \<lparr>store = boundary_db, issued = 0\<rparr>)) =
     map Inr [boundary_budget\<lparr>UsedAmount := 0, Percentage := 0\<rparr>]"
  by (simp add: ex_boundary_row)

lemma ex_boundary_alerts:
  "select_active_alerts 7 ''2024-03'' boundary_db =
     [(\<lparr>a_id = 41, a_user_id = 7, a_budget_id = 31, a_threshold = 57, a_is_active = True\<rparr>,
       \<lparr>b_id = 31, b_user_id = 7, b_category_id = Some 11, b_amount = 100, b_month = (2024, 3)\<rparr>,
       Some \<lparr>c_id = 11, c_user_id = 7, c_name = ''Food'', c_type = ''expense'', c_icon = None\<rparr>),
      (\<lparr>a_id = 42, a_user_id = 7, a_budget_id = 31, a_threshold = 56, a_is_active = True\<rparr>,
       \<lparr>b_id = 31, b_user_id = 7, b_category_id = Some 11, b_amount = 100, b_month = (2024, 3)\<rparr>,
       Some \<lparr>c_id = 11, c_user_id = 7, c_name = ''Food'', c_type = ''expense'', c_icon = None\<rparr>)]"
  by (simp add: select_active_alerts_def left_join_category_def boundary_db_def ex_DATE_FORMAT_eq)

lemma ex_boundary_loop:
  "alerts_loop [boundary_budget] [] (select_active_alerts 7 ''2024-03'' boundary_db) =
     [boundary_alert]"
  unfolding ex_boundary_alerts
  by (simp add: alertInfo_def boundary_budget_def boundary_alert_def float64_exact)

lemma ex_boundary_GetBudgets:
  "GetBudgets no_faults 7 ''2024-03'' \<lparr>store = boundary_db, issued = 0\<rparr> =
     (Inr [boundary_budget], \<lparr>store = boundary_db, issued = 2\<rparr>)"
  using GetBudgets_success[of no_faults "''2024-03''" "(2024, 3)" 7
      "\<lparr>store = boundary_db, issued = 0\<rparr>" "[boundary_budget\<lparr>UsedAmount := 0, Percentage := 0\<rparr>]"]
  by (simp add: no_faults_simp ex_parse ex_boundary_row month_start_first_day
      ex_boundary_usage del: parse_year_month.simps)

lemma ex_boundary_CheckBudgetAlerts:
  "CheckBudgetAlerts no_faults 7 ''2024-03'' \<lparr>store = boundary_db, issued = 0\<rparr> =
     (Inr [boundary_alert], \<lparr>store = boundary_db, issued = 3\<rparr>)"
  using CheckBudgetAlerts_success[of no_faults, OF _ ex_parse ex_boundary_scans]
  by (simp add: no_faults_simp month_start_first_day ex_boundary_usage ex_boundary_loop
       del: parse_year_month.simps)

lemma ex_boundary_percentage:
  "budget_percentage boundary_db
     \<lparr>b_id = 31, b_user_id = 7, b_category_id = Some 11, b_amount = 100, b_month = (2024, 3)\<rparr> =
   8022036836253695 / 140737488355328"
  by (simp add: budget_percentage_def row_scope_def ex_boundary_expenses float64_exact
      ex_float64_boundary)

lemma ex_boundary_keys: "primary_keys boundary_db" "alerts_owned boundary_db"
  by (simp_all add: primary_keys_def alerts_owned_def boundary_db_def)

section \<open>The shape of the tables is kept\<close>

text \<open>
  The empty tables are well formed, and every handler of the budget controller, run
  by any user with any driver faults, leaves well formed tables well formed: ids stay
  distinct, every alert keeps a budget of its own user, the counters stay ahead.
\<close>

lemma empty_db_well_formed: "well_formed empty_db"
  by (simp add: well_formed_def primary_keys_def alerts_owned_def counters_ahead_def empty_db_def)

lemma owned_iff:
  "alerts_owned db \<longleftrightarrow>
     (\<forall>a \<in> set (budget_alerts db). \<exists>b \<in> set (budgets db).
        b_id b = a_budget_id a \<and> b_user_id b = a_user_id a)"
  by (simp add: alerts_owned_def list_all_iff list_ex_iff)

lemma counters_iff:
  "counters_ahead db \<longleftrightarrow>
     (\<forall>b \<in> set (budgets db). b_id b < next_budget_id db) \<and>
     (\<forall>a \<in> set (budget_alerts db). a_id a < next_alert_id db)"
  by (simp add: counters_ahead_def list_all_iff)

lemma insert_budget_well_formed:
  assumes "well_formed db" "insert_budget u cat amt t db = Inr (x, db')"
  shows "well_formed db'"
proof -
  let ?r = "\<lparr>b_id = next_budget_id db, b_user_id = u, b_category_id = cat,
             b_amount = amt, b_month = stored_month t\<rparr>"
  from assms(2) have db': "db' = db\<lparr>budgets := budgets db @ [?r],
      next_budget_id := Suc (next_budget_id db)\<rparr>"
    by (auto simp: insert_budget_def Let_def split: if_splits)
  from assms(1) have pk: "primary_keys db" and own: "alerts_owned db" and cnt: "counters_ahead db"
    by (simp_all add: well_formed_def)
  from cnt have fresh: "next_budget_id db \<notin> b_id ` set (budgets db)"
    by (auto simp: counters_iff)
  have "primary_keys db'" using pk fresh by (simp add: db' primary_keys_def)
  moreover have "alerts_owned db'" using own unfolding owned_iff db' by auto
  moreover have "counters_ahead db'" using cnt unfolding counters_iff db'
    by (auto simp: less_Suc_eq)
  ultimately show ?thesis by (simp add: well_formed_def)
qed

lemma update_budget_well_formed:
  assumes "well_formed db" "update_budget bid u cat amt t db = Inr (x, db')"
  shows "well_formed db'"
proof -
  define upd :: "budget_row \<Rightarrow> budget_row" where
    "upd = (\<lambda>b. if b_id b = bid \<and> b_user_id b = u
                 then b\<lparr>b_category_id := cat, b_amount := amt, b_month := stored_month t\<rparr>
                 else b)"
  have keep: "b_id (upd b) = b_id b" "b_user_id (upd b) = b_user_id b" for b
    by (simp_all add: upd_def)
  from assms(2) have db': "db' = db\<lparr>budgets := map upd (budgets db)\<rparr>"
    by (auto simp: update_budget_def Let_def upd_def split: if_splits)
  from assms(1) have pk: "primary_keys db" and own: "alerts_owned db" and cnt: "counters_ahead db"
    by (simp_all add: well_formed_def)
  have ids: "map (b_id \<circ> upd) (budgets db) = map b_id (budgets db)"
    by (simp add: keep)
  have "primary_keys db'" using pk by (simp add: db' primary_keys_def ids)
  moreover have "alerts_owned db'"
    unfolding owned_iff
  proof
    fix a assume "a \<in> set (budget_alerts db')"
    then have "a \<in> set (budget_alerts db)" by (simp add: db')
    with own obtain b where "b \<in> set (budgets db)" "b_id b = a_budget_id a"
      "b_user_id b = a_user_id a" unfolding owned_iff by blast
    then have "upd b \<in> set (budgets db')" "b_id (upd b) = a_budget_id a"
      "b_user_id (upd b) = a_user_id a" by (simp_all add: db' keep)
    then show "\<exists>b \<in> set (budgets db'). b_id b = a_budget_id a \<and> b_user_id b = a_user_id a"
      by blast
  qed
  moreover have "counters_ahead db'" using cnt unfolding counters_iff db' by (auto simp: keep)
  ultimately show ?thesis by (simp add: well_formed_def)
qed

lemma without_budget_well_formed:
  assumes "well_formed db"
  shows "well_formed (without_budget bid u db)"
proof -
  let ?db' = "without_budget bid u db"
  from assms have pk: "primary_keys db" and own: "alerts_owned db" and cnt: "counters_ahead db"
    by (simp_all add: well_formed_def)
  have "primary_keys ?db'" using pk
    by (simp add: without_budget_def primary_keys_def distinct_map_filter)
  moreover have "alerts_owned ?db'"
    unfolding owned_iff
  proof
    fix a assume "a \<in> set (budget_alerts ?db')"
    then have a: "a \<in> set (budget_alerts db)" "a_budget_id a \<noteq> bid"
      by (simp_all add: without_budget_def)
    with own obtain b where b: "b \<in> set (budgets db)" "b_id b = a_budget_id a"
      "b_user_id b = a_user_id a" unfolding owned_iff by blast
    with a(2) have "b \<in> set (budgets ?db')" by (simp add: without_budget_def)
    with b show "\<exists>b \<in> set (budgets ?db'). b_id b = a_budget_id a \<and> b_user_id b = a_user_id a"
      by blast
  qed
  moreover have "counters_ahead ?db'" using cnt unfolding counters_iff
    by (simp add: without_budget_def)
  ultimately show ?thesis by (simp add: well_formed_def)
qed

lemma insert_alert_well_formed:
  assumes "well_formed db" "\<exists>b \<in> set (budgets db). b_id b = bid \<and> b_user_id b = u"
    and "insert_alert u bid thr act db = Inr (x, db')"
  shows "well_formed db'"
proof -
  let ?r = "\<lparr>a_id = next_alert_id db, a_user_id = u, a_budget_id = bid,
             a_threshold = thr, a_is_active = act\<rparr>"
  from assms(3) have db': "db' = db\<lparr>budget_alerts := budget_alerts db @ [?r],
      next_alert_id := Suc (next_alert_id db)\<rparr>"
    by (auto simp: insert_alert_def)
  from assms(1) have pk: "primary_keys db" and own: "alerts_owned db" and cnt: "counters_ahead db"
    by (simp_all add: well_formed_def)
  from cnt have fresh: "next_alert_id db \<notin> a_id ` set (budget_alerts db)"
    by (auto simp: counters_iff)
  have "primary_keys db'" using pk fresh by (simp add: db' primary_keys_def)
  moreover have "alerts_owned db'" using own assms(2) unfolding owned_iff db' by auto
  moreover have "counters_ahead db'" using cnt unfolding counters_iff db'
    by (auto simp: less_Suc_eq)
  ultimately show ?thesis by (simp add: well_formed_def)
qed

lemma update_alert_well_formed:
  assumes "well_formed db" "\<exists>b \<in> set (budgets db). b_id b = bid \<and> b_user_id b = u"
    and "update_alert aid u bid thr act db = Inr (x, db')"
  shows "well_formed db'"
proof -
  define upd :: "alert_row \<Rightarrow> alert_row" where
    "upd = (\<lambda>a. if a_id a = aid \<and> a_user_id a = u
                 then a\<lparr>a_budget_id := bid, a_threshold := thr, a_is_active := act\<rparr>
                 else a)"
  have keep: "a_id (upd a) = a_id a" "a_user_id (upd a) = a_user_id a" for a
    by (simp_all add: upd_def)
  from assms(3) have db': "db' = db\<lparr>budget_alerts := map upd (budget_alerts db)\<rparr>"
    by (auto simp: update_alert_def upd_def)
  from assms(1) have pk: "primary_keys db" and own: "alerts_owned db" and cnt: "counters_ahead db"
    by (simp_all add: well_formed_def)
  have ids: "map (a_id \<circ> upd) (budget_alerts db) = map a_id (budget_alerts db)"
    by (simp add: keep)
  have "primary_keys db'" using pk by (simp add: db' primary_keys_def ids)
  moreover have "alerts_owned db'"
    unfolding owned_iff
  proof
    fix a assume "a \<in> set (budget_alerts db')"
    then obtain a0 where a0: "a0 \<in> set (budget_alerts db)" "a = upd a0" by (auto simp: db')
    show "\<exists>b \<in> set (budgets db'). b_id b = a_budget_id a \<and> b_user_id b = a_user_id a"
    proof (cases "a_id a0 = aid \<and> a_user_id a0 = u")
      case True
      with a0(2) have "a_budget_id a = bid" "a_user_id a = u" by (simp_all add: upd_def)
      with assms(2) show ?thesis by (simp add: db')
    next
      case False
      with a0(2) have "a = a0" by (auto simp: upd_def)
      with a0(1) own show ?thesis unfolding owned_iff by (simp add: db')
    qed
  qed
  moreover have "counters_ahead db'" using cnt unfolding counters_iff db' by (auto simp: keep)
  ultimately show ?thesis by (simp add: well_formed_def)
qed

lemma delete_alert_well_formed:
  assumes "well_formed db" "delete_alert aid u db = Inr (x, db')"
  shows "well_formed db'"
proof -
  from assms(2) have db': "db' = db\<lparr>budget_alerts :=
      filter (\<lambda>a. \<not> (a_id a = aid \<and> a_user_id a = u)) (budget_alerts db)\<rparr>"
    by (simp add: delete_alert_def)
  from assms(1) have pk: "primary_keys db" and own: "alerts_owned db" and cnt: "counters_ahead db"
    by (simp_all add: well_formed_def)
  have "primary_keys db'" using pk by (simp add: db' primary_keys_def distinct_map_filter)
  moreover have "alerts_owned db'" using own unfolding owned_iff db' by auto
  moreover have "counters_ahead db'" using cnt unfolding counters_iff db' by auto
  ultimately show ?thesis by (simp add: well_formed_def)
qed

lemma handle_well_formed:
  assumes wf: "well_formed (store c)" and run: "handle F u op c = (res, c')"
  shows "well_formed (store c')"
proof -
  let ?R = "\<lambda>db db'. well_formed db \<longrightarrow> well_formed db'"
  have "?R (store c) (store c')"
  proof (cases op)
    case (List m)
    with run GetBudgets_store[of F u m c] show ?thesis
      by (auto simp: respond_def split: prod.splits sum.splits)
  next
    case (Create req)
    with run obtain r where "CreateBudget F u req c = (r, c')"
      by (auto simp: respond_def split: prod.splits sum.splits)
    then show ?thesis
      by (rule CreateBudget_rel[where R = ?R, rotated 2]) (auto intro: insert_budget_well_formed)
  next
    case (Get bid)
    with run GetBudget_store[of F bid u c] show ?thesis
      by (auto simp: respond_def split: prod.splits sum.splits)
  next
    case (Update bid req)
    with run obtain r where "UpdateBudget F bid u req c = (r, c')"
      by (auto simp: respond_def split: prod.splits sum.splits)
    then show ?thesis
      by (rule UpdateBudget_rel[where R = ?R, rotated 2]) (auto intro: update_budget_well_formed)
  next
    case (Delete bid)
    with run obtain r where "DeleteBudget F bid u c = (r, c')"
      by (auto simp: respond_def split: prod.splits sum.splits)
    then show ?thesis
      by (rule DeleteBudget_rel[where R = ?R, rotated 2]) (auto intro: without_budget_well_formed)
  next
    case (CreateAlert req)
    with run obtain r where "CreateBudgetAlert F u req c = (r, c')"
      by (auto simp: respond_def split: prod.splits sum.splits)
    then show ?thesis
      by (rule CreateBudgetAlert_rel[where R = ?R, rotated 2])
         (auto intro: insert_alert_well_formed)
  next
    case (ListAlerts bid)
    with run GetBudgetAlerts_store[of F u bid c] show ?thesis
      by (auto simp: respond_def split: prod.splits sum.splits)
  next
    case (UpdateAlert aid req)
    with run obtain r where "UpdateBudgetAlert F aid u req c = (r, c')"
      by (auto simp: respond_def split: prod.splits sum.splits)
    then show ?thesis
      by (rule UpdateBudgetAlert_rel[where R = ?R, rotated 2])
         (auto intro: update_alert_well_formed)
  next
    case (DeleteAlert aid)
    with run obtain r where "DeleteBudgetAlert F aid u c = (r, c')"
      by (auto simp: respond_def split: prod.splits sum.splits)
    then show ?thesis
      by (rule DeleteBudgetAlert_rel[where R = ?R, rotated 2])
         (auto intro: delete_alert_well_formed)
  next
    case (CheckAlerts now)
    with run CheckBudgetAlerts_store[of F u now c] show ?thesis
      by (auto simp: respond_def split: prod.splits sum.splits)
  qed
  with wf show ?thesis by simp
qed

section \<open>Claims\<close>

text \<open>
  C1. Every budget returned by \<^verbatim>\<open>GetBudget\<close> or \<^verbatim>\<open>GetBudgets\<close> has
  \<open>Percentage = UsedAmount / Amount * 100\<close> when its amount is strictly positive, and
  \<open>Percentage = 0\<close> when its amount is zero or negative. The three fields are
  \<^verbatim>\<open>float64\<close> and the equation is Go's: the quotient of the two fields, rounded, is
  multiplied by 100 and rounded.
\<close>

theorem usage_percentage:
  "(GetBudget F bid u c = (Inr B, c') \<longrightarrow>
      Percentage B =
        (if Amount B > 0 then float64_mul (float64_div (UsedAmount B) (Amount B)) 100 else 0)) \<and>
   (GetBudgets F u mstr c = (Inr Bs, c'') \<longrightarrow>
      (\<forall>B \<in> set Bs. Percentage B =
        (if Amount B > 0 then float64_mul (float64_div (UsedAmount B) (Amount B)) 100 else 0)))"
proof (intro conjI impI ballI)
  assume "GetBudget F bid u c = (Inr B, c')"
  then obtain r b0 where "scan_budget r = Inr b0" "B = with_usage (store c) u (Month b0, 0) b0"
    using GetBudget_Inr by blast
  then show "Percentage B =
      (if Amount B > 0 then float64_mul (float64_div (UsedAmount B) (Amount B)) 100 else 0)"
    by (simp add: with_usage_fields scan_budget_fields)
next
  fix B assume "GetBudgets F u mstr c = (Inr Bs, c'')" and B: "B \<in> set Bs"
  then obtain ym bs where bs: "map scan_budget (select_budgets u mstr (store c)) = map Inr bs"
    "Bs = map (with_usage (store c) u (month_start ym)) bs"
    using GetBudgets_Inr by blast
  from B bs(2) obtain b0 where b0: "b0 \<in> set bs" "B = with_usage (store c) u (month_start ym) b0"
    by auto
  from map_scan_member[OF bs(1) b0(1)] obtain r where "scan_budget r = Inr b0" by blast
  then show "Percentage B =
      (if Amount B > 0 then float64_mul (float64_div (UsedAmount B) (Amount B)) 100 else 0)"
    using b0(2) by (simp add: with_usage_fields scan_budget_fields)
qed

theorem usage_percentage_witness:
  "GetBudget no_faults 31 7 c0 = (Inr food_budget, c0\<lparr>issued := 2\<rparr>) \<and>
   Percentage food_budget =
     float64_mul (float64_div (UsedAmount food_budget) (Amount food_budget)) 100 \<and>
   UsedAmount food_budget = 850 \<and> Amount food_budget = 1000 \<and> Percentage food_budget = 85 \<and>
   GetBudgets no_faults 7 ''2024-03'' c0 = (Inr [total_budget, food_budget], c0\<lparr>issued := 3\<rparr>) \<and>
   Percentage total_budget =
     float64_mul (float64_div (UsedAmount total_budget) (Amount total_budget)) 100 \<and>
   Percentage total_budget = 85 / 2 \<and>
   GetBudget no_faults 35 7 c0 = (Inr empty_budget, c0\<lparr>issued := 2\<rparr>) \<and>
   Amount empty_budget = 0 \<and> Percentage empty_budget = 0 \<and>
   GetBudget no_faults 31 7 \<lparr>store = boundary_db, issued = 0\<rparr> =
     (Inr boundary_budget, \<lparr>store = boundary_db, issued = 2\<rparr>) \<and>
   UsedAmount boundary_budget = 57 \<and> Amount boundary_budget = 100 \<and>
   Percentage boundary_budget = float64_mul (float64_div 57 100) 100 \<and>
   Percentage boundary_budget = 8022036836253695 / 140737488355328 \<and>
   Percentage boundary_budget < 57"
proof -
  note a = usage_percentage[of no_faults 31 7 c0 food_budget "c0\<lparr>issued := 2\<rparr>" "''2024-03''"
      "[total_budget, food_budget]" "c0\<lparr>issued := 3\<rparr>"]
  note b = usage_percentage[of no_faults 35 7 c0 empty_budget "c0\<lparr>issued := 2\<rparr>" "''2024-03''"
      "[total_budget, food_budget]" "c0\<lparr>issued := 3\<rparr>"]
  note c = usage_percentage[of no_faults 31 7 "\<lparr>store = boundary_db, issued = 0\<rparr>" boundary_budget
      "\<lparr>store = boundary_db, issued = 2\<rparr>" "''2024-03''" "[boundary_budget]"
      "\<lparr>store = boundary_db, issued = 2\<rparr>"]
  have first:
    "Percentage food_budget =
       float64_mul (float64_div (UsedAmount food_budget) (Amount food_budget)) 100"
    "Percentage total_budget =
       float64_mul (float64_div (UsedAmount total_budget) (Amount total_budget)) 100"
    using a ex_GetBudget_food ex_GetBudgets_march
    by (simp_all add: food_budget_def total_budget_def)
  have second: "Percentage empty_budget = 0"
    using b ex_GetBudget_empty by (simp add: empty_budget_def)
  have third: "Percentage boundary_budget = float64_mul (float64_div 57 100) 100"
    using c ex_boundary_GetBudget by (simp add: boundary_budget_def)
  have vals: "UsedAmount food_budget = 850" "Amount food_budget = 1000"
    "Percentage food_budget = 85" "Percentage total_budget = 85 / 2" "Amount empty_budget = 0"
    "UsedAmount boundary_budget = 57" "Amount boundary_budget = 100"
    "Percentage boundary_budget = 8022036836253695 / 140737488355328"
    "Percentage boundary_budget < 57"
    by (simp_all add: food_budget_def total_budget_def empty_budget_def boundary_budget_def)
  show ?thesis
    using first second third vals ex_GetBudget_food ex_GetBudgets_march ex_GetBudget_empty
      ex_boundary_GetBudget
    by (intro conjI)
qed

text \<open>
  C2. In a database where ids are primary keys and every alert points to a budget of its
  own user, for an alert \<open>a\<close> of user \<open>u\<close> with parent budget \<open>b\<close>:
  \<^verbatim>\<open>CheckBudgetAlerts(u)\<close> reports \<open>a\<close> exactly when \<open>a\<close> is active, \<open>b\<close> lies in the
  current month and the \<^verbatim>\<open>Percentage\<close> of \<open>b\<close> is at least the threshold of \<open>a\<close>
  (equality included). So an active alert of the current month is reported exactly
  when the percentage reaches the threshold, and an inactive alert or one of another
  month never. The \<^verbatim>\<open>Percentage\<close> is the \<^verbatim>\<open>float64\<close> that \<^verbatim>\<open>GetBudgets\<close> computes for
  the budget, and the threshold is converted to \<^verbatim>\<open>float64\<close> before the comparison:
  every record reported for \<open>a\<close> carries that percentage, and \<^verbatim>\<open>GetBudgets\<close> returns the
  budget with it.
\<close>

theorem alert_triggered_iff:
  assumes pk: "primary_keys (store c)" and own: "alerts_owned (store c)"
    and run: "CheckBudgetAlerts F u cm c = (Inr rs, c')"
    and a: "a \<in> set (budget_alerts (store c))" "a_user_id a = u"
    and b: "b \<in> set (budgets (store c))" "b_id b = a_budget_id a"
  shows "((\<exists>r \<in> set rs. alert_id r = a_id a) \<longleftrightarrow>
            a_is_active a \<and> DATE_FORMAT_eq (b_month b) cm \<and>
            budget_percentage (store c) b \<ge> float64_of_int (a_threshold a)) \<and>
         (\<forall>r \<in> set rs. alert_id r = a_id a \<longrightarrow>
            used_percent r = budget_percentage (store c) b \<and> threshold r = a_threshold a \<and>
            budget_id r = b_id b) \<and>
         (\<forall>Bs c1. GetBudgets F u cm c = (Inr Bs, c1) \<longrightarrow>
            (\<forall>B \<in> set Bs. ID B = b_id b \<longrightarrow> Percentage B = budget_percentage (store c) b))"
proof -
  let ?db = "store c"
  from CheckBudgetAlerts_Inr[OF run] obtain ym bs where
    ym: "parse_year_month cm = Some ym" and
    scans: "map scan_budget (select_budgets u cm ?db) = map Inr bs" and
    rs: "rs = alerts_loop (map (with_usage ?db u (month_start ym)) bs) []
               (select_active_alerts u cm ?db)"
    by blast
  let ?loaded = "map (with_usage ?db u (month_start ym)) bs"
  have bu: "b_user_id b = u" using alerts_owned_budget[OF pk own a(1) b] a(2) by simp
  have same_budget: "b' = b" if "b' \<in> set (budgets ?db)" "b_id b' = a_budget_id a" for b'
    using distinct_map_eq[of b_id "budgets ?db" b' b] pk b that by (simp add: primary_keys_def)
  have pct: "Percentage B = budget_percentage ?db b"
    if "find_budget ?loaded (a_budget_id a) = Some B" for B
  proof -
    from find_budget_Some[OF that] have "B \<in> set ?loaded" "ID B = a_budget_id a" by simp_all
    with loaded_budget[OF scans ym this(1)] obtain b' where
      "b' \<in> set (budgets ?db)" "b_id b' = a_budget_id a" "Percentage B = budget_percentage ?db b'"
      by auto
    with same_budget show ?thesis by auto
  qed
  have reported: "\<exists>row B. row \<in> set (select_active_alerts u cm ?db) \<and> fst row = a \<and>
      fst (snd row) = b \<and> find_budget ?loaded (a_budget_id a) = Some B \<and>
      Percentage B \<ge> float64_of_int (a_threshold a) \<and> r = alertInfo row B"
    if r0: "r \<in> set rs" "alert_id r = a_id a" for r
  proof -
    from r0(1) obtain row B where
      row: "row \<in> set (select_active_alerts u cm ?db)" and
      fb: "find_budget ?loaded (a_budget_id (fst row)) = Some B" and
      ge: "Percentage B \<ge> float64_of_int (a_threshold (fst row))" and
      req: "r = alertInfo row B"
      unfolding rs alerts_loop_set by auto
    from req r0(2) have id: "a_id (fst row) = a_id a" by (simp add: alertInfo_def)
    from row have r: "fst row \<in> set (budget_alerts ?db)"
      "fst (snd row) \<in> set (budgets ?db)" "a_budget_id (fst row) = b_id (fst (snd row))"
      by (simp_all add: select_active_alerts_iff)
    have fa: "fst row = a"
      using distinct_map_eq[of a_id "budget_alerts ?db" "fst row" a] pk r(1) a(1) id
      by (simp add: primary_keys_def)
    have fb': "fst (snd row) = b" using same_budget[of "fst (snd row)"] r(2,3) fa by simp
    show ?thesis
      using row fa fb' fb ge req by (intro exI[of _ row] exI[of _ B]) simp
  qed
  have iff: "(\<exists>r \<in> set rs. alert_id r = a_id a) \<longleftrightarrow>
         a_is_active a \<and> DATE_FORMAT_eq (b_month b) cm \<and>
         budget_percentage ?db b \<ge> float64_of_int (a_threshold a)"
  proof
    assume "\<exists>r \<in> set rs. alert_id r = a_id a"
    then obtain r where r0: "r \<in> set rs" "alert_id r = a_id a" by blast
    from reported[OF r0] obtain row B where
      row: "row \<in> set (select_active_alerts u cm ?db)" "fst row = a" "fst (snd row) = b" and
      fb: "find_budget ?loaded (a_budget_id a) = Some B" and
      ge: "Percentage B \<ge> float64_of_int (a_threshold a)"
      by blast
    from row have "a_is_active a" "DATE_FORMAT_eq (b_month b) cm"
      by (auto simp: select_active_alerts_iff)
    with pct[OF fb] ge
    show "a_is_active a \<and> DATE_FORMAT_eq (b_month b) cm \<and>
          budget_percentage ?db b \<ge> float64_of_int (a_threshold a)" by simp
  next
    assume h: "a_is_active a \<and> DATE_FORMAT_eq (b_month b) cm \<and>
          budget_percentage ?db b \<ge> float64_of_int (a_threshold a)"
    obtain bc where bc: "bc \<in> set (left_join_category ?db b)"
      using left_join_category_nonempty[of ?db b] by (cases "left_join_category ?db b") auto
    then have fbc: "fst bc = b" by (rule left_join_category_fst)
    have row: "(a, bc) \<in> set (select_active_alerts u cm ?db)"
      using a b h bc fbc by (simp add: select_active_alerts_iff)
    from budget_is_loaded[OF scans b(1) bu, of "month_start ym"] h
    have "\<exists>B \<in> set ?loaded. ID B = a_budget_id a" using b(2) by simp
    then obtain B where fb: "find_budget ?loaded (a_budget_id a) = Some B"
      using find_budget_None[of ?loaded "a_budget_id a"] by (cases "find_budget ?loaded (a_budget_id a)") auto
    with pct[OF fb] h have "Percentage B \<ge> float64_of_int (a_threshold a)" by simp
    with row fb have "alertInfo (a, bc) B \<in> set rs"
      unfolding rs alerts_loop_set by force
    then show "\<exists>r \<in> set rs. alert_id r = a_id a"
      by (intro bexI[of _ "alertInfo (a, bc) B"]) (simp_all add: alertInfo_def)
  qed
  have carried: "\<forall>r \<in> set rs. alert_id r = a_id a \<longrightarrow>
      used_percent r = budget_percentage ?db b \<and> threshold r = a_threshold a \<and>
      budget_id r = b_id b"
  proof (intro ballI impI)
    fix r assume r0: "r \<in> set rs" "alert_id r = a_id a"
    from reported[OF r0] obtain row B where
      row: "fst row = a" and fb: "find_budget ?loaded (a_budget_id a) = Some B" and
      req: "r = alertInfo row B" by blast
    from pct[OF fb] row req b(2)
    show "used_percent r = budget_percentage ?db b \<and> threshold r = a_threshold a \<and>
      budget_id r = b_id b" by (simp add: alertInfo_def)
  qed
  have loaded: "\<forall>Bs c1. GetBudgets F u cm c = (Inr Bs, c1) \<longrightarrow>
      (\<forall>B \<in> set Bs. ID B = b_id b \<longrightarrow> Percentage B = budget_percentage ?db b)"
  proof (intro allI impI ballI)
    fix Bs c1 B
    assume g: "GetBudgets F u cm c = (Inr Bs, c1)" and B: "B \<in> set Bs" "ID B = b_id b"
    from GetBudgets_Inr[OF g] obtain ym' bs' where
      ym': "parse_year_month cm = Some ym'" and
      scans': "map scan_budget (select_budgets u cm ?db) = map Inr bs'" and
      Bs: "Bs = map (with_usage ?db u (month_start ym')) bs'" by blast
    from loaded_budget[OF scans' ym'] B(1) Bs obtain b' where
      "b' \<in> set (budgets ?db)" "b_id b' = ID B" "Percentage B = budget_percentage ?db b'"
      by blast
    with same_budget[of b'] B(2) b(2) show "Percentage B = budget_percentage ?db b" by simp
  qed
  from iff carried loaded show ?thesis by (intro conjI)
qed

theorem alert_triggered_iff_witness:
  "primary_keys (store c0) \<and> alerts_owned (store c0) \<and>
   CheckBudgetAlerts no_faults 7 ''2024-03'' c0 =
     (Inr [food_alert 80 41, food_alert 85 43], c0\<lparr>issued := 4\<rparr>) \<and>
   budget_percentage (store c0)
     \<lparr>b_id = 31, b_user_id = 7, b_category_id = Some 11, b_amount = 1000, b_month = (2024, 3)\<rparr> = 85 \<and>
   (\<exists>r \<in> set [food_alert 80 41, food_alert 85 43]. alert_id r = 43) \<and>
   \<not> (\<exists>r \<in> set [food_alert 80 41, food_alert 85 43]. alert_id r = 42) \<and>
   \<not> (\<exists>r \<in> set [food_alert 80 41, food_alert 85 43]. alert_id r = 44) \<and>
   primary_keys boundary_db \<and> alerts_owned boundary_db \<and>
   CheckBudgetAlerts no_faults 7 ''2024-03'' \<lparr>store = boundary_db, issued = 0\<rparr> =
     (Inr [boundary_alert], \<lparr>store = boundary_db, issued = 3\<rparr>) \<and>
   budget_percentage boundary_db
     \<lparr>b_id = 31, b_user_id = 7, b_category_id = Some 11, b_amount = 100, b_month = (2024, 3)\<rparr> =
     8022036836253695 / 140737488355328 \<and>
   (8022036836253695 / 140737488355328 :: real) < float64_of_int 57 \<and>
   float64_of_int 56 \<le> (8022036836253695 / 140737488355328 :: real) \<and>
   \<not> (\<exists>r \<in> set [boundary_alert]. alert_id r = 41) \<and>
   (\<exists>r \<in> set [boundary_alert]. alert_id r = 42) \<and>
   used_percent boundary_alert =
     budget_percentage boundary_db
       \<lparr>b_id = 31, b_user_id = 7, b_category_id = Some 11, b_amount = 100, b_month = (2024, 3)\<rparr> \<and>
   GetBudgets no_faults 7 ''2024-03'' \<lparr>store = boundary_db, issued = 0\<rparr> =
     (Inr [boundary_budget], \<lparr>store = boundary_db, issued = 2\<rparr>) \<and>
   Percentage boundary_budget =
     budget_percentage boundary_db
       \<lparr>b_id = 31, b_user_id = 7, b_category_id = Some 11, b_amount = 100, b_month = (2024, 3)\<rparr>"
proof -
  let ?b = "\<lparr>b_id = 31, b_user_id = 7, b_category_id = Some 11, b_amount = 1000, b_month = (2024, 3)\<rparr>"
  have keys: "primary_keys (store c0)" "alerts_owned (store c0)"
    by (simp_all add: c0_def ex_keys)
  have b: "?b \<in> set (budgets (store c0))" by (simp add: c0_def example_db_def)
  have pct: "budget_percentage (store c0) ?b = 85" by (simp add: c0_def ex_budget_percentage)
  note inst = alert_triggered_iff[OF keys ex_CheckBudgetAlerts _ _ b, THEN conjunct1]
  have "(\<exists>r \<in> set [food_alert 80 41, food_alert 85 43]. alert_id r = 43)"
    using inst[of "\<lparr>a_id = 43, a_user_id = 7, a_budget_id = 31, a_threshold = 85, a_is_active = True\<rparr>"]
      pct by (simp add: c0_def example_db_def ex_DATE_FORMAT_eq float64_exact)
  moreover have "\<not> (\<exists>r \<in> set [food_alert 80 41, food_alert 85 43]. alert_id r = 42)"
    using inst[of "\<lparr>a_id = 42, a_user_id = 7, a_budget_id = 31, a_threshold = 90, a_is_active = True\<rparr>"]
      pct by (simp add: c0_def example_db_def ex_DATE_FORMAT_eq float64_exact)
  moreover have "\<not> (\<exists>r \<in> set [food_alert 80 41, food_alert 85 43]. alert_id r = 44)"
    using inst[of "\<lparr>a_id = 44, a_user_id = 7, a_budget_id = 31, a_threshold = 50, a_is_active = False\<rparr>"]
    by (simp add: c0_def example_db_def)
  ultimately have first:
    "(\<exists>r \<in> set [food_alert 80 41, food_alert 85 43]. alert_id r = 43) \<and>
     \<not> (\<exists>r \<in> set [food_alert 80 41, food_alert 85 43]. alert_id r = 42) \<and>
     \<not> (\<exists>r \<in> set [food_alert 80 41, food_alert 85 43]. alert_id r = 44)" by blast
  let ?c = "\<lparr>store = boundary_db, issued = 0\<rparr>"
  let ?b' = "\<lparr>b_id = 31, b_user_id = 7, b_category_id = Some 11, b_amount = 100, b_month = (2024, 3)\<rparr>"
  have keys': "primary_keys (store ?c)" "alerts_owned (store ?c)"
    by (simp_all add: ex_boundary_keys)
  have b': "?b' \<in> set (budgets (store ?c))" by (simp add: boundary_db_def)
  have pct': "budget_percentage (store ?c) ?b' = 8022036836253695 / 140737488355328"
    by (simp add: ex_boundary_percentage)
  have cmp: "(8022036836253695 / 140737488355328 :: real) < float64_of_int 57"
    "float64_of_int 56 \<le> (8022036836253695 / 140737488355328 :: real)"
    by (simp_all add: float64_exact)
  note inst' = alert_triggered_iff[OF keys' ex_boundary_CheckBudgetAlerts _ _ b', THEN conjunct1]
  have "\<not> (\<exists>r \<in> set [boundary_alert]. alert_id r = 41)"
    using inst'[of "\<lparr>a_id = 41, a_user_id = 7, a_budget_id = 31, a_threshold = 57, a_is_active = True\<rparr>"]
      pct' cmp by (simp add: boundary_db_def ex_DATE_FORMAT_eq)
  moreover have "(\<exists>r \<in> set [boundary_alert]. alert_id r = 42)"
    using inst'[of "\<lparr>a_id = 42, a_user_id = 7, a_budget_id = 31, a_threshold = 56, a_is_active = True\<rparr>"]
      pct' cmp by (simp add: boundary_db_def ex_DATE_FORMAT_eq)
  ultimately have second:
    "\<not> (\<exists>r \<in> set [boundary_alert]. alert_id r = 41) \<and>
     (\<exists>r \<in> set [boundary_alert]. alert_id r = 42)" by blast
  let ?a' = "\<lparr>a_id = 42, a_user_id = 7, a_budget_id = 31, a_threshold = 56, a_is_active = True\<rparr>"
  have a': "?a' \<in> set (budget_alerts (store ?c))" "a_user_id ?a' = 7" "b_id ?b' = a_budget_id ?a'"
    by (simp_all add: boundary_db_def)
  note full = alert_triggered_iff[OF keys' ex_boundary_CheckBudgetAlerts a'(1,2) b' a'(3)]
  from full have "\<forall>r \<in> set [boundary_alert]. alert_id r = a_id ?a' \<longrightarrow>
      used_percent r = budget_percentage (store ?c) ?b' \<and> threshold r = a_threshold ?a' \<and>
      budget_id r = b_id ?b'" by (rule conjunct1[OF conjunct2])
  then have carried: "used_percent boundary_alert = budget_percentage boundary_db ?b'"
    by (simp add: boundary_alert_def)
  from full have "\<forall>Bs c1. GetBudgets no_faults 7 ''2024-03'' ?c = (Inr Bs, c1) \<longrightarrow>
      (\<forall>B \<in> set Bs. ID B = b_id ?b' \<longrightarrow> Percentage B = budget_percentage (store ?c) ?b')"
    by (rule conjunct2[OF conjunct2])
  with ex_boundary_GetBudgets
  have "\<forall>B \<in> set [boundary_budget]. ID B = b_id ?b' \<longrightarrow>
      Percentage B = budget_percentage (store ?c) ?b'" by blast
  then have loaded: "Percentage boundary_budget = budget_percentage boundary_db ?b'"
    by (simp add: boundary_budget_def)
  show ?thesis
    using keys ex_CheckBudgetAlerts pct first ex_boundary_keys ex_boundary_CheckBudgetAlerts
      ex_boundary_percentage cmp second carried ex_boundary_GetBudgets loaded
    by (intro conjI) blast+
qed

text \<open>
  C3. The \<^verbatim>\<open>UsedAmount\<close> of every budget returned is the sum of the user's bills of
  type expense dated from the first to the last day of the budget's month, both
  included, over the budget's category when it has one (\<^verbatim>\<open>CategoryID > 0\<close>) and over
  all categories when it has none. The sum is the exact \<^verbatim>\<open>DECIMAL\<close> of MySQL, and the
  field holds it as a \<^verbatim>\<open>float64\<close>.
\<close>

theorem used_amount_is_month_expenses:
  "(GetBudget F bid u c = (Inr B, c') \<longrightarrow>
      (\<exists>row \<in> set (budgets (store c)). b_id row = bid \<and> b_user_id row = u \<and>
         ID B = bid \<and> Month B = first_day (b_month row) \<and>
         CategoryID B = (case b_category_id row of None \<Rightarrow> 0 | Some k \<Rightarrow> k) \<and>
         UsedAmount B = float64 (expenses_in_month (store c) u (budget_scope B) (b_month row)))) \<and>
   (GetBudgets F u mstr c = (Inr Bs, c'') \<longrightarrow>
      (\<forall>B \<in> set Bs. \<exists>row \<in> set (budgets (store c)). b_id row = ID B \<and> b_user_id row = u \<and>
         DATE_FORMAT_eq (b_month row) mstr \<and> Month B = first_day (b_month row) \<and>
         CategoryID B = (case b_category_id row of None \<Rightarrow> 0 | Some k \<Rightarrow> k) \<and>
         UsedAmount B = float64 (expenses_in_month (store c) u (budget_scope B) (b_month row))))"
proof (intro conjI impI ballI)
  assume "GetBudget F bid u c = (Inr B, c')"
  then obtain r rs b0 where r: "select_budget bid u (store c) = r # rs" "scan_budget r = Inr b0"
    and B: "B = with_usage (store c) u (Month b0, 0) b0"
    using GetBudget_Inr by blast
  from r(1) have "r \<in> set (select_budget bid u (store c))" by simp
  then have row: "fst r \<in> set (budgets (store c))" "b_id (fst r) = bid" "b_user_id (fst r) = u"
    using select_budget_row by blast+
  note f = scan_budget_fields[OF r(2)]
  have "UsedAmount B = float64 (expenses_in_month (store c) u (budget_scope b0) (b_month (fst r)))"
    unfolding B with_usage_fields f(6) by (simp only: used_amount_expenses[OF f(7,8)])
  moreover have "budget_scope B = budget_scope b0"
    by (simp add: B budget_scope_def with_usage_fields)
  ultimately show "\<exists>row \<in> set (budgets (store c)). b_id row = bid \<and> b_user_id row = u \<and>
         ID B = bid \<and> Month B = first_day (b_month row) \<and>
         CategoryID B = (case b_category_id row of None \<Rightarrow> 0 | Some k \<Rightarrow> k) \<and>
         UsedAmount B = float64 (expenses_in_month (store c) u (budget_scope B) (b_month row))"
    using row f B by (intro bexI[of _ "fst r"]) (simp_all add: with_usage_fields)
next
  fix B assume "GetBudgets F u mstr c = (Inr Bs, c'')" and B: "B \<in> set Bs"
  then obtain ym bs where ym: "parse_year_month mstr = Some ym"
    and bs: "map scan_budget (select_budgets u mstr (store c)) = map Inr bs"
    "Bs = map (with_usage (store c) u (month_start ym)) bs"
    using GetBudgets_Inr by blast
  from B bs(2) obtain b0 where b0: "b0 \<in> set bs" "B = with_usage (store c) u (month_start ym) b0"
    by auto
  from map_scan_member[OF bs(1) b0(1)] obtain r where
    r: "r \<in> set (select_budgets u mstr (store c))" "scan_budget r = Inr b0" by blast
  then have row: "fst r \<in> set (budgets (store c))" "b_user_id (fst r) = u"
    "DATE_FORMAT_eq (b_month (fst r)) mstr"
    using select_budgets_row by blast+
  note f = scan_budget_fields[OF r(2)]
  from row(3) ym have eq: "b_month (fst r) = ym" by (simp add: DATE_FORMAT_eq_def)
  have ms: "month_start ym = (first_day ym, 0)" by (simp add: month_start_def first_day_def)
  have "UsedAmount B = float64 (expenses_in_month (store c) u (budget_scope b0) (b_month (fst r)))"
    unfolding b0(2) with_usage_fields ms using used_amount_expenses[of ym] f(7,8) eq by simp
  moreover have "budget_scope B = budget_scope b0"
    by (simp add: b0(2) budget_scope_def with_usage_fields)
  ultimately show "\<exists>row \<in> set (budgets (store c)). b_id row = ID B \<and> b_user_id row = u \<and>
         DATE_FORMAT_eq (b_month row) mstr \<and> Month B = first_day (b_month row) \<and>
         CategoryID B = (case b_category_id row of None \<Rightarrow> 0 | Some k \<Rightarrow> k) \<and>
         UsedAmount B = float64 (expenses_in_month (store c) u (budget_scope B) (b_month row))"
    using row f b0(2) by (intro bexI[of _ "fst r"]) (simp_all add: with_usage_fields)
qed

theorem used_amount_is_month_expenses_witness:
  "GetBudget no_faults 31 7 c0 = (Inr food_budget, c0\<lparr>issued := 2\<rparr>) \<and>
   UsedAmount food_budget = float64 (expenses_in_month example_db 7 (Some 11) (2024, 3)) \<and>
   expenses_in_month example_db 7 (Some 11) (2024, 3) = 850 \<and> UsedAmount food_budget = 850 \<and>
   GetBudgets no_faults 7 ''2024-03'' c0 = (Inr [total_budget, food_budget], c0\<lparr>issued := 3\<rparr>) \<and>
   UsedAmount total_budget = float64 (expenses_in_month example_db 7 None (2024, 3))"
proof -
  note inst = used_amount_is_month_expenses[of no_faults 31 7 c0 food_budget "c0\<lparr>issued := 2\<rparr>"
      "''2024-03''" "[total_budget, food_budget]" "c0\<lparr>issued := 3\<rparr>"]
  have rows: "budgets (store c0) = budgets example_db" by (simp add: c0_def)
  from inst ex_GetBudget_food obtain row where
    "row \<in> set (budgets example_db)" "b_id row = 31"
    "UsedAmount food_budget =
       float64 (expenses_in_month (store c0) 7 (budget_scope food_budget) (b_month row))"
    unfolding rows by blast
  then have a: "UsedAmount food_budget = float64 (expenses_in_month example_db 7 (Some 11) (2024, 3))"
    by (auto simp: example_db_def c0_def budget_scope_def food_budget_def)
  from inst ex_GetBudgets_march obtain row where
    "row \<in> set (budgets example_db)" "b_id row = ID total_budget"
    "UsedAmount total_budget =
       float64 (expenses_in_month (store c0) 7 (budget_scope total_budget) (b_month row))"
    unfolding rows by auto
  then have b: "UsedAmount total_budget = float64 (expenses_in_month example_db 7 None (2024, 3))"
    by (auto simp: example_db_def c0_def budget_scope_def total_budget_def)
  have "UsedAmount food_budget = 850" by (simp add: food_budget_def)
  with a b ex_expenses(1) show ?thesis using ex_GetBudget_food ex_GetBudgets_march by simp
qed

text \<open>
  C4. \<^verbatim>\<open>DeleteBudget(id, userID)\<close> succeeds only for a budget that exists and belongs to
  the user, and then the database has lost exactly the alerts on the budget and the
  budget row. Whenever it returns an error, whichever statement failed, the database is
  as it was: no alert and no budget row is removed.
\<close>

theorem delete_budget_atomic:
  assumes "DeleteBudget F bid u c = (res, c')"
  shows "(\<forall>e. res = Inl e \<longrightarrow> store c' = store c) \<and>
         (res = Inr () \<longrightarrow>
            (\<exists>b \<in> set (budgets (store c)). b_id b = bid \<and> b_user_id b = u) \<and>
            store c' = without_budget bid u (store c))"
proof (intro conjI allI impI)
  fix e assume "res = Inl e"
  with DeleteBudget_cases[OF assms] show "store c' = store c" by auto
next
  assume ok: "res = Inr ()"
  with DeleteBudget_cases[OF assms]
  show "\<exists>b \<in> set (budgets (store c)). b_id b = bid \<and> b_user_id b = u" by auto
  from ok DeleteBudget_cases[OF assms]
  show "store c' = without_budget bid u (store c)" by auto
qed

theorem delete_budget_atomic_witness:
  "DeleteBudget no_faults 31 7 c0 = (Inr (), \<lparr>store = without_budget 31 7 example_db, issued = 6\<rparr>) \<and>
   map a_id (budget_alerts (without_budget 31 7 example_db)) = [45] \<and>
   map b_id (budgets (without_budget 31 7 example_db)) = [32, 33, 34, 35] \<and>
   (\<exists>b \<in> set (budgets example_db). b_id b = 31 \<and> b_user_id b = 7) \<and>
   DeleteBudget (fails_at 3) 31 7 c0 = (Inl SqlDriverError, \<lparr>store = example_db, issued = 5\<rparr>) \<and>
   DeleteBudget (fails_at 4) 31 7 c0 = (Inl SqlDriverError, \<lparr>store = example_db, issued = 6\<rparr>) \<and>
   store \<lparr>store = example_db, issued = 6\<rparr> = store c0"
  using delete_budget_atomic[OF ex_DeleteBudget_ok] delete_budget_atomic[OF ex_DeleteBudget_fail_first]
    delete_budget_atomic[OF ex_DeleteBudget_fail_second]
    ex_DeleteBudget_ok ex_DeleteBudget_fail_first ex_DeleteBudget_fail_second
  by (simp add: c0_def without_budget_def ex_tables)

text \<open>
  C5, at a failing input. User 7 has a total budget for March 2024 (id 32) and one for
  April (id 33). \<^verbatim>\<open>UpdateBudget\<close> of budget 33 with the same (absent) category and
  month \<^verbatim>\<open>2024-03\<close> succeeds, and afterwards two total budgets of user 7 stand in the
  slot of March: the invariant held before and does not hold after.
\<close>

theorem update_moves_into_taken_slot:
  "slot_unique (store c0) \<and>
   UpdateBudget no_faults 33 7 move_request c0 = (Inr moved_budget, \<lparr>store = moved_db, issued = 5\<rparr>) \<and>
   \<not> slot_unique moved_db \<and>
   map b_id (filter (\<lambda>b. b_user_id b = 7 \<and> b_category_id b = None \<and> b_month b = (2024, 3))
     (budgets moved_db)) = [32, 33]"
  using ex_UpdateBudget_move
  by (simp add: slot_unique_def c0_def ex_tables moved_db_def)

text \<open>
  C6, at the same input. The request changes the month of budget 33 and keeps its
  category. The placement check, run for this request with budget 33 excluded, answers
  that the month already has a total budget; \<^verbatim>\<open>UpdateBudget\<close> does not run it (five
  statements: two lookups of two reads each and the update) and succeeds.
\<close>

theorem update_month_not_validated:
  "CategoryID april_budget = req_CategoryID move_request \<and>
   Month april_budget \<noteq> Month moved_budget \<and>
   GetBudget no_faults 33 7 c0 = (Inr april_budget, c0\<lparr>issued := 2\<rparr>) \<and>
   check_placement no_faults 7 move_request (Some 33) c0 =
     (Inl ErrTotalBudgetExists, c0\<lparr>issued := 1\<rparr>) \<and>
   UpdateBudget no_faults 33 7 move_request c0 = (Inr moved_budget, \<lparr>store = moved_db, issued = 5\<rparr>)"
  using ex_UpdateBudget_move ex_check_placement_move ex_GetBudget_april
  by (simp add: april_budget_def moved_budget_def move_request_def first_day_def)

text \<open>
  C7, as stated: a threshold outside 1..100 fails with a validation error before any
  persistence call. The code looks the budget up first. With threshold 150 on an
  existing budget two statements have been issued when the validation error comes
  back, and on a budget that does not exist the error is the lookup's not-found error.
\<close>

theorem create_alert_validation_not_first:
  "CreateBudgetAlert no_faults 7 \<lparr>areq_BudgetID = 31, areq_Threshold = 150, areq_IsActive = True\<rparr> c0 =
     (Inl ErrThresholdRange, c0\<lparr>issued := 2\<rparr>) \<and>
   issued c0 = 0 \<and> issued (c0\<lparr>issued := 2\<rparr>) = 2 \<and>
   CreateBudgetAlert no_faults 7 \<lparr>areq_BudgetID = 99, areq_Threshold = 150, areq_IsActive = True\<rparr> c0 =
     (Inl ErrBudgetNotFound, c0\<lparr>issued := 1\<rparr>) \<and>
   classify ErrBudgetNotFound \<noteq> ValidationError"
  using ex_CreateBudgetAlert_range ex_CreateBudgetAlert_missing by (simp add: c0_def)

text \<open>
  C7, amended. \<^verbatim>\<open>CreateBudgetAlert\<close> looks the budget up first. When the lookup fails,
  its error is the result whatever the threshold, and nothing is written: for a budget
  that does not exist or belongs to another user, the not-found error after one
  statement, unless the statement itself fails in the driver. With a threshold outside
  1..100 the call always fails and writes nothing; once the lookup has succeeded (two
  reads) it fails with the threshold validation error, before the duplicate check and
  before any write. When the lookup has succeeded, the threshold is in range and an
  alert with the same threshold exists on the budget, it fails with a conflict error.
  When the lookup has succeeded, the threshold is in range, no alert on the budget has
  it and the two remaining statements do not fail, the alert is created. The call
  succeeds only if the budget exists and belongs to the user, the threshold is in
  1..100 and no alert on the budget has that threshold, and then adds exactly the new
  alert.
\<close>

theorem create_alert_checks:
  assumes run: "CreateBudgetAlert F u req c = (res, c')"
  shows "(\<forall>e c1. GetBudget F (areq_BudgetID req) u c = (Inl e, c1) \<longrightarrow>
            res = Inl e \<and> c' = c1 \<and> store c' = store c) \<and>
         (\<not> (\<exists>b \<in> set (budgets (store c)). b_id b = areq_BudgetID req \<and> b_user_id b = u) \<longrightarrow>
            res = Inl (if F (issued c) then SqlDriverError else ErrBudgetNotFound) \<and>
            classify ErrBudgetNotFound = NotFoundError \<and>
            c' = c\<lparr>issued := issued c + 1\<rparr>) \<and>
         (areq_Threshold req < 1 \<or> areq_Threshold req > 100 \<longrightarrow>
            (\<exists>e. res = Inl e) \<and> store c' = store c) \<and>
         (\<forall>B c1. GetBudget F (areq_BudgetID req) u c = (Inr B, c1) \<and>
            (areq_Threshold req < 1 \<or> areq_Threshold req > 100) \<longrightarrow>
            res = Inl ErrThresholdRange \<and> classify ErrThresholdRange = ValidationError \<and>
            c' = c\<lparr>issued := issued c + 2\<rparr>) \<and>
         (\<forall>B c1. GetBudget F (areq_BudgetID req) u c = (Inr B, c1) \<and>
            1 \<le> areq_Threshold req \<and> areq_Threshold req \<le> 100 \<and> \<not> F (issued c1) \<and>
            (\<exists>a \<in> set (budget_alerts (store c)).
               a_budget_id a = areq_BudgetID req \<and> a_threshold a = areq_Threshold req) \<longrightarrow>
            res = Inl (ErrAlertExists (areq_Threshold req)) \<and>
            classify (ErrAlertExists (areq_Threshold req)) = ConflictError \<and>
            store c' = store c) \<and>
         (\<forall>B c1. GetBudget F (areq_BudgetID req) u c = (Inr B, c1) \<and>
            1 \<le> areq_Threshold req \<and> areq_Threshold req \<le> 100 \<and>
            \<not> F (issued c1) \<and> \<not> F (Suc (issued c1)) \<and>
            \<not> (\<exists>a \<in> set (budget_alerts (store c)).
                  a_budget_id a = areq_BudgetID req \<and> a_threshold a = areq_Threshold req) \<longrightarrow>
            res = Inr \<lparr>alert_ID = next_alert_id (store c), alert_UserID = u,
                        alert_BudgetID = areq_BudgetID req, alert_Threshold = areq_Threshold req,
                        alert_IsActive = areq_IsActive req\<rparr> \<and>
            store c' = with_alert u req (store c)) \<and>
         (\<forall>A. res = Inr A \<longrightarrow>
            (\<exists>b \<in> set (budgets (store c)). b_id b = areq_BudgetID req \<and> b_user_id b = u) \<and>
            1 \<le> areq_Threshold req \<and> areq_Threshold req \<le> 100 \<and>
            \<not> (\<exists>a \<in> set (budget_alerts (store c)).
                  a_budget_id a = areq_BudgetID req \<and> a_threshold a = areq_Threshold req) \<and>
            store c' = with_alert u req (store c) \<and>
            A = \<lparr>alert_ID = next_alert_id (store c), alert_UserID = u,
                  alert_BudgetID = areq_BudgetID req, alert_Threshold = areq_Threshold req,
                  alert_IsActive = areq_IsActive req\<rparr>)"
proof -
  note old = CreateBudgetAlert_outcomes[OF run]
  have lookup: "\<forall>e c1. GetBudget F (areq_BudgetID req) u c = (Inl e, c1) \<longrightarrow>
            res = Inl e \<and> c' = c1 \<and> store c' = store c"
  proof (intro allI impI)
    fix e c1 assume g: "GetBudget F (areq_BudgetID req) u c = (Inl e, c1)"
    from CreateBudgetAlert_lookup_failed[OF g] run have "res = Inl e" "c' = c1" by simp_all
    with GetBudget_store[OF g] show "res = Inl e \<and> c' = c1 \<and> store c' = store c" by simp
  qed
  have missing: "res = Inl (if F (issued c) then SqlDriverError else ErrBudgetNotFound) \<and>
            classify ErrBudgetNotFound = NotFoundError \<and> c' = c\<lparr>issued := issued c + 1\<rparr>"
    if none: "\<not> (\<exists>b \<in> set (budgets (store c)). b_id b = areq_BudgetID req \<and> b_user_id b = u)"
  proof (cases "F (issued c)")
    case True
    have "GetBudget F (areq_BudgetID req) u c = (Inl SqlDriverError, c\<lparr>issued := Suc (issued c)\<rparr>)"
      using True by (rule GetBudget_fault[where F = F and c = c])
    from CreateBudgetAlert_lookup_failed[OF this] run True
    show ?thesis by simp
  next
    case False
    have "GetBudget F (areq_BudgetID req) u c = (Inl ErrBudgetNotFound, c\<lparr>issued := Suc (issued c)\<rparr>)"
      using False none by (rule GetBudget_not_found[where F = F and c = c])
    from CreateBudgetAlert_lookup_failed[OF this] run False
    show ?thesis by simp
  qed
  have created: "\<forall>B c1. GetBudget F (areq_BudgetID req) u c = (Inr B, c1) \<and>
            1 \<le> areq_Threshold req \<and> areq_Threshold req \<le> 100 \<and>
            \<not> F (issued c1) \<and> \<not> F (Suc (issued c1)) \<and>
            \<not> (\<exists>a \<in> set (budget_alerts (store c)).
                  a_budget_id a = areq_BudgetID req \<and> a_threshold a = areq_Threshold req) \<longrightarrow>
            res = Inr \<lparr>alert_ID = next_alert_id (store c), alert_UserID = u,
                        alert_BudgetID = areq_BudgetID req, alert_Threshold = areq_Threshold req,
                        alert_IsActive = areq_IsActive req\<rparr> \<and>
            store c' = with_alert u req (store c)"
  proof (intro allI impI, elim conjE)
    fix B c1
    assume "GetBudget F (areq_BudgetID req) u c = (Inr B, c1)"
      "1 \<le> areq_Threshold req" "areq_Threshold req \<le> 100"
      "\<not> F (issued c1)" "\<not> F (Suc (issued c1))"
      "\<not> (\<exists>a \<in> set (budget_alerts (store c)).
                  a_budget_id a = areq_BudgetID req \<and> a_threshold a = areq_Threshold req)"
    from CreateBudgetAlert_created[OF this] run
    show "res = Inr \<lparr>alert_ID = next_alert_id (store c), alert_UserID = u,
                        alert_BudgetID = areq_BudgetID req, alert_Threshold = areq_Threshold req,
                        alert_IsActive = areq_IsActive req\<rparr> \<and>
            store c' = with_alert u req (store c)" by simp
  qed
  from old have o1: "areq_Threshold req < 1 \<or> areq_Threshold req > 100 \<longrightarrow>
            (\<exists>e. res = Inl e) \<and> store c' = store c" by (rule conjunct1)
  from old have o2: "\<forall>B c1. GetBudget F (areq_BudgetID req) u c = (Inr B, c1) \<and>
            (areq_Threshold req < 1 \<or> areq_Threshold req > 100) \<longrightarrow>
            res = Inl ErrThresholdRange \<and> classify ErrThresholdRange = ValidationError \<and>
            c' = c\<lparr>issued := issued c + 2\<rparr>" by (rule conjunct1[OF conjunct2])
  from old have o3: "\<forall>B c1. GetBudget F (areq_BudgetID req) u c = (Inr B, c1) \<and>
            1 \<le> areq_Threshold req \<and> areq_Threshold req \<le> 100 \<and> \<not> F (issued c1) \<and>
            (\<exists>a \<in> set (budget_alerts (store c)).
               a_budget_id a = areq_BudgetID req \<and> a_threshold a = areq_Threshold req) \<longrightarrow>
            res = Inl (ErrAlertExists (areq_Threshold req)) \<and>
            classify (ErrAlertExists (areq_Threshold req)) = ConflictError \<and>
            store c' = store c" by (rule conjunct1[OF conjunct2[OF conjunct2]])
  from old have o4: "\<forall>A. res = Inr A \<longrightarrow>
            (\<exists>b \<in> set (budgets (store c)). b_id b = areq_BudgetID req \<and> b_user_id b = u) \<and>
            1 \<le> areq_Threshold req \<and> areq_Threshold req \<le> 100 \<and>
            \<not> (\<exists>a \<in> set (budget_alerts (store c)).
                  a_budget_id a = areq_BudgetID req \<and> a_threshold a = areq_Threshold req) \<and>
            store c' = with_alert u req (store c) \<and>
            A = \<lparr>alert_ID = next_alert_id (store c), alert_UserID = u,
                  alert_BudgetID = areq_BudgetID req, alert_Threshold = areq_Threshold req,
                  alert_IsActive = areq_IsActive req\<rparr>" by (rule conjunct2[OF conjunct2[OF conjunct2]])
  from missing have m: "\<not> (\<exists>b \<in> set (budgets (store c)). b_id b = areq_BudgetID req \<and> b_user_id b = u) \<longrightarrow>
            res = Inl (if F (issued c) then SqlDriverError else ErrBudgetNotFound) \<and>
            classify ErrBudgetNotFound = NotFoundError \<and>
            c' = c\<lparr>issued := issued c + 1\<rparr>" by (rule impI)
  show ?thesis
    by (rule conjI[OF lookup conjI[OF m conjI[OF o1 conjI[OF o2 conjI[OF o3 conjI[OF created o4]]]]]])
qed

theorem create_alert_checks_witness:
  "CreateBudgetAlert no_faults 7 \<lparr>areq_BudgetID = 99, areq_Threshold = 150, areq_IsActive = True\<rparr> c0 =
     (Inl ErrBudgetNotFound, c0\<lparr>issued := 1\<rparr>) \<and>
   \<not> (\<exists>b \<in> set (budgets (store c0)). b_id b = 99) \<and>
   CreateBudgetAlert no_faults 7 \<lparr>areq_BudgetID = 34, areq_Threshold = 150, areq_IsActive = True\<rparr> c0 =
     (Inl ErrBudgetNotFound, c0\<lparr>issued := 1\<rparr>) \<and>
   CreateBudgetAlert no_faults 7 \<lparr>areq_BudgetID = 34, areq_Threshold = 50, areq_IsActive = True\<rparr> c0 =
     (Inl ErrBudgetNotFound, c0\<lparr>issued := 1\<rparr>) \<and>
   (\<exists>b \<in> set (budgets (store c0)). b_id b = 34 \<and> b_user_id b = 8) \<and>
   \<not> (\<exists>b \<in> set (budgets (store c0)). b_id b = 34 \<and> b_user_id b = 7) \<and>
   classify ErrBudgetNotFound = NotFoundError \<and>
   store (c0\<lparr>issued := 1\<rparr>) = store c0 \<and>
   CreateBudgetAlert (fails_at 0) 7 \<lparr>areq_BudgetID = 34, areq_Threshold = 50, areq_IsActive = True\<rparr> c0 =
     (Inl SqlDriverError, c0\<lparr>issued := 1\<rparr>) \<and>
   CreateBudgetAlert no_faults 7 \<lparr>areq_BudgetID = 31, areq_Threshold = 150, areq_IsActive = True\<rparr> c0 =
     (Inl ErrThresholdRange, c0\<lparr>issued := issued c0 + 2\<rparr>) \<and>
   classify ErrThresholdRange = ValidationError \<and>
   CreateBudgetAlert no_faults 7 \<lparr>areq_BudgetID = 31, areq_Threshold = 80, areq_IsActive = True\<rparr> c0 =
     (Inl (ErrAlertExists 80), c0\<lparr>issued := 3\<rparr>) \<and>
   classify (ErrAlertExists 80) = ConflictError \<and>
   fst (CreateBudgetAlert no_faults 7 \<lparr>areq_BudgetID = 31, areq_Threshold = 70, areq_IsActive = True\<rparr> c0) =
     Inr \<lparr>alert_ID = 46, alert_UserID = 7, alert_BudgetID = 31, alert_Threshold = 70,
          alert_IsActive = True\<rparr> \<and>
   (\<exists>b \<in> set (budgets (store c0)). b_id b = 31 \<and> b_user_id b = 7) \<and>
   \<not> (\<exists>a \<in> set (budget_alerts (store c0)). a_budget_id a = 31 \<and> a_threshold a = 70)"
proof -
  let ?missing = "\<lparr>areq_BudgetID = 99, areq_Threshold = 150, areq_IsActive = True\<rparr>"
  let ?foreign = "\<lparr>areq_BudgetID = 34, areq_Threshold = 150, areq_IsActive = True\<rparr>"
  let ?foreign' = "\<lparr>areq_BudgetID = 34, areq_Threshold = 50, areq_IsActive = True\<rparr>"
  have rows: "\<not> (\<exists>b \<in> set (budgets (store c0)). b_id b = 99)"
    "\<exists>b \<in> set (budgets (store c0)). b_id b = 34 \<and> b_user_id b = 8"
    "\<not> (\<exists>b \<in> set (budgets (store c0)). b_id b = 34 \<and> b_user_id b = 7)"
    "\<exists>b \<in> set (budgets (store c0)). b_id b = 31 \<and> b_user_id b = 7"
    "\<not> (\<exists>a \<in> set (budget_alerts (store c0)). a_budget_id a = 31 \<and> a_threshold a = 70)"
    by (simp_all add: c0_def ex_tables)
  have i0: "issued c0 = 0" by (simp add: c0_def)
  obtain r1 c1 where run1: "CreateBudgetAlert no_faults 7 ?missing c0 = (r1, c1)" by fastforce
  from create_alert_checks[OF run1] rows(1) have
    "r1 = Inl ErrBudgetNotFound" "c1 = c0\<lparr>issued := 1\<rparr>"
    by (simp_all add: no_faults_simp i0)
  with run1 have a: "CreateBudgetAlert no_faults 7 ?missing c0 =
     (Inl ErrBudgetNotFound, c0\<lparr>issued := 1\<rparr>)" by simp
  obtain r2 c2 where run2: "CreateBudgetAlert no_faults 7 ?foreign c0 = (r2, c2)" by fastforce
  from create_alert_checks[OF run2] rows(3) have
    "r2 = Inl ErrBudgetNotFound" "c2 = c0\<lparr>issued := 1\<rparr>"
    by (simp_all add: no_faults_simp i0)
  with run2 have b: "CreateBudgetAlert no_faults 7 ?foreign c0 =
     (Inl ErrBudgetNotFound, c0\<lparr>issued := 1\<rparr>)" by simp
  obtain r3 c3 where run3: "CreateBudgetAlert no_faults 7 ?foreign' c0 = (r3, c3)" by fastforce
  from create_alert_checks[OF run3] rows(3) have
    "r3 = Inl ErrBudgetNotFound" "c3 = c0\<lparr>issued := 1\<rparr>"
    by (simp_all add: no_faults_simp i0)
  with run3 have c: "CreateBudgetAlert no_faults 7 ?foreign' c0 =
     (Inl ErrBudgetNotFound, c0\<lparr>issued := 1\<rparr>)" by simp
  obtain r4 c4 where run4: "CreateBudgetAlert (fails_at 0) 7 ?foreign' c0 = (r4, c4)" by fastforce
  from create_alert_checks[OF run4] rows(3) have
    "r4 = Inl SqlDriverError" "c4 = c0\<lparr>issued := 1\<rparr>"
    by (simp_all add: fails_at_def i0)
  with run4 have d: "CreateBudgetAlert (fails_at 0) 7 ?foreign' c0 =
     (Inl SqlDriverError, c0\<lparr>issued := 1\<rparr>)" by simp
  have e: "classify ErrBudgetNotFound = NotFoundError" "classify ErrThresholdRange = ValidationError"
    "classify (ErrAlertExists 80) = ConflictError" "store (c0\<lparr>issued := 1\<rparr>) = store c0"
    by simp_all
  have f: "CreateBudgetAlert no_faults 7
      \<lparr>areq_BudgetID = 31, areq_Threshold = 150, areq_IsActive = True\<rparr> c0 =
     (Inl ErrThresholdRange, c0\<lparr>issued := issued c0 + 2\<rparr>)"
    using create_alert_checks[OF ex_CreateBudgetAlert_range] ex_CreateBudgetAlert_range
    by (simp add: i0)
  have g: "fst (CreateBudgetAlert no_faults 7
      \<lparr>areq_BudgetID = 31, areq_Threshold = 70, areq_IsActive = True\<rparr> c0) =
     Inr \<lparr>alert_ID = 46, alert_UserID = 7, alert_BudgetID = 31, alert_Threshold = 70,
          alert_IsActive = True\<rparr>"
    using ex_CreateBudgetAlert_ok by simp
  show ?thesis
    using a b c d e f g rows ex_CreateBudgetAlert_duplicate by (intro conjI)
qed

text \<open>
  C8, at a failing input. For a category id that no category has, the query
  \<^verbatim>\<open>SELECT EXISTS(...), type FROM categories WHERE id = ?\<close> has no row, and
  \<^verbatim>\<open>CreateBudget\<close> and \<^verbatim>\<open>UpdateBudget\<close> hand back \<^verbatim>\<open>sql.ErrNoRows\<close> instead of
  the validation error they return for another user's category or an income category.
\<close>

theorem missing_category_raw_error:
  "CreateBudget no_faults 7 \<lparr>req_CategoryID = 99, req_Amount = 100, req_Month = ''2024-03''\<rparr> c0 =
     (Inl SqlErrNoRows, c0\<lparr>issued := 1\<rparr>) \<and>
   classify SqlErrNoRows = PersistenceError \<and>
   UpdateBudget no_faults 32 7 \<lparr>req_CategoryID = 99, req_Amount = 100, req_Month = ''2024-03''\<rparr> c0 =
     (Inl SqlErrNoRows, c0\<lparr>issued := 3\<rparr>) \<and>
   CreateBudget no_faults 7 \<lparr>req_CategoryID = 13, req_Amount = 100, req_Month = ''2024-03''\<rparr> c0 =
     (Inl ErrCategoryNotOwned, c0\<lparr>issued := 1\<rparr>) \<and>
   CreateBudget no_faults 7 \<lparr>req_CategoryID = 12, req_Amount = 100, req_Month = ''2024-03''\<rparr> c0 =
     (Inl ErrCategoryNotExpense, c0\<lparr>issued := 1\<rparr>)"
proof -
  have s: "store c0 = example_db" "issued c0 = 0"
    by (simp_all add: c0_def)
  have g: "GetBudget no_faults 32 7 c0 = (Inr total_budget, c0\<lparr>issued := 2\<rparr>)"
  proof -
    have sel: "select_budget 32 7 (store c0) =
       [(\<lparr>b_id = 32, b_user_id = 7, b_category_id = None, b_amount = 2000, b_month = (2024, 3)\<rparr>, None)]"
      by (simp add: select_budget_def left_join_category_def c0_def ex_tables)
    show ?thesis
      using GetBudget_success[of no_faults c0 32 7, OF no_faults_simp no_faults_simp sel ex_scan(2)]
      by (simp add: c0_def ex_with_usage ex_Month)
  qed
  have u: "UpdateBudget no_faults 32 7 \<lparr>req_CategoryID = 99, req_Amount = 100, req_Month = ''2024-03''\<rparr> c0 =
     (Inl SqlErrNoRows, c0\<lparr>issued := 3\<rparr>)"
    unfolding UpdateBudget_def g
    by (simp add: total_budget_def ex_check_placement_categories s
        del: parse_year_month.simps)
  show ?thesis
    using u
    by (simp add: CreateBudget_def ex_time_Parse ex_check_placement_categories s
        del: parse_year_month.simps)
qed

text \<open>
  C9. When no statement fails, \<^verbatim>\<open>CheckBudgetAlerts(u)\<close> returns a list, and an active
  alert of \<open>u\<close> whose parent budget lies in the current month but is not among the
  budgets loaded for \<open>u\<close> has no record in it: the alert is skipped and the call does not
  fail.
\<close>

theorem orphan_alert_skipped:
  assumes nf: "\<forall>n. \<not> F n" and ym: "parse_year_month cm = Some ym"
    and pk: "distinct (map a_id (budget_alerts (store c)))"
    and a: "a \<in> set (budget_alerts (store c))" "a_user_id a = u" "a_is_active a"
    and parent: "b \<in> set (budgets (store c))" "b_id b = a_budget_id a"
      "DATE_FORMAT_eq (b_month b) cm"
    and orphan: "\<not> (\<exists>b' \<in> set (budgets (store c)). b_id b' = a_budget_id a \<and> b_user_id b' = u \<and>
                     DATE_FORMAT_eq (b_month b') cm)"
  shows "\<exists>rs c'. CheckBudgetAlerts F u cm c = (Inr rs, c') \<and> (\<forall>r \<in> set rs. alert_id r \<noteq> a_id a)"
proof -
  let ?db = "store c"
  obtain bs where scans: "map scan_budget (select_budgets u cm ?db) = map Inr bs"
    using scans_succeed[OF ym] by blast
  let ?loaded = "map (with_usage ?db u (month_start ym)) bs"
  let ?rs = "alerts_loop ?loaded [] (select_active_alerts u cm ?db)"
  have run: "CheckBudgetAlerts F u cm c = (Inr ?rs, c\<lparr>issued := issued c + length bs + 2\<rparr>)"
    by (rule CheckBudgetAlerts_success[OF nf ym scans])
  have "alert_id r \<noteq> a_id a" if "r \<in> set ?rs" for r
  proof
    assume eq: "alert_id r = a_id a"
    from that obtain row B where
      row: "row \<in> set (select_active_alerts u cm ?db)" and
      fb: "find_budget ?loaded (a_budget_id (fst row)) = Some B" and
      req: "r = alertInfo row B"
      unfolding alerts_loop_set by auto
    from row have "fst row \<in> set (budget_alerts ?db)" by (simp add: select_active_alerts_iff)
    moreover from req eq have "a_id (fst row) = a_id a" by (simp add: alertInfo_def)
    ultimately have "fst row = a" using distinct_map_eq[OF pk _ a(1)] by blast
    with find_budget_Some[OF fb] have B: "B \<in> set ?loaded" "ID B = a_budget_id a" by simp_all
    from loaded_budget[OF scans ym B(1)] B(2) orphan show False by auto
  qed
  with run show ?thesis by blast
qed

theorem orphan_alert_skipped_witness:
  "\<lparr>a_id = 46, a_user_id = 7, a_budget_id = 34, a_threshold = 10, a_is_active = True\<rparr>
     \<in> set (budget_alerts orphan_db) \<and>
   \<lparr>b_id = 34, b_user_id = 8, b_category_id = Some 13, b_amount = 50, b_month = (2024, 3)\<rparr>
     \<in> set (budgets orphan_db) \<and>
   budget_percentage orphan_db
     \<lparr>b_id = 34, b_user_id = 8, b_category_id = Some 13, b_amount = 50, b_month = (2024, 3)\<rparr> = 198 \<and>
   (\<exists>rs c'. CheckBudgetAlerts no_faults 7 ''2024-03'' \<lparr>store = orphan_db, issued = 0\<rparr> = (Inr rs, c') \<and>
      list_all (\<lambda>r. alert_id r \<noteq> 46) rs)"
proof -
  let ?a = "\<lparr>a_id = 46, a_user_id = 7, a_budget_id = 34, a_threshold = 10, a_is_active = True\<rparr>"
  let ?b = "\<lparr>b_id = 34, b_user_id = 8, b_category_id = Some 13, b_amount = 50, b_month = (2024, 3)\<rparr>"
  let ?c = "\<lparr>store = orphan_db, issued = 0\<rparr>"
  have a: "?a \<in> set (budget_alerts (store ?c))" by (simp add: orphan_db_def)
  have b: "?b \<in> set (budgets (store ?c))" by (simp add: orphan_db_def example_db_def)
  have pk: "distinct (map a_id (budget_alerts (store ?c)))"
    by (simp add: orphan_db_def example_db_def)
  have orphan: "\<not> (\<exists>b' \<in> set (budgets (store ?c)). b_id b' = a_budget_id ?a \<and> b_user_id b' = 7 \<and>
                     DATE_FORMAT_eq (b_month b') ''2024-03'')"
    by (simp add: orphan_db_def example_db_def)
  have pct: "budget_percentage orphan_db ?b = 198"
    by (simp add: budget_percentage_def row_scope_def expenses_in_month_def orphan_db_def
        example_db_def date_le_def first_day_def last_day_def days_in_month_def
        float64_exact ex_float64)
  have "\<exists>rs c'. CheckBudgetAlerts no_faults 7 ''2024-03'' ?c = (Inr rs, c') \<and>
      (\<forall>r \<in> set rs. alert_id r \<noteq> a_id ?a)"
    by (rule orphan_alert_skipped[OF _ ex_parse pk a _ _ b _ _ orphan])
       (simp_all add: no_faults_simp ex_DATE_FORMAT_eq)
  then show ?thesis using a b pct by (simp add: list_all_iff)
qed

text \<open>
  C10. In a database where ids are primary keys and every alert points to a budget of
  its own user, any operation run as user \<open>u\<close>, whatever it returns and whichever of its
  statements fail, leaves the budgets and the alerts of every other user \<open>v\<close> as they
  were, and every record it returns belongs to \<open>u\<close>: a budget or an alert carries the
  user id \<open>u\<close>, and a triggered-alert record names an alert of \<open>u\<close> and a budget of \<open>u\<close>.
\<close>

theorem tenant_isolation:
  assumes pk: "primary_keys (store c)" and own: "alerts_owned (store c)" and uv: "u \<noteq> v"
    and run: "handle F u op c = (res, c')"
  shows "budgets_of v (store c') = budgets_of v (store c) \<and>
         alerts_of v (store c') = alerts_of v (store c) \<and>
         (\<forall>r. res = Inr r \<longrightarrow> owned_by (store c') u r)"
proof -
  have goal: ?thesis if "same_for v (store c) (store c')" "\<And>r. res = Inr r \<Longrightarrow> owned_by (store c') u r"
    using that by (simp add: same_for_def)
  show ?thesis
  proof (cases op)
    case (List m)
    with run have "respond Budgets (GetBudgets F u m c) = (res, c')" by simp
    then show ?thesis
    proof (cases rule: respond_cases)
      case (error e)
      with GetBudgets_store show ?thesis by (intro goal) (auto simp: same_for_eq)
    next
      case (ok Bs)
      with GetBudgets_store[OF ok(1)] GetBudgets_UserID[OF ok(1)] show ?thesis
        by (intro goal) (auto simp: same_for_eq list_all_iff)
    qed
  next
    case (Create req)
    with run have "respond OneBudget (CreateBudget F u req c) = (res, c')" by simp
    then show ?thesis
    proof (cases rule: respond_cases)
      case (error e)
      with CreateBudget_same_for[OF uv] show ?thesis by (intro goal) auto
    next
      case (ok B)
      then have "\<exists>bid c2. GetBudget F bid u c2 = (Inr B, c')"
        by (auto simp: CreateBudget_def split: option.splits prod.splits sum.splits)
      with GetBudget_UserID have "UserID B = u" by blast
      with ok CreateBudget_same_for[OF uv ok(1)] show ?thesis by (intro goal) auto
    qed
  next
    case (Get bid)
    with run have "respond OneBudget (GetBudget F bid u c) = (res, c')" by simp
    then show ?thesis
    proof (cases rule: respond_cases)
      case (error e)
      with GetBudget_store show ?thesis by (intro goal) (auto simp: same_for_eq)
    next
      case (ok B)
      with GetBudget_store[OF ok(1)] GetBudget_UserID[OF ok(1)] show ?thesis
        by (intro goal) (auto simp: same_for_eq)
    qed
  next
    case (Update bid req)
    with run have "respond OneBudget (UpdateBudget F bid u req c) = (res, c')" by simp
    then show ?thesis
    proof (cases rule: respond_cases)
      case (error e)
      with UpdateBudget_same_for[OF uv] show ?thesis by (intro goal) auto
    next
      case (ok B)
      then have "\<exists>c2. GetBudget F bid u c2 = (Inr B, c')"
        by (auto simp: UpdateBudget_def split: option.splits prod.splits sum.splits if_splits)
      with GetBudget_UserID have "UserID B = u" by blast
      with ok UpdateBudget_same_for[OF uv ok(1)] show ?thesis by (intro goal) auto
    qed
  next
    case (Delete bid)
    with run have "respond (\<lambda>_. Nothing) (DeleteBudget F bid u c) = (res, c')" by simp
    then show ?thesis
    proof (cases rule: respond_cases)
      case (error e)
      with DeleteBudget_same_for[OF pk own uv] show ?thesis by (intro goal) auto
    next
      case (ok y)
      with DeleteBudget_same_for[OF pk own uv ok(1)] show ?thesis by (intro goal) auto
    qed
  next
    case (CreateAlert req)
    with run have "respond OneAlert (CreateBudgetAlert F u req c) = (res, c')" by simp
    then show ?thesis
    proof (cases rule: respond_cases)
      case (error e)
      with CreateBudgetAlert_same_for[OF uv] show ?thesis by (intro goal) auto
    next
      case (ok A)
      with CreateBudgetAlert_same_for[OF uv ok(1)] CreateBudgetAlert_owner[OF ok(1)]
      show ?thesis by (intro goal) auto
    qed
  next
    case (ListAlerts bid)
    with run have "respond Alerts (GetBudgetAlerts F u bid c) = (res, c')" by simp
    then show ?thesis
    proof (cases rule: respond_cases)
      case (error e)
      with GetBudgetAlerts_store show ?thesis by (intro goal) (auto simp: same_for_eq)
    next
      case (ok As)
      with GetBudgetAlerts_store[OF ok(1)] GetBudgetAlerts_owner[OF ok(1)] show ?thesis
        by (intro goal) (auto simp: same_for_eq list_all_iff)
    qed
  next
    case (UpdateAlert aid req)
    with run have "respond OneAlert (UpdateBudgetAlert F aid u req c) = (res, c')" by simp
    then show ?thesis
    proof (cases rule: respond_cases)
      case (error e)
      with UpdateBudgetAlert_same_for[OF uv] show ?thesis by (intro goal) auto
    next
      case (ok A)
      with UpdateBudgetAlert_same_for[OF uv ok(1)] UpdateBudgetAlert_owner[OF pk ok(1)]
      show ?thesis by (intro goal) auto
    qed
  next
    case (DeleteAlert aid)
    with run have "respond (\<lambda>_. Nothing) (DeleteBudgetAlert F aid u c) = (res, c')" by simp
    then show ?thesis
    proof (cases rule: respond_cases)
      case (error e)
      with DeleteBudgetAlert_same_for[OF uv] show ?thesis by (intro goal) auto
    next
      case (ok y)
      with DeleteBudgetAlert_same_for[OF uv ok(1)] show ?thesis by (intro goal) auto
    qed
  next
    case (CheckAlerts now)
    with run have "respond Triggered (CheckBudgetAlerts F u now c) = (res, c')" by simp
    then show ?thesis
    proof (cases rule: respond_cases)
      case (error e)
      with CheckBudgetAlerts_store show ?thesis by (intro goal) (auto simp: same_for_eq)
    next
      case (ok rs)
      note st = CheckBudgetAlerts_store[OF ok(1)]
      have "owned_by (store c') u (Triggered rs)"
        using CheckBudgetAlerts_owned[OF ok(1)] st
        by (simp add: list_all_iff list_ex_iff)
      with ok st show ?thesis by (intro goal) (auto simp: same_for_eq)
    qed
  qed
qed

theorem tenant_isolation_witness:
  "primary_keys (store c0) \<and> alerts_owned (store c0) \<and> (7::nat) \<noteq> 8 \<and>
   handle no_faults 7 (Delete 31) c0 =
     (Inr Nothing, \<lparr>store = without_budget 31 7 example_db, issued = 6\<rparr>) \<and>
   budgets_of 8 (without_budget 31 7 example_db) = budgets_of 8 example_db \<and>
   alerts_of 8 (without_budget 31 7 example_db) = alerts_of 8 example_db \<and>
   map b_id (budgets_of 8 example_db) = [34] \<and>
   map a_id (alerts_of 8 example_db) = [45] \<and>
   handle no_faults 7 (CheckAlerts ''2024-03'') c0 =
     (Inr (Triggered [food_alert 80 41, food_alert 85 43]), c0\<lparr>issued := 4\<rparr>) \<and>
   owned_by example_db 7 (Triggered [food_alert 80 41, food_alert 85 43])"
proof -
  have keys: "primary_keys (store c0)" "alerts_owned (store c0)"
    by (simp_all add: c0_def ex_keys)
  have uv: "(7::nat) \<noteq> 8" by simp
  have d: "handle no_faults 7 (Delete 31) c0 =
     (Inr Nothing, \<lparr>store = without_budget 31 7 example_db, issued = 6\<rparr>)"
    by (simp add: respond_def ex_DeleteBudget_ok)
  have k: "handle no_faults 7 (CheckAlerts ''2024-03'') c0 =
     (Inr (Triggered [food_alert 80 41, food_alert 85 43]), c0\<lparr>issued := 4\<rparr>)"
    by (simp add: respond_def ex_CheckBudgetAlerts del: parse_year_month.simps)
  have s: "store c0 = example_db" by (simp add: c0_def)
  from tenant_isolation[OF keys uv d] tenant_isolation[OF keys uv k]
  have "budgets_of 8 (without_budget 31 7 example_db) = budgets_of 8 example_db"
    "alerts_of 8 (without_budget 31 7 example_db) = alerts_of 8 example_db"
    "owned_by example_db 7 (Triggered [food_alert 80 41, food_alert 85 43])"
    by (simp_all add: s)
  moreover have "map b_id (budgets_of 8 example_db) = [34]" "map a_id (alerts_of 8 example_db) = [45]"
    by (simp_all add: budgets_of_def alerts_of_def ex_tables)
  ultimately show ?thesis using keys uv d k by blast
qed

end
